theory Spec2Isabelle
  imports Complex_Main "HOL-Library.Sublist" "HOL-Library.List_Lexorder" "HOL-Library.Char_ord"
begin

section \<open>JavaScript values\<close>

text \<open>
  A JavaScript number is a finite double (idealised here as a real), one of the two
  infinities, or NaN.
\<close>

datatype jsnum = Fin real | PosInf | NegInf | NaN

text \<open>\<^verbatim>\<open>Number.isFinite(x)\<close> for a value that is a number.\<close>

fun isFinite :: "jsnum \<Rightarrow> bool" where
  "isFinite (Fin r) = True"
| "isFinite PosInf = False"
| "isFinite NegInf = False"
| "isFinite NaN = False"

text \<open>
  The values a field of a loosely typed record can hold. \<open>JObject\<close> stands for any
  plain object; arrays are held in typed list fields where the code iterates over them.
\<close>

datatype jsval = JUndefined | JNull | JBool bool | JNumber jsnum | JString string | JObject

text \<open>\<^verbatim>\<open>v == null\<close>: null or undefined.\<close>

fun nullish :: "jsval \<Rightarrow> bool" where
  "nullish JUndefined = True"
| "nullish JNull = True"
| "nullish v = False"

text \<open>\<^verbatim>\<open>a ?? b\<close>.\<close>

definition coalesce :: "jsval \<Rightarrow> jsval \<Rightarrow> jsval" where
  "coalesce a b = (if nullish a then b else a)"

text \<open>Truthiness, as \<^verbatim>\<open>!v\<close> and \<^verbatim>\<open>a || b\<close> read it.\<close>

fun truthy :: "jsval \<Rightarrow> bool" where
  "truthy JUndefined = False"
| "truthy JNull = False"
| "truthy (JBool b) = b"
| "truthy (JNumber (Fin r)) = (r \<noteq> 0)"
| "truthy (JNumber NaN) = False"
| "truthy (JNumber n) = True"
| "truthy (JString s) = (s \<noteq> [])"
| "truthy JObject = True"

text \<open>
  \<^verbatim>\<open>String(v)\<close>. The rendering of a number is a built-in of the language, taken as the
  parameter \<open>numToString\<close>.
\<close>

fun toStr :: "(jsnum \<Rightarrow> string) \<Rightarrow> jsval \<Rightarrow> string" where
  "toStr numToString JUndefined = ''undefined''"
| "toStr numToString JNull = ''null''"
| "toStr numToString (JBool b) = (if b then ''true'' else ''false'')"
| "toStr numToString (JNumber n) = numToString n"
| "toStr numToString (JString s) = s"
| "toStr numToString JObject = ''[object Object]''"

text \<open>
  \<^verbatim>\<open>Number(v)\<close>. The conversion of a string is a built-in of the language, taken as
  the parameter \<open>stringToNumber\<close>.
\<close>

fun toNum :: "(string \<Rightarrow> jsnum) \<Rightarrow> jsval \<Rightarrow> jsnum" where
  "toNum stringToNumber JUndefined = NaN"
| "toNum stringToNumber JNull = Fin 0"
| "toNum stringToNumber (JBool b) = (if b then Fin 1 else Fin 0)"
| "toNum stringToNumber (JNumber n) = n"
| "toNum stringToNumber (JString s) = stringToNumber s"
| "toNum stringToNumber JObject = NaN"

subsection \<open>Strings\<close>

text \<open>Strings are ASCII strings; \<^verbatim>\<open>toLowerCase\<close> maps A..Z to a..z.\<close>

definition toLowerCaseChar :: "char \<Rightarrow> char" where
  "toLowerCaseChar c =
     (case map_of (zip ''ABCDEFGHIJKLMNOPQRSTUVWXYZ'' ''abcdefghijklmnopqrstuvwxyz'') c of
        Some l \<Rightarrow> l
      | None \<Rightarrow> c)"

definition toLowerCase :: "string \<Rightarrow> string" where
  "toLowerCase s = map toLowerCaseChar s"

text \<open>Tab, line feed, vertical tab, form feed, carriage return and space.\<close>

definition isWhiteSpace :: "char \<Rightarrow> bool" where
  "isWhiteSpace c = (c \<in> set [CHR 0x09, CHR 0x0A, CHR 0x0B, CHR 0x0C, CHR 0x0D, CHR '' ''])"

definition trim :: "string \<Rightarrow> string" where
  "trim s = rev (dropWhile isWhiteSpace (rev (dropWhile isWhiteSpace s)))"

text \<open>\<^verbatim>\<open>s.includes(t)\<close>: \<open>t\<close> occurs in \<open>s\<close> as a contiguous substring.\<close>

fun includesStr :: "string \<Rightarrow> string \<Rightarrow> bool" where
  "includesStr [] t = (t = [])"
| "includesStr (c # cs) t = (prefix t (c # cs) \<or> includesStr cs t)"

text \<open>\<^verbatim>\<open>parts.join(sep)\<close>.\<close>

fun join :: "string \<Rightarrow> string list \<Rightarrow> string" where
  "join sep [] = []"
| "join sep [x] = x"
| "join sep (x # y # ys) = x @ sep @ join sep (y # ys)"

section \<open>Confidence decay (engine/confidenceDecay)\<close>

text \<open>
  A \<^verbatim>\<open>Date\<close> is its time value in milliseconds since the epoch (a valid date).
  The parameter \<open>getTime\<close> stands for \<^verbatim>\<open>new Date(iso).getTime()\<close> on an ISO
  string: \<open>None\<close> when the string does not parse (the time value is NaN).
  The argument \<open>isoStr\<close> is \<open>None\<close> for \<^verbatim>\<open>null\<close> and \<^verbatim>\<open>undefined\<close>.
\<close>

definition daysSince :: "(string \<Rightarrow> int option) \<Rightarrow> string option \<Rightarrow> int \<Rightarrow> jsnum" where
  "daysSince getTime isoStr now =
     (case isoStr of
        None \<Rightarrow> PosInf
      | Some s \<Rightarrow>
          if s = [] then PosInf
          else (case getTime s of
                  None \<Rightarrow> PosInf
                | Some t \<Rightarrow>
                    let diffMs = now - t
                    in if diffMs \<le> 0 then Fin 0
                       else Fin (real_of_int diffMs / (1000 * 60 * 60 * 24))))"

definition clamp01 :: "real \<Rightarrow> real" where
  "clamp01 x = max 0 (min 1 x)"

text \<open>
  Every return path of \<^verbatim>\<open>decayedConfidence\<close> yields a finite number, so the result
  is a real. \<open>halfLifeDays\<close> is the third argument of the source (default 30).
\<close>

definition decayedConfidence :: "jsnum \<Rightarrow> jsnum \<Rightarrow> real \<Rightarrow> real" where
  "decayedConfidence base days halfLifeDays =
     (case base of
        Fin b0 \<Rightarrow>
          let b = clamp01 b0
          in (case days of
                Fin d \<Rightarrow>
                  if d \<le> 0 then b
                  else
                    let hl = max (1 / 10 ^ 6) halfLifeDays;
                        lambda = ln 2 / hl;
                        factor = exp (- lambda * d)
                    in clamp01 (b * factor)
              | _ \<Rightarrow> 0)
      | _ \<Rightarrow> 0)"

text \<open>The call with the default half-life of 30 days.\<close>

definition decayedConfidence30 :: "jsnum \<Rightarrow> jsnum \<Rightarrow> real" where
  "decayedConfidence30 base days = decayedConfidence base days 30"

section \<open>The persistent store\<close>

text \<open>
  One record per table row, with the columns of the schema and the types of the
  TypeScript row types. A table is the list of its rows in rowid order.
\<close>

datatype status = Active | Disabled | Suspect

record vendor_memory_row =
  vm_id :: string
  vm_vendor :: string
  vm_kind :: string
  vm_pattern :: string
  vm_confidence :: real
  vm_supportCount :: int
  vm_rejectCount :: int
  vm_lastUsedAt :: "string option"
  vm_status :: status
  vm_disabledAt :: "string option"

text \<open>
  The status of a correction-memory row is optional: it is absent when the table has no
  status column.
\<close>

record correction_memory_row =
  cm_id :: string
  cm_vendor :: string
  cm_fieldPath :: string
  cm_patternType :: string
  cm_patternValue :: string
  cm_recommendedValue :: string
  cm_confidence :: real
  cm_supportCount :: int
  cm_rejectCount :: int
  cm_lastUsedAt :: "string option"
  cm_createdAt :: string
  cm_status :: "status option"

datatype decision = Approved | Rejected

text \<open>
  The value of a resolution row is stored as JSON text written by the store itself; the
  model holds the parsed value.
\<close>

record resolution_value =
  rv_approved :: int
  rv_rejected :: int
  rv_lastDecision :: "decision option"
  rv_lastInvoiceId :: "string option"

record resolution_memory_row =
  rm_vendor :: string
  rm_key :: string
  rm_value :: resolution_value
  rm_confidence :: real
  rm_rejectCount :: int
  rm_lastUsedAt :: "string option"
  rm_disabledAt :: "string option"
  rm_createdAt :: string

record invoice_run =
  run_invoiceId :: string
  run_vendor :: string
  run_dataset :: string
  run_createdAt :: string
  run_invoiceNumber :: "string option"
  run_fingerprint :: "string option"
  run_isDuplicate :: int
  run_duplicateOfInvoiceId :: "string option"

record duplicate_record =
  dr_invoiceId :: string
  dr_vendor :: string
  dr_fingerprint :: string
  dr_duplicateOfInvoiceId :: "string option"
  dr_reason :: string
  dr_createdAt :: string

record learning_event =
  le_invoiceId :: string
  le_learnedAt :: string

text \<open>
  The metadata of an audit event is held structured (the store writes its JSON text).
\<close>

datatype audit_meta =
    MetaNone
  | MetaDuplicate string string
  | MetaResolution string int int "decision option" "string option"
  | MetaLearn "string list"
  | MetaAdmin string

record audit_event =
  ae_ts :: string
  ae_eventType :: string
  ae_vendor :: "string option"
  ae_invoiceId :: "string option"
  ae_entityType :: "string option"
  ae_entityId :: "string option"
  ae_meta :: audit_meta

text \<open>
  The store: its tables, and which optional columns the schema has (the stores probe the
  schema once and cache the answer).
\<close>

record db =
  invoice_runs :: "invoice_run list"
  vendor_memory :: "vendor_memory_row list"
  correction_memory :: "correction_memory_row list"
  resolution_memory :: "resolution_memory_row list"
  duplicate_records :: "duplicate_record list"
  learning_events :: "learning_event list"
  audit_events :: "audit_event list"
  cm_hasStatusColumn :: bool
  rm_hasDisabledAt :: bool
  rm_hasRejectCount :: bool

section \<open>The usability gates (engine/runPipeline)\<close>

text \<open>
  \<^verbatim>\<open>canApplyVendorMem(mem, now)\<close>. A vendor-memory row has no \<^verbatim>\<open>createdAt\<close>, so
  \<^verbatim>\<open>mem.lastUsedAt ?? mem.createdAt ?? null\<close> is its \<^verbatim>\<open>lastUsedAt\<close>.
\<close>

definition canApplyVendorMem ::
  "(string \<Rightarrow> int option) \<Rightarrow> vendor_memory_row option \<Rightarrow> int \<Rightarrow> bool" where
  "canApplyVendorMem getTime mem now =
     (case mem of
        None \<Rightarrow> False
      | Some m \<Rightarrow>
          if vm_status m \<noteq> Active then False
          else
            let rejects = vm_rejectCount m
            in if rejects \<ge> 2 then False
               else
                 let base = Fin (vm_confidence m);
                     ageDays = daysSince getTime (vm_lastUsedAt m) now;
                     eff = decayedConfidence30 base ageDays
                 in eff \<ge> 65 / 100)"

text \<open>\<^verbatim>\<open>mem.lastUsedAt ?? mem.createdAt ?? null\<close> on a correction-memory row.\<close>

definition cm_lastTouched :: "correction_memory_row \<Rightarrow> string option" where
  "cm_lastTouched m = (case cm_lastUsedAt m of Some s \<Rightarrow> Some s | None \<Rightarrow> Some (cm_createdAt m))"

definition isSuspectCorrectionMemory ::
  "(string \<Rightarrow> int option) \<Rightarrow> correction_memory_row option \<Rightarrow> resolution_memory_row option
     \<Rightarrow> int \<Rightarrow> bool" where
  "isSuspectCorrectionMemory getTime mem resolution now =
     (case mem of
        None \<Rightarrow> True
      | Some m \<Rightarrow>
          if (case cm_status m of None \<Rightarrow> False | Some st \<Rightarrow> st \<noteq> Active) then True
          else if cm_rejectCount m \<ge> 2 then True
          else
            let baseConf = cm_confidence m
            in if baseConf > 0 \<and> baseConf < 65 / 100 then True
               else
                 let r = (case resolution of None \<Rightarrow> 0 | Some res \<Rightarrow> rv_rejected (rm_value res))
                 in if r \<ge> 2 then True
                    else
                      let ageDays = daysSince getTime (cm_lastTouched m) now;
                          eff = decayedConfidence30 (Fin baseConf) ageDays
                      in if eff < 65 / 100 then True else False)"

section \<open>Correction memory (db/correctionMemory)\<close>

text \<open>
  \<^verbatim>\<open>markRejected(db, id)\<close>; \<open>wall\<close> is \<^verbatim>\<open>new Date().toISOString()\<close> at the call.
\<close>

definition markRejected :: "string \<Rightarrow> db \<Rightarrow> string \<Rightarrow> db" where
  "markRejected wall d ident =
     (if cm_hasStatusColumn d then
        d\<lparr>correction_memory :=
            map (\<lambda>r. if cm_id r = ident
                      then r\<lparr>cm_rejectCount := cm_rejectCount r + 1,
                             cm_status := (if cm_rejectCount r + 1 \<ge> 2 then Some Disabled
                                           else cm_status r),
                             cm_lastUsedAt := Some wall\<rparr>
                      else r)
                (correction_memory d)\<rparr>
      else
        d\<lparr>correction_memory :=
            map (\<lambda>r. if cm_id r = ident
                      then r\<lparr>cm_rejectCount := cm_rejectCount r + 1,
                             cm_lastUsedAt := Some wall\<rparr>
                      else r)
                (correction_memory d)\<rparr>)"

section \<open>The extracted invoice\<close>

text \<open>
  The pipeline's input record. \<^verbatim>\<open>invoiceId\<close>, \<^verbatim>\<open>vendor\<close> and \<^verbatim>\<open>rawText\<close> have the
  types of \<^verbatim>\<open>InvoiceExtracted\<close>; the entries of the field map are loosely typed. The
  invoice date is a string or absent (the parameter type of \<^verbatim>\<open>parseDateToIso\<close>), a
  line item's sku and description are strings or absent. The top-level
  \<^verbatim>\<open>invoiceNumber\<close>, \<^verbatim>\<open>currency\<close>, \<^verbatim>\<open>grossTotal\<close>, \<^verbatim>\<open>netTotal\<close> and the
  \<^verbatim>\<open>normalizedInvoice\<close> map are read by the duplicate guard as fallbacks.
\<close>

record line_item =
  li_sku :: "string option"
  li_qty :: jsval
  li_description :: "string option"

record invoice_fields =
  f_invoiceNumber :: jsval
  f_invoiceDate :: "string option"
  f_serviceDate :: jsval
  f_currency :: jsval
  f_netTotal :: jsval
  f_grossTotal :: jsval
  f_taxTotal :: jsval
  f_taxRate :: jsval
  f_poNumber :: jsval
  f_discountTerms :: jsval
  f_lineItems :: "line_item list option"

record extracted =
  ex_invoiceId :: string
  ex_vendor :: string
  ex_rawText :: "string option"
  ex_invoiceNumber :: jsval
  ex_currency :: jsval
  ex_grossTotal :: jsval
  ex_netTotal :: jsval
  ex_fields :: "invoice_fields option"
  ex_normalizedInvoice :: "invoice_fields option"

text \<open>\<^verbatim>\<open>obj?.field\<close> on an optional field map.\<close>

definition fieldOf :: "invoice_fields option \<Rightarrow> (invoice_fields \<Rightarrow> jsval) \<Rightarrow> jsval" where
  "fieldOf fo sel = (case fo of None \<Rightarrow> JUndefined | Some f \<Rightarrow> sel f)"

section \<open>The duplicate guard (engine/duplicateGuard)\<close>

definition normalize :: "(jsnum \<Rightarrow> string) \<Rightarrow> jsval \<Rightarrow> string" where
  "normalize numToString v = toLowerCase (trim (toStr numToString (coalesce v (JString []))))"

text \<open>\<^verbatim>\<open>a || b\<close> on strings.\<close>

definition orElse :: "string \<Rightarrow> string \<Rightarrow> string" where
  "orElse a b = (if a \<noteq> [] then a else b)"

definition computeFingerprint :: "(jsnum \<Rightarrow> string) \<Rightarrow> extracted \<Rightarrow> string" where
  "computeFingerprint numToString invoice =
     (let vendor = normalize numToString (JString (ex_vendor invoice));
          invoiceNumber =
            orElse (normalize numToString (ex_invoiceNumber invoice))
              (orElse (normalize numToString (fieldOf (ex_fields invoice) f_invoiceNumber))
                 (normalize numToString (fieldOf (ex_normalizedInvoice invoice) f_invoiceNumber)));
          currency =
            orElse (normalize numToString (ex_currency invoice))
              (orElse (normalize numToString (fieldOf (ex_fields invoice) f_currency))
                 (normalize numToString (fieldOf (ex_normalizedInvoice invoice) f_currency)));
          total =
            orElse (normalize numToString (ex_grossTotal invoice))
              (orElse (normalize numToString (fieldOf (ex_fields invoice) f_grossTotal))
                 (orElse (normalize numToString (fieldOf (ex_normalizedInvoice invoice) f_grossTotal))
                    (orElse (normalize numToString (ex_netTotal invoice))
                       (orElse (normalize numToString (fieldOf (ex_fields invoice) f_netTotal))
                          (normalize numToString
                             (fieldOf (ex_normalizedInvoice invoice) f_netTotal))))));
          rawSlice =
            take 220
              (normalize numToString
                 (case ex_rawText invoice of None \<Rightarrow> JUndefined | Some t \<Rightarrow> JString t))
      in join ''|'' [vendor, invoiceNumber, currency, total, rawSlice])"

datatype dup_result =
    NotDuplicate
  | IsDuplicate (duplicateOfInvoiceId: string) (dup_reason: string) (dup_fingerprint: string)

text \<open>
  The three queries on the run table and the duplicate records. \<open>find\<close> returns the
  first match in rowid order (\<^verbatim>\<open>ORDER BY rowid ASC LIMIT 1\<close>).
\<close>

definition selectOriginalRun :: "db \<Rightarrow> string \<Rightarrow> string \<Rightarrow> string \<Rightarrow> invoice_run option" where
  "selectOriginalRun d vendor invoiceNumber invoiceId =
     find (\<lambda>r. run_vendor r = vendor \<and> run_invoiceNumber r = Some invoiceNumber \<and>
                run_invoiceId r \<noteq> invoiceId \<and> run_isDuplicate r = 0)
          (invoice_runs d)"

definition selectAnyRun :: "db \<Rightarrow> string \<Rightarrow> string \<Rightarrow> string \<Rightarrow> invoice_run option" where
  "selectAnyRun d vendor invoiceNumber invoiceId =
     find (\<lambda>r. run_vendor r = vendor \<and> run_invoiceNumber r = Some invoiceNumber \<and>
                run_invoiceId r \<noteq> invoiceId)
          (invoice_runs d)"

definition selectDuplicateRecord :: "db \<Rightarrow> string \<Rightarrow> duplicate_record option" where
  "selectDuplicateRecord d invoiceId =
     find (\<lambda>r. dr_invoiceId r = invoiceId) (duplicate_records d)"

text \<open>
  \<^verbatim>\<open>ORDER BY createdAt ASC LIMIT 1\<close>: the row with the least \<^verbatim>\<open>createdAt\<close> (text
  comparison); among equal ones the first in rowid order.
\<close>

fun earliestCreated :: "duplicate_record list \<Rightarrow> duplicate_record option" where
  "earliestCreated [] = None"
| "earliestCreated (r # rs) =
     (case earliestCreated rs of
        None \<Rightarrow> Some r
      | Some e \<Rightarrow> if dr_createdAt e < dr_createdAt r then Some e else Some r)"

definition selectPriorFingerprint :: "db \<Rightarrow> string \<Rightarrow> string \<Rightarrow> string \<Rightarrow> duplicate_record option" where
  "selectPriorFingerprint d vendor fingerprint invoiceId =
     earliestCreated
       (filter (\<lambda>r. dr_vendor r = vendor \<and> dr_fingerprint r = fingerprint \<and>
                     dr_invoiceId r \<noteq> invoiceId)
          (duplicate_records d))"

definition hasDuplicateCue :: "extracted \<Rightarrow> bool" where
  "hasDuplicateCue invoice =
     (let raw = toLowerCase (case ex_rawText invoice of None \<Rightarrow> [] | Some t \<Rightarrow> t)
      in includesStr raw ''duplicate submission'' \<or> includesStr raw ''erneute zusendung'' \<or>
         includesStr raw ''duplicate'' \<or> includesStr raw ''erneut'')"

definition seenReason :: "bool \<Rightarrow> string \<Rightarrow> string" where
  "seenReason cue invoiceNumber =
     (if cue
      then ''Duplicate cue found in rawText; vendor+invoiceNumber already seen ('' @ invoiceNumber @ '').''
      else ''Same vendor+invoiceNumber already seen ('' @ invoiceNumber @ '').'')"

text \<open>The invoice number the guard matches on.\<close>

definition invoiceNumberOf :: "(jsnum \<Rightarrow> string) \<Rightarrow> extracted \<Rightarrow> string" where
  "invoiceNumberOf numToString invoice =
     toStr numToString
       (coalesce (ex_invoiceNumber invoice)
          (coalesce (fieldOf (ex_fields invoice) f_invoiceNumber)
             (coalesce (fieldOf (ex_normalizedInvoice invoice) f_invoiceNumber)
                (JString []))))"

definition detectDuplicate :: "(jsnum \<Rightarrow> string) \<Rightarrow> db \<Rightarrow> extracted \<Rightarrow> dup_result" where
  "detectDuplicate numToString d invoice =
     (let vendor = ex_vendor invoice;
          invoiceId = ex_invoiceId invoice;
          invoiceNumber = invoiceNumberOf numToString invoice;
          fingerprint = computeFingerprint numToString invoice;
          cue = hasDuplicateCue invoice;
          byFingerprint =
            (case selectPriorFingerprint d vendor fingerprint invoiceId of
               None \<Rightarrow> NotDuplicate
             | Some prior \<Rightarrow>
                 if dr_invoiceId prior \<noteq> []
                 then IsDuplicate
                        (case dr_duplicateOfInvoiceId prior of
                           Some orig \<Rightarrow> orig | None \<Rightarrow> dr_invoiceId prior)
                        ''Fingerprint match for vendor (fallback match).'' fingerprint
                 else NotDuplicate);
          byAnyRun =
            (case selectAnyRun d vendor invoiceNumber invoiceId of
               None \<Rightarrow> byFingerprint
             | Some anyRun \<Rightarrow>
                 if run_invoiceId anyRun \<noteq> []
                 then IsDuplicate
                        (case selectDuplicateRecord d (run_invoiceId anyRun) of
                           None \<Rightarrow> run_invoiceId anyRun
                         | Some rootRec \<Rightarrow>
                             (case dr_duplicateOfInvoiceId rootRec of
                                Some orig \<Rightarrow> orig | None \<Rightarrow> run_invoiceId anyRun))
                        (seenReason cue invoiceNumber) fingerprint
                 else byFingerprint)
      in if vendor \<noteq> [] \<and> invoiceNumber \<noteq> [] then
           (case selectOriginalRun d vendor invoiceNumber invoiceId of
              None \<Rightarrow> byAnyRun
            | Some original \<Rightarrow>
                if run_invoiceId original \<noteq> []
                then IsDuplicate (run_invoiceId original) (seenReason cue invoiceNumber) fingerprint
                else byAnyRun)
         else byFingerprint)"

text \<open>\<^verbatim>\<open>recordDuplicate\<close>: \<^verbatim>\<open>INSERT OR REPLACE\<close> on the primary key \<^verbatim>\<open>invoiceId\<close>.\<close>

definition recordDuplicate :: "db \<Rightarrow> duplicate_record \<Rightarrow> db" where
  "recordDuplicate d row =
     d\<lparr>duplicate_records :=
          filter (\<lambda>r. dr_invoiceId r \<noteq> dr_invoiceId row) (duplicate_records d) @ [row]\<rparr>"

section \<open>Built-ins of the language\<close>

text \<open>
  The pipeline reads its text through regular expressions and converts numbers, dates and
  JSON through built-ins of the language. They are parameters of the model, one field
  each; a regular expression is named by the function that uses it and yields its capture
  groups.
\<close>

record js_env =
  numToString :: "jsnum \<Rightarrow> string"
  stringToNumber :: "string \<Rightarrow> jsnum"
  getTime :: "string \<Rightarrow> int option"
  toISOString :: "int \<Rightarrow> string"
  wallClock :: string
  jsonParse :: "string \<Rightarrow> jsval option"
  round2 :: "real \<Rightarrow> real"
  reLeistungsdatum :: "string \<Rightarrow> (string \<times> string \<times> string) option"
  reCurrencyLabel :: "string \<Rightarrow> string option"
  reTotalCurrency :: "string \<Rightarrow> string option"
  reTrailingCode :: "string \<Rightarrow> string option"
  reTotal :: "string \<Rightarrow> string option"
  reVatInclusive :: "string \<Rightarrow> bool"
  reSkonto :: "string \<Rightarrow> (string \<times> string) option"
  reDotDate :: "string \<Rightarrow> (string \<times> string \<times> string) option"
  reDashDate :: "string \<Rightarrow> (string \<times> string \<times> string) option"
  reIsoDate :: "string \<Rightarrow> bool"
  reFreightVendor :: "string \<Rightarrow> bool"
  reFreightDescription :: "string \<Rightarrow> bool"
  reSkuInField :: "string \<Rightarrow> string option"

text \<open>
  \<open>wallClock\<close> is \<^verbatim>\<open>new Date().toISOString()\<close>, read by the stores that stamp rows
  with the wall clock; one reading serves a whole run. \<open>round2\<close> is the function of that
  name in the engine, \<^verbatim>\<open>Math.round(n * 100) / 100\<close> in floating point: the product and
  the quotient are rounded to the nearest double, so it is not exact rounding to two
  decimals and is not computed here.
\<close>

definition toUpperCaseChar :: "char \<Rightarrow> char" where
  "toUpperCaseChar c =
     (case map_of (zip ''abcdefghijklmnopqrstuvwxyz'' ''ABCDEFGHIJKLMNOPQRSTUVWXYZ'') c of
        Some u \<Rightarrow> u
      | None \<Rightarrow> c)"

definition toUpperCase :: "string \<Rightarrow> string" where
  "toUpperCase s = map toUpperCaseChar s"

text \<open>\<^verbatim>\<open>s.replace(",", ".")\<close>: the first comma becomes a full stop.\<close>

fun replaceComma :: "string \<Rightarrow> string" where
  "replaceComma [] = []"
| "replaceComma (c # cs) = (if c = CHR '','' then CHR ''.'' # cs else c # replaceComma cs)"

text \<open>\<^verbatim>\<open>Math.round\<close> on a finite number rounds half up.\<close>

definition mathRound :: "real \<Rightarrow> real" where
  "mathRound x = real_of_int \<lfloor>x + 1 / 2\<rfloor>"

text \<open>\<^verbatim>\<open>a === b\<close> on field values; two objects are never the same object here.\<close>

fun strictEq :: "jsval \<Rightarrow> jsval \<Rightarrow> bool" where
  "strictEq (JNumber NaN) b = False"
| "strictEq JObject b = False"
| "strictEq a b = (a = b)"

section \<open>Text extractors (engine/runPipeline)\<close>

definition isMissing :: "jsval \<Rightarrow> bool" where
  "isMissing v = (v = JNull \<or> v = JUndefined \<or> v = JString [])"

definition extractLeistungsdatum :: "js_env \<Rightarrow> string \<Rightarrow> string option" where
  "extractLeistungsdatum E rawText =
     (case reLeistungsdatum E rawText of
        None \<Rightarrow> None
      | Some (dd, mm, yyyy) \<Rightarrow> Some (yyyy @ ''-'' @ mm @ ''-'' @ dd))"

definition parseCurrency :: "js_env \<Rightarrow> string \<Rightarrow> string option" where
  "parseCurrency E rawText =
     (case reCurrencyLabel E rawText of
        Some m1 \<Rightarrow> Some m1
      | None \<Rightarrow>
          (case reTotalCurrency E rawText of
             Some m3 \<Rightarrow> Some m3
           | None \<Rightarrow>
               (case reTrailingCode E rawText of
                  Some m2 \<Rightarrow> if m2 \<in> set [''EUR'', ''USD'', ''GBP''] then Some m2 else None
                | None \<Rightarrow> None)))"

definition extractTotalFromRawText :: "js_env \<Rightarrow> string \<Rightarrow> real option" where
  "extractTotalFromRawText E rawText =
     (case reTotal E rawText of
        None \<Rightarrow> None
      | Some m1 \<Rightarrow>
          (case stringToNumber E (replaceComma m1) of
             Fin val \<Rightarrow> Some val
           | _ \<Rightarrow> None))"

definition isVatInclusiveText :: "js_env \<Rightarrow> string \<Rightarrow> bool" where
  "isVatInclusiveText E rawText = reVatInclusive E rawText"

definition extractSkonto :: "js_env \<Rightarrow> string \<Rightarrow> (jsnum \<times> jsnum) option" where
  "extractSkonto E rawText =
     (case reSkonto E rawText of
        None \<Rightarrow> None
      | Some (m1, m2) \<Rightarrow> Some (stringToNumber E m1, stringToNumber E m2))"

definition parseDateToIso :: "js_env \<Rightarrow> string option \<Rightarrow> string option" where
  "parseDateToIso E dateStr =
     (case dateStr of
        None \<Rightarrow> None
      | Some s \<Rightarrow>
          if s = [] then None
          else
            (case reDotDate E s of
               Some (dd, mm, yyyy) \<Rightarrow> Some (yyyy @ ''-'' @ mm @ ''-'' @ dd)
             | None \<Rightarrow>
                 (case reDashDate E s of
                    Some (dd, mm, yyyy) \<Rightarrow> Some (yyyy @ ''-'' @ mm @ ''-'' @ dd)
                  | None \<Rightarrow> if reIsoDate E s then Some s else None)))"

text \<open>
  \<^verbatim>\<open>daysBetween\<close> is NaN (here \<open>None\<close>) when a date does not parse; no comparison
  with NaN holds.
\<close>

definition daysBetween :: "js_env \<Rightarrow> string \<Rightarrow> string \<Rightarrow> real option" where
  "daysBetween E aIso bIso =
     (case (getTime E aIso, getTime E bIso) of
        (Some a, Some b) \<Rightarrow>
          Some (\<bar>mathRound (real_of_int (a - b) / (1000 * 60 * 60 * 24))\<bar>)
      | _ \<Rightarrow> None)"

section \<open>The pipeline's context and output\<close>

record po_line =
  pl_sku :: "string option"

record purchase_order =
  po_vendor :: string
  po_date :: string
  po_poNumber :: string
  po_lineItems :: "po_line list option"

record dn_line =
  dl_sku :: "string option"
  dl_qtyDelivered :: jsval

record delivery_note =
  dn_vendor :: string
  dn_poNumber :: jsval
  dn_lineItems :: "dn_line list option"

record reference_data =
  ref_purchaseOrders :: "purchase_order list option"
  ref_deliveryNotes :: "delivery_note list option"

text \<open>A human decision: the verdict and the field corrections it covers.\<close>

record human_correction =
  hc_field :: string
  hc_to :: jsval

record decision_row =
  dec_finalDecision :: string
  dec_corrections :: "human_correction list option"

record pipeline_context =
  ctx_vendor :: string
  ctx_extracted :: extracted
  ctx_reference :: "reference_data option"
  ctx_correctionsForInvoice :: "decision_row list option"

text \<open>The value a correction proposes: a field value, or a Skonto term (percent, days).\<close>

datatype corr_to = ToValue jsval | ToSkonto jsnum jsnum

record proposed_correction =
  pc_field :: string
  pc_from :: jsval
  pc_to :: corr_to
  pc_source :: string
  pc_confidence :: real
  pc_reason :: string

record audit_entry =
  at_step :: string
  at_timestamp :: string
  at_details :: string

record memory_update =
  mu_type :: string
  mu_id :: string
  mu_confidence :: real
  mu_note :: "string option"

text \<open>
  \<open>out_normalizedInvoice\<close> is \<^verbatim>\<open>extracted.fields ?? extracted.normalizedInvoice ?? {}\<close>,
  with \<open>None\<close> for the empty object.
\<close>

record agent_output =
  out_normalizedInvoice :: "invoice_fields option"
  out_proposedCorrections :: "proposed_correction list"
  out_requiresHumanReview :: bool
  out_reasoning :: string
  out_confidenceScore :: real
  out_memoryUpdates :: "memory_update list"
  out_auditTrail :: "audit_entry list"

section \<open>Store operations\<close>

subsection \<open>Audit events (db/auditEvents)\<close>

definition logAuditEvent :: "db \<Rightarrow> audit_event \<Rightarrow> db" where
  "logAuditEvent d ev = d\<lparr>audit_events := audit_events d @ [ev]\<rparr>"

subsection \<open>Vendor memory (db/vendorMemory)\<close>

definition getVendorMemories :: "db \<Rightarrow> string \<Rightarrow> vendor_memory_row list" where
  "getVendorMemories d vendor =
     filter (\<lambda>m. vm_vendor m = vendor \<and> vm_status m = Active \<and>
                  (vm_disabledAt m = None \<or> vm_disabledAt m = Some []))
       (vendor_memory d)"

text \<open>
  \<^verbatim>\<open>INSERT ... ON CONFLICT(id) DO UPDATE\<close>: an existing row keeps its place and its
  \<^verbatim>\<open>disabledAt\<close>, and takes every other column from \<open>mem\<close>; a new row is appended.
\<close>

definition upsertVendorMemory :: "db \<Rightarrow> vendor_memory_row \<Rightarrow> db" where
  "upsertVendorMemory d mem =
     (if \<exists>r \<in> set (vendor_memory d). vm_id r = vm_id mem
      then d\<lparr>vendor_memory :=
               map (\<lambda>r. if vm_id r = vm_id mem then mem\<lparr>vm_disabledAt := vm_disabledAt r\<rparr> else r)
                 (vendor_memory d)\<rparr>
      else d\<lparr>vendor_memory := vendor_memory d @ [mem\<lparr>vm_disabledAt := None\<rparr>]\<rparr>)"

subsection \<open>Correction memory (db/correctionMemory)\<close>

definition getCorrectionMemories :: "db \<Rightarrow> string \<Rightarrow> correction_memory_row list" where
  "getCorrectionMemories d vendor =
     (if cm_hasStatusColumn d
      then filter (\<lambda>m. cm_vendor m = vendor \<and> cm_status m = Some Active) (correction_memory d)
      else filter (\<lambda>m. cm_vendor m = vendor) (correction_memory d))"

definition findCorrectionMemory ::
  "db \<Rightarrow> string \<Rightarrow> string \<Rightarrow> string \<Rightarrow> string \<Rightarrow> correction_memory_row option" where
  "findCorrectionMemory d vendor fieldPath patternType patternValue =
     (if cm_hasStatusColumn d
      then find (\<lambda>m. cm_vendor m = vendor \<and> cm_fieldPath m = fieldPath \<and>
                     cm_patternType m = patternType \<and> cm_patternValue m = patternValue \<and>
                     cm_status m = Some Active)
             (correction_memory d)
      else find (\<lambda>m. cm_vendor m = vendor \<and> cm_fieldPath m = fieldPath \<and>
                     cm_patternType m = patternType \<and> cm_patternValue m = patternValue)
             (correction_memory d))"

text \<open>
  \<^verbatim>\<open>upsertCorrectionMemory\<close> returns the id and the confidence now stored. The row to
  insert carries no support or reject count; an insert into a table without status
  column stores no status.
\<close>

definition upsertCorrectionMemory :: "db \<Rightarrow> correction_memory_row \<Rightarrow> db \<times> real" where
  "upsertCorrectionMemory d row =
     (case find (\<lambda>r. cm_id r = cm_id row) (correction_memory d) of
        Some existing \<Rightarrow>
          let nextConfidence = min (95 / 100) (cm_confidence existing + 1 / 10)
          in (d\<lparr>correction_memory :=
                  map (\<lambda>r. if cm_id r = cm_id row
                            then r\<lparr>cm_confidence := nextConfidence,
                                   cm_supportCount := cm_supportCount r + 1,
                                   cm_lastUsedAt := cm_lastUsedAt row\<rparr>
                            else r)
                    (correction_memory d)\<rparr>,
              nextConfidence)
      | None \<Rightarrow>
          (d\<lparr>correction_memory :=
                correction_memory d @
                  [row\<lparr>cm_supportCount := 1, cm_rejectCount := 0,
                        cm_status := (if cm_hasStatusColumn d then Some Active else None)\<rparr>]\<rparr>,
           cm_confidence row))"

definition markUsed :: "string \<Rightarrow> db \<Rightarrow> string \<Rightarrow> db" where
  "markUsed wall d ident =
     d\<lparr>correction_memory :=
         map (\<lambda>r. if cm_id r = ident then r\<lparr>cm_lastUsedAt := Some wall\<rparr> else r)
           (correction_memory d)\<rparr>"

subsection \<open>Learning events (db/learningEvents)\<close>

definition hasLearned :: "db \<Rightarrow> string \<Rightarrow> bool" where
  "hasLearned d invoiceId = (\<exists>e \<in> set (learning_events d). le_invoiceId e = invoiceId)"

text \<open>\<^verbatim>\<open>INSERT OR IGNORE\<close> on the primary key \<^verbatim>\<open>invoiceId\<close>.\<close>

definition markLearned :: "string \<Rightarrow> db \<Rightarrow> string \<Rightarrow> db" where
  "markLearned wall d invoiceId =
     (if hasLearned d invoiceId then d
      else d\<lparr>learning_events :=
               learning_events d @ [\<lparr>le_invoiceId = invoiceId, le_learnedAt = wall\<rparr>]\<rparr>)"

subsection \<open>Resolution memory (db/resolutionMemory)\<close>

definition defaultValue :: resolution_value where
  "defaultValue =
     \<lparr>rv_approved = 0, rv_rejected = 0, rv_lastDecision = None, rv_lastInvoiceId = None\<rparr>"

text \<open>\<^verbatim>\<open>getResolution\<close> ignores disabled rows when the table has the column.\<close>

definition getResolution :: "db \<Rightarrow> string \<Rightarrow> string \<Rightarrow> resolution_memory_row option" where
  "getResolution d vendor key =
     find (\<lambda>r. rm_vendor r = vendor \<and> rm_key r = key \<and>
                (rm_hasDisabledAt d \<longrightarrow> rm_disabledAt r = None))
       (resolution_memory d)"

text \<open>
  The patch of \<^verbatim>\<open>upsertResolution\<close>: every entry is optional, and \<^verbatim>\<open>disabledAt\<close> may
  be given as null (\<open>Some None\<close>).
\<close>

record resolution_patch =
  p_value :: "resolution_value option"
  p_confidence :: "real option"
  p_lastUsedAt :: "string option"
  p_disabledAt :: "string option option"

definition upsertResolution ::
  "string \<Rightarrow> db \<Rightarrow> string \<Rightarrow> string \<Rightarrow> resolution_patch \<Rightarrow> db \<times> real \<times> resolution_value" where
  "upsertResolution wall d vendor key patch =
     (let existing = getResolution d vendor key;
          nextValue =
            (case p_value patch of
               Some v \<Rightarrow> v
             | None \<Rightarrow> (case existing of Some e \<Rightarrow> rm_value e | None \<Rightarrow> defaultValue));
          nextConfidence =
            (case p_confidence patch of
               Some c \<Rightarrow> c
             | None \<Rightarrow> (case existing of Some e \<Rightarrow> rm_confidence e | None \<Rightarrow> 1 / 2));
          nextLastUsedAt = (case p_lastUsedAt patch of Some t \<Rightarrow> t | None \<Rightarrow> wall);
          nextDisabledAt =
            (case p_disabledAt patch of
               Some da \<Rightarrow> da
             | None \<Rightarrow> (case existing of Some e \<Rightarrow> rm_disabledAt e | None \<Rightarrow> None));
          nextRejectCount = (case existing of Some e \<Rightarrow> rm_rejectCount e | None \<Rightarrow> 0);
          conflict = (\<lambda>r. rm_vendor r = vendor \<and> rm_key r = key);
          d' =
            (if \<exists>r \<in> set (resolution_memory d). conflict r
             then d\<lparr>resolution_memory :=
                      map (\<lambda>r. if conflict r
                                then r\<lparr>rm_value := nextValue,
                                       rm_confidence := nextConfidence,
                                       rm_lastUsedAt := Some nextLastUsedAt,
                                       rm_disabledAt :=
                                         (if rm_hasDisabledAt d then nextDisabledAt
                                          else rm_disabledAt r),
                                       rm_rejectCount :=
                                         (if rm_hasRejectCount d then nextRejectCount
                                          else rm_rejectCount r)\<rparr>
                                else r)
                        (resolution_memory d)\<rparr>
             else d\<lparr>resolution_memory :=
                      resolution_memory d @
                        [\<lparr>rm_vendor = vendor, rm_key = key, rm_value = nextValue,
                          rm_confidence = nextConfidence,
                          rm_rejectCount = (if rm_hasRejectCount d then nextRejectCount else 0),
                          rm_lastUsedAt = Some nextLastUsedAt,
                          rm_disabledAt = (if rm_hasDisabledAt d then nextDisabledAt else None),
                          rm_createdAt =
                            (case existing of Some e \<Rightarrow> rm_createdAt e | None \<Rightarrow> wall)\<rparr>]\<rparr>)
      in (d', nextConfidence, nextValue))"

definition recordResolutionDecision ::
  "string \<Rightarrow> db \<Rightarrow> string \<Rightarrow> string \<Rightarrow> decision \<Rightarrow> string \<Rightarrow> db \<times> resolution_value" where
  "recordResolutionDecision wall d vendor key dec invoiceId =
     (let existingAny =
            (if \<not> rm_hasDisabledAt d then getResolution d vendor key
             else find (\<lambda>r. rm_vendor r = vendor \<and> rm_key r = key) (resolution_memory d));
          value0 = (case existingAny of Some e \<Rightarrow> rm_value e | None \<Rightarrow> defaultValue);
          value =
            value0\<lparr>rv_approved := (if dec = Approved then rv_approved value0 + 1
                                     else rv_approved value0),
                   rv_rejected := (if dec = Rejected then rv_rejected value0 + 1
                                     else rv_rejected value0),
                   rv_lastDecision := Some dec,
                   rv_lastInvoiceId := Some invoiceId\<rparr>;
          confidence0 = (case existingAny of Some e \<Rightarrow> rm_confidence e | None \<Rightarrow> 1 / 2);
          confidence1 =
            (if dec = Approved then min (95 / 100) (confidence0 + 5 / 100)
             else max (2 / 10) (confidence0 - 1 / 10));
          rejectCount0 =
            (if rm_hasRejectCount d
             then (case existingAny of Some e \<Rightarrow> rm_rejectCount e | None \<Rightarrow> 0)
             else 0);
          nextRejectCount =
            (if dec = Rejected \<and> rm_hasRejectCount d then rejectCount0 + 1 else rejectCount0);
          disableNow =
            (rm_hasDisabledAt d \<and> dec = Rejected \<and> rv_rejected value \<ge> 2 \<and> rv_approved value = 0);
          disabledAt =
            (if disableNow then Some wall
             else (case existingAny of Some e \<Rightarrow> rm_disabledAt e | None \<Rightarrow> None));
          confidence = (if disableNow then min confidence1 (2 / 10) else confidence1);
          (d1, outConfidence, outValue) =
            upsertResolution wall d vendor key
              \<lparr>p_value = Some value, p_confidence = Some confidence, p_lastUsedAt = Some wall,
               p_disabledAt = (if rm_hasDisabledAt d then Some disabledAt else None)\<rparr>;
          d2 =
            (if rm_hasRejectCount d
             then d1\<lparr>resolution_memory :=
                       map (\<lambda>r. if rm_vendor r = vendor \<and> rm_key r = key
                                 then r\<lparr>rm_rejectCount := nextRejectCount\<rparr> else r)
                         (resolution_memory d1)\<rparr>
             else d1)
      in (d2, outValue))"

section \<open>Shaping a confidence by the resolution history (engine/runPipeline)\<close>

text \<open>The arrow of the note text, in UTF-8.\<close>

definition arrowStr :: string where
  "arrowStr = [CHR 0xE2, CHR 0x86, CHR 0x92]"

definition intToString :: "js_env \<Rightarrow> int \<Rightarrow> string" where
  "intToString E n = numToString E (Fin (real_of_int n))"

definition realToString :: "js_env \<Rightarrow> real \<Rightarrow> string" where
  "realToString E x = numToString E (Fin x)"

definition applyResolutionMemoryToConfidence ::
  "js_env \<Rightarrow> db \<Rightarrow> string \<Rightarrow> string \<Rightarrow> real \<Rightarrow> real \<times> string" where
  "applyResolutionMemoryToConfidence E d vendor key base =
     (case getResolution d vendor key of
        None \<Rightarrow> (base, ''No resolution history.'')
      | Some res \<Rightarrow>
          let a = rv_approved (rm_value res);
              r = rv_rejected (rm_value res);
              adjusted1 = (if a \<ge> 2 \<and> r = 0 then min (95 / 100) (base + 15 / 100) else base);
              adjusted = (if r \<ge> 1 then max (2 / 10) (base - 2 / 10) else adjusted1)
          in (adjusted,
              ''Resolution: approved='' @ intToString E a @ '', rejected='' @ intToString E r @
              '', '' @ realToString E base @ arrowStr @ realToString E adjusted))"

section \<open>The Apply phase (engine/runPipeline)\<close>

text \<open>
  The mutable locals of \<^verbatim>\<open>runPipeline\<close> and the store, threaded through the
  heuristics. The two sets are lists in insertion order without repetition.
\<close>

record apply_state =
  st_db :: db
  st_auditTrail :: "audit_entry list"
  st_proposedCorrections :: "proposed_correction list"
  st_reasoningParts :: "string list"
  st_confidenceScore :: real
  st_usedResolutionKeys :: "string list"
  st_usedCorrectionMemoryIds :: "string list"

definition setAdd :: "string \<Rightarrow> string list \<Rightarrow> string list" where
  "setAdd k ks = (if k \<in> set ks then ks else ks @ [k])"

definition pushAudit :: "js_env \<Rightarrow> int \<Rightarrow> string \<Rightarrow> string \<Rightarrow> apply_state \<Rightarrow> apply_state" where
  "pushAudit E now step details st =
     st\<lparr>st_auditTrail :=
          st_auditTrail st @
            [\<lparr>at_step = step, at_timestamp = toISOString E now, at_details = details\<rparr>]\<rparr>"

definition pushCorrection :: "proposed_correction \<Rightarrow> apply_state \<Rightarrow> apply_state" where
  "pushCorrection c st = st\<lparr>st_proposedCorrections := st_proposedCorrections st @ [c]\<rparr>"

definition pushReasoning :: "string \<Rightarrow> apply_state \<Rightarrow> apply_state" where
  "pushReasoning r st = st\<lparr>st_reasoningParts := st_reasoningParts st @ [r]\<rparr>"

text \<open>\<^verbatim>\<open>confidenceScore = Math.max(confidenceScore, c)\<close>.\<close>

definition raiseConfidence :: "real \<Rightarrow> apply_state \<Rightarrow> apply_state" where
  "raiseConfidence c st = st\<lparr>st_confidenceScore := max (st_confidenceScore st) c\<rparr>"

definition useResolutionKey :: "string \<Rightarrow> apply_state \<Rightarrow> apply_state" where
  "useResolutionKey k st = st\<lparr>st_usedResolutionKeys := setAdd k (st_usedResolutionKeys st)\<rparr>"

text \<open>\<^verbatim>\<open>markUsed(db, id); usedCorrectionMemoryIds.add(id)\<close>.\<close>

definition useCorrectionMemory :: "js_env \<Rightarrow> string \<Rightarrow> apply_state \<Rightarrow> apply_state" where
  "useCorrectionMemory E ident st =
     st\<lparr>st_db := markUsed (wallClock E) (st_db st) ident,
        st_usedCorrectionMemoryIds := setAdd ident (st_usedCorrectionMemoryIds st)\<rparr>"

text \<open>\<^verbatim>\<open>mem?.lastUsedAt ?? mem?.createdAt ?? null\<close> on an optional vendor-memory row.\<close>

definition vmLastTouched :: "vendor_memory_row option \<Rightarrow> string option" where
  "vmLastTouched mem = (case mem of None \<Rightarrow> None | Some m \<Rightarrow> vm_lastUsedAt m)"

text \<open>The base confidence of a memory-backed heuristic after decay.\<close>

definition decayIfUsed :: "js_env \<Rightarrow> bool \<Rightarrow> real \<Rightarrow> string option \<Rightarrow> int \<Rightarrow> real" where
  "decayIfUsed E canUse base lastTouched now =
     (if canUse then decayedConfidence30 (Fin base) (daysSince (getTime E) lastTouched now)
      else base)"

definition rawTextOf :: "pipeline_context \<Rightarrow> string" where
  "rawTextOf ctx = (case ex_rawText (ctx_extracted ctx) of None \<Rightarrow> [] | Some t \<Rightarrow> t)"

definition fieldsOf :: "pipeline_context \<Rightarrow> invoice_fields option" where
  "fieldsOf ctx = ex_fields (ctx_extracted ctx)"

definition lineItemsOf :: "pipeline_context \<Rightarrow> line_item list" where
  "lineItemsOf ctx =
     (case fieldsOf ctx of
        None \<Rightarrow> []
      | Some f \<Rightarrow> (case f_lineItems f of None \<Rightarrow> [] | Some xs \<Rightarrow> xs))"

subsection \<open>Service date from the Leistungsdatum label\<close>

text \<open>A vendor-memory heuristic proposing a value found in the text.\<close>

definition proposeFromText ::
  "js_env \<Rightarrow> pipeline_context \<Rightarrow> int \<Rightarrow> string \<Rightarrow> vendor_memory_row option \<Rightarrow> real \<Rightarrow> real
     \<Rightarrow> string \<Rightarrow> corr_to \<Rightarrow> string \<Rightarrow> string \<Rightarrow> string \<Rightarrow> string \<Rightarrow> apply_state \<Rightarrow> apply_state" where
  "proposeFromText E ctx now resKey mem baseMem baseText fieldName toV reason
       reasoningMem reasoningText otherSource st =
     (let canUse = canApplyVendorMem (getTime E) mem now;
          st1 = useResolutionKey resKey st;
          base = (if canUse then baseMem else baseText);
          baseAfterDecay = decayIfUsed E canUse base (vmLastTouched mem) now;
          shaped =
            applyResolutionMemoryToConfidence E (st_db st1) (ctx_vendor ctx) resKey baseAfterDecay
      in raiseConfidence (fst shaped)
           (pushReasoning (if canUse then reasoningMem else reasoningText)
              (pushCorrection
                 \<lparr>pc_field = fieldName, pc_from = JNull, pc_to = toV,
                  pc_source = (if canUse then ''vendor_memory'' else otherSource),
                  pc_confidence = fst shaped,
                  pc_reason = reason\<rparr>
                 (pushAudit E now ''apply''
                    (''Resolution memory applied for '' @ resKey @ '': '' @ snd shaped)
                    st1))))"

definition applyServiceDate ::
  "js_env \<Rightarrow> pipeline_context \<Rightarrow> int \<Rightarrow> vendor_memory_row list \<Rightarrow> apply_state \<Rightarrow> apply_state" where
  "applyServiceDate E ctx now vendorMemsAll st =
     (let serviceMem =
            find (\<lambda>m. vm_kind m = ''serviceDate_from_label'' \<and> vm_pattern m = ''Leistungsdatum'')
              vendorMemsAll;
          canUseServiceMem = canApplyVendorMem (getTime E) serviceMem now;
          candidateServiceDate =
            (case extractLeistungsdatum E (rawTextOf ctx) of
               Some cand \<Rightarrow> if cand \<noteq> [] then Some cand else None
             | None \<Rightarrow> None)
      in case (if nullish (fieldOf (fieldsOf ctx) f_serviceDate) then candidateServiceDate
               else None) of
           Some cand \<Rightarrow>
             proposeFromText E ctx now ''serviceDate_from_leistungsdatum'' serviceMem
               (85 / 100) (55 / 100) ''serviceDate'' (ToValue (JString cand))
               (''Found Leistungsdatum in rawText ('' @ cand @ '').'')
               (''Applied vendor memory (decayed): \"'' @ ctx_vendor ctx @
                ''\" uses Leistungsdatum as service date.'')
               ''Heuristic: rawText contains Leistungsdatum, suggesting serviceDate.''
               ''rawText_heuristic'' st
         | None \<Rightarrow>
             (case serviceMem of
                Some m \<Rightarrow>
                  if \<not> canUseServiceMem then
                    pushAudit E now ''apply''
                      (''Vendor memory for serviceDate exists but is disabled/suspect/decayed; '' @
                       ''not auto-applied (id='' @ vm_id m @ '').'')
                      st
                  else st
              | None \<Rightarrow> st))"

subsection \<open>Purchase-order inference\<close>

definition getInvoiceSkus :: "pipeline_context \<Rightarrow> string list" where
  "getInvoiceSkus ctx =
     concat (map (\<lambda>x. case li_sku x of None \<Rightarrow> [] | Some s \<Rightarrow> if s \<noteq> [] then [s] else [])
               (lineItemsOf ctx))"

definition suggestPoNumber :: "js_env \<Rightarrow> pipeline_context \<Rightarrow> real \<Rightarrow> (string \<times> string) option" where
  "suggestPoNumber E ctx daysWindow =
     (let vendor = ctx_vendor ctx
      in case parseDateToIso E
                (case fieldsOf ctx of None \<Rightarrow> None | Some f \<Rightarrow> f_invoiceDate f) of
           None \<Rightarrow> None
         | Some invoiceDateIso \<Rightarrow>
             let skus = getInvoiceSkus ctx
             in if skus = [] then None
                else
                  let pos =
                        (case ctx_reference ctx of
                           None \<Rightarrow> []
                         | Some ref \<Rightarrow>
                             (case ref_purchaseOrders ref of None \<Rightarrow> [] | Some xs \<Rightarrow> xs));
                      candidates =
                        filter
                          (\<lambda>po. let poSkus =
                                      map pl_sku
                                        (case po_lineItems po of None \<Rightarrow> [] | Some ls \<Rightarrow> ls)
                                in \<exists>sk \<in> set skus. Some sk \<in> set poSkus)
                          (filter
                             (\<lambda>po. case daysBetween E invoiceDateIso (po_date po) of
                                      None \<Rightarrow> False
                                    | Some days \<Rightarrow> days \<le> daysWindow)
                             (filter (\<lambda>po. po_vendor po = vendor) pos))
                  in case candidates of
                       [po] \<Rightarrow>
                         Some (po_poNumber po,
                               ''Only matching PO for vendor within '' @ realToString E daysWindow @
                               '' days and matching SKU ('' @ join '', '' skus @ '').'')
                     | _ \<Rightarrow> None)"

definition poPropose ::
  "js_env \<Rightarrow> pipeline_context \<Rightarrow> int \<Rightarrow> vendor_memory_row option \<Rightarrow> string \<Rightarrow> string
     \<Rightarrow> apply_state \<Rightarrow> apply_state" where
  "poPropose E ctx now poMem poNumber reason st =
     (let canUsePoMem = canApplyVendorMem (getTime E) poMem now;
          resKey = ''po_infer_sku_date_window'';
          st1 = useResolutionKey resKey st;
          base = (if canUsePoMem then 88 / 100 else 80 / 100);
          baseAfterDecay = decayIfUsed E canUsePoMem base (vmLastTouched poMem) now;
          shaped =
            applyResolutionMemoryToConfidence E (st_db st1) (ctx_vendor ctx) resKey baseAfterDecay
      in raiseConfidence (fst shaped)
           (pushReasoning
              (if canUsePoMem
               then ''Applied vendor memory (decayed): inferred PO using SKU + 30-day window.''
               else ''Heuristic: inferred PO using SKU + 30-day window.'')
              (pushCorrection
                 \<lparr>pc_field = ''poNumber'', pc_from = JNull,
                  pc_to = ToValue (JString poNumber),
                  pc_source = (if canUsePoMem then ''vendor_memory'' else ''reference_heuristic''),
                  pc_confidence = fst shaped,
                  pc_reason = reason\<rparr>
                 (pushAudit E now ''apply''
                    (''PO inference ('' @
                     (if canUsePoMem then ''vendor_memory'' else ''heuristic'') @ '') '' @
                     arrowStr @ '' '' @ poNumber @ ''. '' @ snd shaped)
                    st1))))"

definition applyPoInference ::
  "js_env \<Rightarrow> pipeline_context \<Rightarrow> int \<Rightarrow> vendor_memory_row list \<Rightarrow> apply_state \<Rightarrow> apply_state" where
  "applyPoInference E ctx now vendorMemsAll st =
     (let poMem =
            find (\<lambda>m. vm_kind m = ''po_match_strategy'' \<and> vm_pattern m = ''sku_and_date_window'')
              vendorMemsAll
      in if nullish (fieldOf (fieldsOf ctx) f_poNumber) then
           (case suggestPoNumber E ctx 30 of
              Some suggestion \<Rightarrow> poPropose E ctx now poMem (fst suggestion) (snd suggestion) st
            | None \<Rightarrow>
                pushAudit E now ''apply''
                  ''PO inference attempted but no unique/strong match found (SKU+date window).''
                  st)
         else st)"

subsection \<open>VAT-inclusive totals\<close>

text \<open>The value of a number known to be finite.\<close>

fun realOf :: "jsnum \<Rightarrow> real" where
  "realOf (Fin r) = r"
| "realOf n = 0"

definition vatMemOf :: "vendor_memory_row list \<Rightarrow> vendor_memory_row option" where
  "vatMemOf vendorMemsAll =
     find (\<lambda>m. vm_kind m = ''vat_inclusive_pricing'' \<and> vm_pattern m = ''mwst_inkl'') vendorMemsAll"

text \<open>The confidence of the VAT heuristic, shaped by the resolution history, and its note.\<close>

definition vatShaped ::
  "js_env \<Rightarrow> db \<Rightarrow> pipeline_context \<Rightarrow> int \<Rightarrow> vendor_memory_row list \<Rightarrow> real \<times> string" where
  "vatShaped E d ctx now vendorMemsAll =
     (let vatMem = vatMemOf vendorMemsAll;
          canUseVatMem = canApplyVendorMem (getTime E) vatMem now;
          base = (if canUseVatMem then 85 / 100 else 6 / 10);
          baseAfterDecay = decayIfUsed E canUseVatMem base (vmLastTouched vatMem) now
      in applyResolutionMemoryToConfidence E d (ctx_vendor ctx) ''vat_inclusive_recompute_totals''
           baseAfterDecay)"

definition vatNet :: "js_env \<Rightarrow> pipeline_context \<Rightarrow> jsnum" where
  "vatNet E ctx = toNum (stringToNumber E) (fieldOf (fieldsOf ctx) f_netTotal)"

definition vatRate :: "js_env \<Rightarrow> pipeline_context \<Rightarrow> jsnum" where
  "vatRate E ctx =
     toNum (stringToNumber E)
       (coalesce (fieldOf (fieldsOf ctx) f_taxRate) (JNumber (Fin (19 / 100))))"

definition vatCurrentGross :: "js_env \<Rightarrow> pipeline_context \<Rightarrow> jsnum" where
  "vatCurrentGross E ctx = toNum (stringToNumber E) (fieldOf (fieldsOf ctx) f_grossTotal)"

definition vatCurrentTax :: "js_env \<Rightarrow> pipeline_context \<Rightarrow> jsnum" where
  "vatCurrentTax E ctx = toNum (stringToNumber E) (fieldOf (fieldsOf ctx) f_taxTotal)"

text \<open>
  The totals are checked when the text announces VAT-inclusive prices and net total, tax
  rate, gross total and tax total are all finite numbers.
\<close>

definition vatTotalsChecked :: "js_env \<Rightarrow> pipeline_context \<Rightarrow> bool" where
  "vatTotalsChecked E ctx =
     (isVatInclusiveText E (rawTextOf ctx) \<and>
      isFinite (vatNet E ctx) \<and> isFinite (vatRate E ctx) \<and>
      isFinite (vatCurrentGross E ctx) \<and> isFinite (vatCurrentTax E ctx))"

definition vatExpectedGross :: "js_env \<Rightarrow> pipeline_context \<Rightarrow> real" where
  "vatExpectedGross E ctx =
     (case extractTotalFromRawText E (rawTextOf ctx) of
        Some g \<Rightarrow> round2 E g
      | None \<Rightarrow> round2 E (realOf (vatNet E ctx) * (1 + realOf (vatRate E ctx))))"

definition vatExpectedTax :: "js_env \<Rightarrow> pipeline_context \<Rightarrow> real" where
  "vatExpectedTax E ctx = round2 E (vatExpectedGross E ctx - realOf (vatNet E ctx))"

text \<open>The two corrections of the heuristic, each proposed when the total is off by more than 0.01.\<close>

definition vatGrossOff :: "js_env \<Rightarrow> pipeline_context \<Rightarrow> bool" where
  "vatGrossOff E ctx = (\<bar>realOf (vatCurrentGross E ctx) - vatExpectedGross E ctx\<bar> > 1 / 100)"

definition vatTaxOff :: "js_env \<Rightarrow> pipeline_context \<Rightarrow> bool" where
  "vatTaxOff E ctx = (\<bar>realOf (vatCurrentTax E ctx) - vatExpectedTax E ctx\<bar> > 1 / 100)"

definition vatPushGross ::
  "js_env \<Rightarrow> pipeline_context \<Rightarrow> bool \<Rightarrow> real \<Rightarrow> apply_state \<Rightarrow> apply_state" where
  "vatPushGross E ctx canUseVatMem appliedConfidence st =
     (if vatGrossOff E ctx then
        pushCorrection
          \<lparr>pc_field = ''grossTotal'', pc_from = JNumber (Fin (realOf (vatCurrentGross E ctx))),
           pc_to = ToValue (JNumber (Fin (vatExpectedGross E ctx))),
           pc_source = (if canUseVatMem then ''vendor_memory'' else ''rawText_heuristic''),
           pc_confidence = appliedConfidence,
           pc_reason =
             (if extractTotalFromRawText E (rawTextOf ctx) \<noteq> None
              then ''VAT-inclusive pricing detected; rawText Total='' @
                   realToString E (vatExpectedGross E ctx) @ '' used for grossTotal.''
              else ''VAT-inclusive pricing detected; recomputed grossTotal '' @
                   ''from netTotal and taxRate.'')\<rparr>
          st
      else st)"

definition vatPushTax ::
  "js_env \<Rightarrow> pipeline_context \<Rightarrow> bool \<Rightarrow> real \<Rightarrow> apply_state \<Rightarrow> apply_state" where
  "vatPushTax E ctx canUseVatMem appliedConfidence st =
     (if vatTaxOff E ctx then
        pushCorrection
          \<lparr>pc_field = ''taxTotal'', pc_from = JNumber (Fin (realOf (vatCurrentTax E ctx))),
           pc_to = ToValue (JNumber (Fin (vatExpectedTax E ctx))),
           pc_source = (if canUseVatMem then ''vendor_memory'' else ''rawText_heuristic''),
           pc_confidence = appliedConfidence,
           pc_reason =
             ''VAT-inclusive pricing detected; taxTotal should be '' @
             ''grossTotal - netTotal ('' @ realToString E (vatExpectedTax E ctx) @ '').''\<rparr>
          st
      else st)"

text \<open>After the two checks: \<^verbatim>\<open>if (pushedAny) ... else ...\<close>.\<close>

definition vatFinish ::
  "js_env \<Rightarrow> pipeline_context \<Rightarrow> int \<Rightarrow> bool \<Rightarrow> real \<Rightarrow> apply_state \<Rightarrow> apply_state" where
  "vatFinish E ctx now canUseVatMem appliedConfidence st =
     (if vatGrossOff E ctx \<or> vatTaxOff E ctx then
        raiseConfidence appliedConfidence
          (pushReasoning
             (if canUseVatMem
              then ''Applied vendor memory (decayed): VAT-inclusive pricing '' @
                   arrowStr @ '' recompute totals.''
              else ''Heuristic: VAT-inclusive pricing detected in rawText '' @
                   arrowStr @ '' propose recompute totals.'')
             st)
      else
        raiseConfidence (min (85 / 100) appliedConfidence)
          (pushReasoning
             (if canUseVatMem
              then ''Known vendor pattern (decayed): VAT-inclusive pricing detected; '' @
                   ''totals verified, no correction required.''
              else ''VAT-inclusive pricing detected; totals verified, '' @
                   ''no correction required.'')
             (pushAudit E now ''apply''
                (''VAT-inclusive pricing detected; totals verified '' @
                 ''(no correction needed). Expected gross='' @
                 realToString E (vatExpectedGross E ctx) @ '', tax='' @
                 realToString E (vatExpectedTax E ctx) @ ''.'')
                st)))"

definition applyVatTotals ::
  "js_env \<Rightarrow> pipeline_context \<Rightarrow> int \<Rightarrow> vendor_memory_row list \<Rightarrow> apply_state \<Rightarrow> apply_state" where
  "applyVatTotals E ctx now vendorMemsAll st =
     (let canUseVatMem = canApplyVendorMem (getTime E) (vatMemOf vendorMemsAll) now
      in if isVatInclusiveText E (rawTextOf ctx) then
           let resKey = ''vat_inclusive_recompute_totals'';
               shaped = vatShaped E (st_db st) ctx now vendorMemsAll;
               st1 =
                 pushAudit E now ''apply''
                   (''Resolution memory applied for '' @ resKey @ '': '' @ snd shaped)
                   (useResolutionKey resKey st)
           in if vatTotalsChecked E ctx then
                vatFinish E ctx now canUseVatMem (fst shaped)
                  (vatPushTax E ctx canUseVatMem (fst shaped)
                     (vatPushGross E ctx canUseVatMem (fst shaped) st1))
              else st1
         else st)"

subsection \<open>Line-item quantities against delivery notes\<close>

definition findMatchingDeliveryQty :: "pipeline_context \<Rightarrow> string \<Rightarrow> real option" where
  "findMatchingDeliveryQty ctx sku =
     (let vendor = ctx_vendor ctx;
          invoicePo = fieldOf (fieldsOf ctx) f_poNumber;
          notes =
            (case ctx_reference ctx of
               None \<Rightarrow> []
             | Some ref \<Rightarrow> (case ref_deliveryNotes ref of None \<Rightarrow> [] | Some xs \<Rightarrow> xs));
          dns =
            filter (\<lambda>dn. \<not> truthy invoicePo \<or> strictEq (dn_poNumber dn) invoicePo)
              (filter (\<lambda>dn. dn_vendor dn = vendor) notes);
          hit =
            (\<lambda>dn. case find (\<lambda>x. dl_sku x = Some sku)
                          (case dn_lineItems dn of None \<Rightarrow> [] | Some ls \<Rightarrow> ls) of
                     Some li \<Rightarrow>
                       (case dl_qtyDelivered li of JNumber (Fin q) \<Rightarrow> Some q | _ \<Rightarrow> None)
                   | None \<Rightarrow> None)
      in case filter (\<lambda>dn. hit dn \<noteq> None) dns of
           [] \<Rightarrow> None
         | dn # _ \<Rightarrow> hit dn)"

text \<open>\<^verbatim>\<open>Math.max(lo, Number(mem.confidence ?? lo))\<close>; the column is never null.\<close>

definition cmBase :: "real \<Rightarrow> correction_memory_row \<Rightarrow> real" where
  "cmBase lo mem = max lo (cm_confidence mem)"

text \<open>
  \<^verbatim>\<open>mem && !isSuspectCorrectionMemory({ mem, resolution, now })\<close>: the entry found, when
  it may be used.
\<close>

definition usableCorrectionMemory ::
  "js_env \<Rightarrow> db \<Rightarrow> string \<Rightarrow> string \<Rightarrow> correction_memory_row option \<Rightarrow> int
     \<Rightarrow> correction_memory_row option" where
  "usableCorrectionMemory E d vendor resKey mem now =
     (case mem of
        None \<Rightarrow> None
      | Some m \<Rightarrow>
          if isSuspectCorrectionMemory (getTime E) (Some m) (getResolution d vendor resKey) now
          then None else Some m)"

text \<open>The audit entry for an entry found but not usable (\<^verbatim>\<open>if (mem && !canUseMem)\<close>).\<close>

definition auditSkipped ::
  "js_env \<Rightarrow> int \<Rightarrow> string \<Rightarrow> correction_memory_row option \<Rightarrow> correction_memory_row option
     \<Rightarrow> apply_state \<Rightarrow> apply_state" where
  "auditSkipped E now what mem canUse st =
     (case mem of
        None \<Rightarrow> st
      | Some m \<Rightarrow>
          if canUse = None then
            pushAudit E now ''apply''
              (''Skipped correction memory for '' @ what @
               '' as suspect/disabled/decayed (id='' @ cm_id m @ '').'')
              st
          else st)"

text \<open>
  The line items the loop does not skip: a non-empty sku, a finite quantity, and a
  delivery-note quantity that differs. The result is sku, invoice quantity and
  delivery-note quantity.
\<close>

definition qtyCandidate :: "pipeline_context \<Rightarrow> line_item \<Rightarrow> (string \<times> real \<times> real) option" where
  "qtyCandidate ctx li =
     (case li_sku li of
        None \<Rightarrow> None
      | Some sku \<Rightarrow>
          if sku = [] then None
          else
            (case li_qty li of
               JNumber (Fin qty) \<Rightarrow>
                 (case findMatchingDeliveryQty ctx sku of
                    None \<Rightarrow> None
                  | Some dnQty \<Rightarrow> if dnQty = qty then None else Some (sku, qty, dnQty))
             | _ \<Rightarrow> None))"

definition qtyPropose ::
  "js_env \<Rightarrow> pipeline_context \<Rightarrow> int \<Rightarrow> apply_state \<Rightarrow> string \<Rightarrow> real \<Rightarrow> real \<Rightarrow> apply_state" where
  "qtyPropose E ctx now st sku qty dnQty =
     (let vendor = ctx_vendor ctx;
          resKey = ''qty_to_delivery_note'';
          st1 = useResolutionKey resKey st;
          foundMem = findCorrectionMemory (st_db st1) vendor ''lineItems[].qty'' ''sku'' sku;
          canUseMem = usableCorrectionMemory E (st_db st1) vendor resKey foundMem now;
          st2 = auditSkipped E now ''qty'' foundMem canUseMem st1;
          base = (case canUseMem of Some fm \<Rightarrow> cmBase (75 / 100) fm | None \<Rightarrow> 6 / 10);
          baseAfterDecay =
            (case canUseMem of
               Some fm \<Rightarrow>
                 decayedConfidence30 (Fin base) (daysSince (getTime E) (cm_lastTouched fm) now)
             | None \<Rightarrow> base);
          shaped = applyResolutionMemoryToConfidence E (st_db st2) vendor resKey baseAfterDecay;
          confidence = fst shaped;
          st3 =
            pushCorrection
              \<lparr>pc_field = ''lineItems[sku='' @ sku @ ''].qty'',
               pc_from = JNumber (Fin qty),
               pc_to = ToValue (JNumber (Fin dnQty)),
               pc_source =
                 (if canUseMem \<noteq> None then ''correction_memory'' else ''reference_heuristic''),
               pc_confidence = confidence,
               pc_reason =
                 ''Delivery note quantity ('' @ realToString E dnQty @
                 '') differs from invoice quantity ('' @ realToString E qty @
                 '') for SKU '' @ sku @ ''.''\<rparr>
              (pushAudit E now ''apply''
                 (''Resolution memory applied for '' @ resKey @ '': '' @ snd shaped)
                 st2);
          st4 =
            (case canUseMem of
               Some fm \<Rightarrow>
                 pushReasoning
                   (''Applied correction memory (decayed) for qty by SKU '' @ sku @ ''.'')
                   (useCorrectionMemory E (cm_id fm) st3)
             | None \<Rightarrow>
                 pushReasoning (''Heuristic: delivery note qty differs for SKU '' @ sku @ ''.'') st3)
      in raiseConfidence confidence st4)"

definition qtyStep ::
  "js_env \<Rightarrow> pipeline_context \<Rightarrow> int \<Rightarrow> apply_state \<Rightarrow> line_item \<Rightarrow> apply_state" where
  "qtyStep E ctx now st li =
     (case qtyCandidate ctx li of
        None \<Rightarrow> st
      | Some (sku, qty, dnQty) \<Rightarrow> qtyPropose E ctx now st sku qty dnQty)"

definition applyQuantities ::
  "js_env \<Rightarrow> pipeline_context \<Rightarrow> int \<Rightarrow> apply_state \<Rightarrow> apply_state" where
  "applyQuantities E ctx now st = foldl (qtyStep E ctx now) st (lineItemsOf ctx)"

subsection \<open>Currency\<close>

text \<open>
  The fallback of the currency and Skonto heuristics: a usable correction-memory entry
  proposes its stored value (\<open>toValue\<close> of the stored text).
\<close>

definition applyFallback ::
  "js_env \<Rightarrow> pipeline_context \<Rightarrow> int \<Rightarrow> string \<Rightarrow> string \<Rightarrow> string \<Rightarrow> (string \<Rightarrow> corr_to)
     \<Rightarrow> apply_state \<Rightarrow> apply_state" where
  "applyFallback E ctx now resKey fieldName reason toValue st =
     (let vendor = ctx_vendor ctx;
          st1 = useResolutionKey resKey st;
          mem = findCorrectionMemory (st_db st1) vendor fieldName ''vendor'' ''default'';
          canUseMem = usableCorrectionMemory E (st_db st1) vendor resKey mem now;
          st2 = auditSkipped E now fieldName mem canUseMem st1
      in case canUseMem of
           None \<Rightarrow> st2
         | Some m \<Rightarrow>
             let base = cmBase (7 / 10) m;
                 baseAfterDecay =
                   decayedConfidence30 (Fin base) (daysSince (getTime E) (cm_lastTouched m) now);
                 shaped = applyResolutionMemoryToConfidence E (st_db st2) vendor resKey baseAfterDecay
             in raiseConfidence (fst shaped)
                  (pushAudit E now ''apply''
                     (''Applied correction memory fallback for '' @ fieldName @ '' (id='' @
                      cm_id m @ ''). '' @ snd shaped)
                     (useCorrectionMemory E (cm_id m)
                        (pushCorrection
                           \<lparr>pc_field = fieldName, pc_from = JNull,
                            pc_to = toValue (cm_recommendedValue m),
                            pc_source = ''correction_memory'',
                            pc_confidence = fst shaped,
                            pc_reason = reason\<rparr>
                           st2))))"

definition applyCurrency ::
  "js_env \<Rightarrow> pipeline_context \<Rightarrow> int \<Rightarrow> vendor_memory_row list \<Rightarrow> apply_state \<Rightarrow> apply_state" where
  "applyCurrency E ctx now vendorMemsAll st =
     (let currencyMem = find (\<lambda>m. vm_kind m = ''currency_from_rawText'') vendorMemsAll;
          resKey = ''currency_from_rawText''
      in if nullish (fieldOf (fieldsOf ctx) f_currency) then
           (case parseCurrency E (rawTextOf ctx) of
              Some cur \<Rightarrow>
                if cur \<noteq> [] then
                  proposeFromText E ctx now resKey currencyMem (85 / 100) (7 / 10) ''currency''
                    (ToValue (JString cur)) (''Recovered currency from rawText ('' @ cur @ '').'')
                    ''Applied vendor memory (decayed): currency can be recovered from rawText.''
                    ''Heuristic: recovered missing currency from rawText.''
                    ''rawText_heuristic'' st
                else
                  applyFallback E ctx now resKey ''currency''
                    ''Currency missing and rawText parse failed; applied correction memory fallback.''
                    (\<lambda>v. ToValue (JString v)) st
            | None \<Rightarrow>
                applyFallback E ctx now resKey ''currency''
                  ''Currency missing and rawText parse failed; applied correction memory fallback.''
                  (\<lambda>v. ToValue (JString v)) st)
         else st)"

subsection \<open>Freight vendor: Skonto terms and the freight SKU\<close>

definition applySkonto ::
  "js_env \<Rightarrow> pipeline_context \<Rightarrow> int \<Rightarrow> vendor_memory_row list \<Rightarrow> apply_state \<Rightarrow> apply_state" where
  "applySkonto E ctx now vendorMemsAll st =
     (let resKey = ''skonto_terms_extraction''
      in if nullish (fieldOf (fieldsOf ctx) f_discountTerms) then
           (case extractSkonto E (rawTextOf ctx) of
              Some (percent, days) \<Rightarrow>
                proposeFromText E ctx now resKey
                  (find (\<lambda>m. vm_kind m = ''skonto_terms'') vendorMemsAll)
                  (85 / 100) (6 / 10) ''discountTerms'' (ToSkonto percent days)
                  (''Detected '' @ numToString E percent @ ''% Skonto if paid within '' @
                   numToString E days @ '' days.'')
                  ''Applied vendor memory (decayed): Freight & Co uses Skonto terms.''
                  ''Heuristic: detected Skonto payment terms in rawText.''
                  ''rawText_heuristic'' st
            | None \<Rightarrow>
                applyFallback E ctx now resKey ''discountTerms''
                  ''Skonto missing and rawText extraction failed; applied correction memory fallback.''
                  (\<lambda>v. ToValue (case jsonParse E v of Some parsed \<Rightarrow> parsed | None \<Rightarrow> JString v))
                  st)
         else st)"

definition freightItemOf :: "js_env \<Rightarrow> pipeline_context \<Rightarrow> line_item option" where
  "freightItemOf E ctx =
     (case fieldsOf ctx of
        None \<Rightarrow> None
      | Some f \<Rightarrow>
          (case f_lineItems f of
             None \<Rightarrow> None
           | Some items \<Rightarrow>
               find (\<lambda>li. li_sku li = None \<and>
                          reFreightDescription E
                            (case li_description li of None \<Rightarrow> [] | Some t \<Rightarrow> t))
                 items))"

definition applyFreightSku ::
  "js_env \<Rightarrow> pipeline_context \<Rightarrow> int \<Rightarrow> vendor_memory_row list \<Rightarrow> apply_state \<Rightarrow> apply_state" where
  "applyFreightSku E ctx now vendorMemsAll st =
     (if freightItemOf E ctx \<noteq> None then
        let vendor = ctx_vendor ctx;
            resKey = ''freight_sku_mapping'';
            st1 = useResolutionKey resKey st;
            mem =
              findCorrectionMemory (st_db st1) vendor ''lineItems[].sku'' ''vendor''
                ''freight_desc_missing_sku'';
            canUseMem = usableCorrectionMemory E (st_db st1) vendor resKey mem now;
            skuVendorMem =
              find (\<lambda>m. vm_kind m = ''sku_mapping'' \<and> vm_pattern m = ''FREIGHT'') vendorMemsAll;
            canUseSkuVendorMem = canApplyVendorMem (getTime E) skuVendorMem now;
            pickedSku = (case canUseMem of Some m \<Rightarrow> cm_recommendedValue m | None \<Rightarrow> ''FREIGHT'');
            base =
              (case canUseMem of
                 Some m \<Rightarrow> cmBase (7 / 10) m
               | None \<Rightarrow> if canUseSkuVendorMem then 85 / 100 else 6 / 10);
            baseAfterDecay =
              (case canUseMem of
                 Some m \<Rightarrow>
                   decayedConfidence30 (Fin base) (daysSince (getTime E) (cm_lastTouched m) now)
               | None \<Rightarrow> decayIfUsed E canUseSkuVendorMem base (vmLastTouched skuVendorMem) now);
            shaped = applyResolutionMemoryToConfidence E (st_db st1) vendor resKey baseAfterDecay;
            st2 =
              pushCorrection
                \<lparr>pc_field = ''lineItems[].sku'', pc_from = JNull,
                 pc_to = ToValue (JString pickedSku),
                 pc_source =
                   (if canUseMem \<noteq> None then ''correction_memory''
                    else if canUseSkuVendorMem then ''vendor_memory'' else ''rawText_heuristic''),
                 pc_confidence = fst shaped,
                 pc_reason =
                   (if canUseMem \<noteq> None then ''Applied correction memory freight SKU mapping.''
                    else ''Freight-related description mapped to SKU FREIGHT.'')\<rparr>
                (pushAudit E now ''apply''
                   (''Resolution memory applied for '' @ resKey @ '': '' @ snd shaped)
                   st1);
            st3 =
              (case canUseMem of
                 Some m \<Rightarrow> useCorrectionMemory E (cm_id m) st2
               | None \<Rightarrow> st2)
        in raiseConfidence (fst shaped)
             (pushReasoning
                (if canUseMem \<noteq> None
                 then ''Applied correction memory (decayed): freight descriptions map to a '' @
                      ''learned SKU.''
                 else if canUseSkuVendorMem
                 then ''Applied vendor memory (decayed): Freight descriptions map to SKU FREIGHT.''
                 else ''Heuristic: freight-related description suggests SKU FREIGHT.'')
                st3)
      else st)"

definition applyFreight ::
  "js_env \<Rightarrow> pipeline_context \<Rightarrow> int \<Rightarrow> vendor_memory_row list \<Rightarrow> apply_state \<Rightarrow> apply_state" where
  "applyFreight E ctx now vendorMemsAll st =
     (if reFreightVendor E (ctx_vendor ctx)
      then applyFreightSku E ctx now vendorMemsAll (applySkonto E ctx now vendorMemsAll st)
      else st)"

subsection \<open>The whole phase\<close>

definition applyPhase ::
  "js_env \<Rightarrow> pipeline_context \<Rightarrow> int \<Rightarrow> vendor_memory_row list \<Rightarrow> apply_state \<Rightarrow> apply_state" where
  "applyPhase E ctx now vendorMemsAll st =
     (let st1 = applyServiceDate E ctx now vendorMemsAll st;
          st2 = applyPoInference E ctx now vendorMemsAll st1;
          st3 = applyVatTotals E ctx now vendorMemsAll st2;
          st4 = applyQuantities E ctx now st3;
          st5 = applyCurrency E ctx now vendorMemsAll st4;
          st6 = applyFreight E ctx now vendorMemsAll st5
      in pushAudit E now ''apply''
           (''Proposed '' @
            intToString E (int (length (st_proposedCorrections st6))) @ '' correction(s).'')
           st6)"

section \<open>The Decide phase (engine/runPipeline)\<close>

text \<open>\<^verbatim>\<open>extracted.fields ?? extracted.normalizedInvoice ?? {}\<close>.\<close>

definition normalizedOf :: "extracted \<Rightarrow> invoice_fields option" where
  "normalizedOf ex = (case ex_fields ex of Some f \<Rightarrow> Some f | None \<Rightarrow> ex_normalizedInvoice ex)"

text \<open>\<^verbatim>\<open>isMissing\<close> on the invoice date, a string or absent.\<close>

definition isMissingDate :: "invoice_fields option \<Rightarrow> bool" where
  "isMissingDate normalized =
     (case normalized of
        None \<Rightarrow> True
      | Some f \<Rightarrow> (case f_invoiceDate f of None \<Rightarrow> True | Some s \<Rightarrow> s = []))"

definition hasCriticalMissingFields ::
  "js_env \<Rightarrow> invoice_fields option \<Rightarrow> proposed_correction list \<Rightarrow> bool" where
  "hasCriticalMissingFields E normalized proposed =
     (let missingCurrency = isMissing (fieldOf normalized f_currency);
          missingInvoiceNumber = isMissing (fieldOf normalized f_invoiceNumber);
          missingInvoiceDate = isMissingDate normalized;
          missingNet = \<not> isFinite (toNum (stringToNumber E) (fieldOf normalized f_netTotal));
          missingGross = \<not> isFinite (toNum (stringToNumber E) (fieldOf normalized f_grossTotal));
          missingPo = isMissing (fieldOf normalized f_poNumber);
          hasPoSuggestionHigh =
            (\<exists>c \<in> set proposed. pc_field c = ''poNumber'' \<and> pc_confidence c \<ge> 75 / 100);
          missingPoIsCritical = (missingPo \<and> \<not> hasPoSuggestionHigh)
      in missingInvoiceNumber \<or> missingInvoiceDate \<or> missingCurrency \<or> missingNet \<or>
         missingGross \<or> missingPoIsCritical)"

text \<open>\<^verbatim>\<open>Math.min(...xs)\<close>; positive infinity without arguments.\<close>

fun mathMin :: "real list \<Rightarrow> jsnum" where
  "mathMin [] = PosInf"
| "mathMin (x # xs) = Fin (foldl min x xs)"

definition REVIEW_THRESHOLD :: real where
  "REVIEW_THRESHOLD = 75 / 100"

definition anyLowConfidence :: "proposed_correction list \<Rightarrow> bool" where
  "anyLowConfidence proposed =
     (length proposed > 0 \<and> (\<exists>c \<in> set proposed. pc_confidence c < REVIEW_THRESHOLD))"

text \<open>
  The decision, the audit text of the phase and the score reported: the least confidence
  of the corrections, rounded, when there is one, and the score the Apply phase left
  otherwise.
\<close>

definition decideText :: "proposed_correction list \<Rightarrow> bool \<Rightarrow> bool \<Rightarrow> string" where
  "decideText proposed low criticalMissing =
     (if length proposed = 0 then
        (if criticalMissing
         then ''Escalated: no corrections proposed but critical fields are missing.''
         else ''No corrections proposed; auto-accept.'')
      else if low \<or> criticalMissing then
        (if low then ''Escalated: at least one correction below confidence threshold.''
         else ''Escalated: critical fields missing.'')
      else ''Auto-correct possible: all corrections high confidence.'')"

definition decideScore :: "js_env \<Rightarrow> proposed_correction list \<Rightarrow> real \<Rightarrow> real" where
  "decideScore E proposed confidenceScore =
     (if length proposed > 0 then
        (case mathMin (map pc_confidence proposed) of
           Fin minC \<Rightarrow> round2 E minC
         | _ \<Rightarrow> confidenceScore)
      else confidenceScore)"

section \<open>The Learn phase (engine/runPipeline)\<close>

record learn_state =
  ls_db :: db
  ls_auditTrail :: "audit_entry list"
  ls_memoryUpdates :: "memory_update list"

definition learnAudit :: "js_env \<Rightarrow> int \<Rightarrow> string \<Rightarrow> learn_state \<Rightarrow> learn_state" where
  "learnAudit E now details ls =
     ls\<lparr>ls_auditTrail :=
          ls_auditTrail ls @
            [\<lparr>at_step = ''learn'', at_timestamp = toISOString E now, at_details = details\<rparr>]\<rparr>"

text \<open>An audit event of the pipeline: stamped with \<open>now\<close>, without entity.\<close>

definition pipelineEvent ::
  "js_env \<Rightarrow> int \<Rightarrow> string \<Rightarrow> string \<Rightarrow> string \<Rightarrow> audit_meta \<Rightarrow> audit_event" where
  "pipelineEvent E now eventType vendor invoiceId meta =
     \<lparr>ae_ts = toISOString E now, ae_eventType = eventType, ae_vendor = Some vendor,
      ae_invoiceId = Some invoiceId, ae_entityType = None, ae_entityId = None, ae_meta = meta\<rparr>"

text \<open>
  A rejected verdict penalises each correction-memory entry used in Apply.
  \<^verbatim>\<open>markRejected\<close> updates the row and returns nothing; the loop then reads
  \<^verbatim>\<open>out.rejectCount\<close> of that result, which throws a \<^verbatim>\<open>TypeError\<close>. So the first round of
  the loop ends the run with the exception, after the row has been written and before
  anything is recorded; the store stays as it is at that moment.
\<close>

datatype error = TypeError

definition rejectUsedMemory ::
  "js_env \<Rightarrow> int \<Rightarrow> string \<Rightarrow> string \<Rightarrow> learn_state \<Rightarrow> string
     \<Rightarrow> error \<times> db + learn_state" where
  "rejectUsedMemory E now vendor invoiceId ls memId =
     (let d1 = markRejected (wallClock E) (ls_db ls) memId
      in Inl (TypeError, d1))"

text \<open>A \<^verbatim>\<open>for ... of\<close> loop whose body may throw.\<close>

fun forEach :: "('s \<Rightarrow> 'a \<Rightarrow> 'e + 's) \<Rightarrow> 's \<Rightarrow> 'a list \<Rightarrow> 'e + 's" where
  "forEach body s [] = Inr s"
| "forEach body s (x # xs) =
     (case body s x of Inl e \<Rightarrow> Inl e | Inr s' \<Rightarrow> forEach body s' xs)"

text \<open>
  An approved verdict upserts the vendor memory of a correction category. The existing
  entry is looked up among the entries recalled at the start of the run.
\<close>

definition learnVendorMemory ::
  "js_env \<Rightarrow> int \<Rightarrow> string \<Rightarrow> vendor_memory_row list \<Rightarrow> string \<Rightarrow> string \<Rightarrow> string option
     \<Rightarrow> learn_state \<Rightarrow> learn_state" where
  "learnVendorMemory E now vendor vendorMemsAll kind pattern note ls =
     (let ident = vendor @ ''::'' @ kind @ ''::'' @ pattern;
          existing = find (\<lambda>m. vm_id m = ident) vendorMemsAll;
          nextConfidence =
            min (95 / 100)
              ((case existing of Some e \<Rightarrow> vm_confidence e | None \<Rightarrow> 6 / 10) + 1 / 10)
      in ls\<lparr>ls_db :=
              upsertVendorMemory (ls_db ls)
                \<lparr>vm_id = ident, vm_vendor = vendor, vm_kind = kind, vm_pattern = pattern,
                 vm_confidence = nextConfidence,
                 vm_supportCount =
                   (case existing of Some e \<Rightarrow> vm_supportCount e | None \<Rightarrow> 0) + 1,
                 vm_rejectCount = (case existing of Some e \<Rightarrow> vm_rejectCount e | None \<Rightarrow> 0),
                 vm_lastUsedAt = Some (toISOString E now),
                 vm_status = Active, vm_disabledAt = None\<rparr>,
            ls_memoryUpdates :=
              ls_memoryUpdates ls @
                [\<lparr>mu_type = ''vendor_memory_upsert'', mu_id = ident,
                  mu_confidence = nextConfidence, mu_note = note\<rparr>]\<rparr>)"

definition learnQtyFix ::
  "js_env \<Rightarrow> int \<Rightarrow> string \<Rightarrow> learn_state \<Rightarrow> human_correction \<Rightarrow> learn_state" where
  "learnQtyFix E now vendor ls fix =
     (case reSkuInField E (hc_field fix) of
        None \<Rightarrow> ls
      | Some sku \<Rightarrow>
          let ident = vendor @ ''::lineItems[].qty::sku::'' @ sku;
              (d1, confidence) =
                upsertCorrectionMemory (ls_db ls)
                  \<lparr>cm_id = ident, cm_vendor = vendor, cm_fieldPath = ''lineItems[].qty'',
                   cm_patternType = ''sku'', cm_patternValue = sku,
                   cm_recommendedValue = toStr (numToString E) (hc_to fix),
                   cm_confidence = 7 / 10, cm_supportCount = 0, cm_rejectCount = 0,
                   cm_lastUsedAt = Some (toISOString E now), cm_createdAt = toISOString E now,
                   cm_status = Some Active\<rparr>
          in ls\<lparr>ls_db := d1,
                 ls_memoryUpdates :=
                   ls_memoryUpdates ls @
                     [\<lparr>mu_type = ''correction_memory_upsert'', mu_id = ident,
                       mu_confidence = confidence, mu_note = None\<rparr>]\<rparr>)"

definition learnApproved ::
  "js_env \<Rightarrow> pipeline_context \<Rightarrow> int \<Rightarrow> vendor_memory_row list \<Rightarrow> decision_row
     \<Rightarrow> learn_state \<Rightarrow> learn_state" where
  "learnApproved E ctx now vendorMemsAll decisionRow ls =
     (let vendor = ctx_vendor ctx;
          corrections = (case dec_corrections decisionRow of None \<Rightarrow> [] | Some cs \<Rightarrow> cs);
          has = (\<lambda>P. \<exists>c \<in> set corrections. P c);
          ls1 =
            (if has (\<lambda>c. hc_field c = ''serviceDate'')
             then learnVendorMemory E now vendor vendorMemsAll ''serviceDate_from_label''
                    ''Leistungsdatum'' None ls
             else ls);
          ls2 =
            (if has (\<lambda>c. hc_field c = ''poNumber'')
             then learnVendorMemory E now vendor vendorMemsAll ''po_match_strategy''
                    ''sku_and_date_window'' None ls1
             else ls1);
          ls3 =
            (if has (\<lambda>c. hc_field c = ''taxTotal'' \<or> hc_field c = ''grossTotal'') \<and>
                isVatInclusiveText E (rawTextOf ctx)
             then learnVendorMemory E now vendor vendorMemsAll ''vat_inclusive_pricing''
                    ''mwst_inkl'' (Some ''Learned VAT-inclusive pricing behavior.'') ls2
             else ls2);
          ls4 =
            (if has (\<lambda>c. hc_field c = ''currency'')
             then learnVendorMemory E now vendor vendorMemsAll ''currency_from_rawText''
                    ''default'' (Some ''Learned currency-from-rawText behavior.'') ls3
             else ls3);
          qtyFixes = filter (\<lambda>c. includesStr (hc_field c) ''.qty'') corrections;
          ls5 = foldl (learnQtyFix E now vendor) ls4 qtyFixes;
          ls6 =
            (if has (\<lambda>c. hc_field c = ''discountTerms'')
             then learnVendorMemory E now vendor vendorMemsAll ''skonto_terms''
                    ''default'' (Some ''Learned skonto terms behavior.'') ls5
             else ls5)
      in if has (\<lambda>c. hc_field c = ''lineItems[].sku'' \<and>
                      toUpperCase (toStr (numToString E) (hc_to c)) = ''FREIGHT'')
         then learnVendorMemory E now vendor vendorMemsAll ''sku_mapping'' ''FREIGHT''
                (Some (''Learned freight description '' @ arrowStr @ '' SKU FREIGHT mapping.'')) ls6
         else ls6)"

definition decisionText :: "decision \<Rightarrow> string" where
  "decisionText dec = (case dec of Approved \<Rightarrow> ''APPROVED'' | Rejected \<Rightarrow> ''REJECTED'')"

definition learnResolution ::
  "js_env \<Rightarrow> int \<Rightarrow> string \<Rightarrow> string \<Rightarrow> decision \<Rightarrow> learn_state \<Rightarrow> string \<Rightarrow> learn_state" where
  "learnResolution E now vendor invoiceId dec ls key =
     (let (d1, outValue) =
            recordResolutionDecision (wallClock E) (ls_db ls) vendor key dec invoiceId;
          d2 =
            logAuditEvent d1
              (pipelineEvent E now
                 (if dec = Approved then ''RESOLUTION_APPROVED'' else ''RESOLUTION_REJECTED'')
                 vendor invoiceId
                 (MetaResolution key (rv_approved outValue) (rv_rejected outValue)
                    (rv_lastDecision outValue) (rv_lastInvoiceId outValue)))
      in learnAudit E now
           (''Resolution memory: '' @ key @ '' recorded '' @ decisionText dec @ '' (approved='' @
            intToString E (rv_approved outValue) @ '', rejected='' @
            intToString E (rv_rejected outValue) @ '').'')
           (ls\<lparr>ls_db := d2\<rparr>))"

text \<open>The first decision row whose verdict is approved or rejected.\<close>

definition findDecision :: "pipeline_context \<Rightarrow> (decision_row \<times> decision) option" where
  "findDecision ctx =
     (case find (\<lambda>x. dec_finalDecision x = ''approved'' \<or> dec_finalDecision x = ''rejected'')
             (case ctx_correctionsForInvoice ctx of None \<Rightarrow> [] | Some xs \<Rightarrow> xs) of
        None \<Rightarrow> None
      | Some row \<Rightarrow>
          Some (row, if dec_finalDecision row = ''approved'' then Approved else Rejected))"

text \<open>
  What a verdict teaches, once the entries used have been penalised. (The loop that
  follows for the vendor memories of a rejected verdict runs over a list that is always
  empty.)
\<close>

definition learnDecision ::
  "js_env \<Rightarrow> pipeline_context \<Rightarrow> int \<Rightarrow> vendor_memory_row list \<Rightarrow> string list
     \<Rightarrow> decision_row \<Rightarrow> decision \<Rightarrow> learn_state \<Rightarrow> learn_state" where
  "learnDecision E ctx now vendorMemsAll usedResolutionKeys decisionRow finalDecision ls1 =
     (let vendor = ctx_vendor ctx;
          invoiceId = ex_invoiceId (ctx_extracted ctx);
          ls2 =
            (if finalDecision = Approved
             then learnApproved E ctx now vendorMemsAll decisionRow ls1
             else ls1);
          ls3 =
            foldl (learnResolution E now vendor invoiceId finalDecision) ls2
              usedResolutionKeys;
          d4 = markLearned (wallClock E) (ls_db ls3) invoiceId;
          d5 =
            logAuditEvent d4
              (pipelineEvent E now
                 (if finalDecision = Approved then ''LEARN_APPROVED''
                  else ''LEARN_REJECTED'')
                 vendor invoiceId
                 (MetaLearn (filter (\<lambda>i. i \<noteq> []) (map mu_id (ls_memoryUpdates ls3)))))
      in learnAudit E now
           (if finalDecision = Approved
            then ''Learning applied from APPROVED corrections for invoiceId '' @
                 invoiceId @ ''.''
            else ''Recorded REJECTED decision for invoiceId '' @ invoiceId @
                 '' (no vendor/correction learning applied).'')
           (ls3\<lparr>ls_db := d5\<rparr>))"

text \<open>
  The Learn phase returns its state, or the exception thrown with the store left behind.
\<close>

definition learnPhase ::
  "js_env \<Rightarrow> pipeline_context \<Rightarrow> int \<Rightarrow> vendor_memory_row list \<Rightarrow> string list \<Rightarrow> string list
     \<Rightarrow> learn_state \<Rightarrow> error \<times> db + learn_state" where
  "learnPhase E ctx now vendorMemsAll usedResolutionKeys usedCorrectionMemoryIds ls =
     (let vendor = ctx_vendor ctx;
          invoiceId = ex_invoiceId (ctx_extracted ctx)
      in if hasLearned (ls_db ls) invoiceId then
           Inr (learnAudit E now
                  (''Skipped learning: invoiceId '' @ invoiceId @ '' already learned.'') ls)
         else
           (case findDecision ctx of
              None \<Rightarrow> Inr (learnAudit E now ''No human decision available for learning.'' ls)
            | Some (decisionRow, finalDecision) \<Rightarrow>
                (case (if finalDecision = Rejected
                       then forEach (rejectUsedMemory E now vendor invoiceId) ls
                              usedCorrectionMemoryIds
                       else Inr ls) of
                   Inl thrown \<Rightarrow> Inl thrown
                 | Inr ls1 \<Rightarrow>
                     Inr (learnDecision E ctx now vendorMemsAll usedResolutionKeys decisionRow
                            finalDecision ls1))))"

section \<open>The pipeline (engine/runPipeline)\<close>

text \<open>
  A run returns its output, or throws, and leaves a store. \<open>now\<close> is the logical
  instant of the run.
\<close>

definition duplicateBranch ::
  "js_env \<Rightarrow> db \<Rightarrow> pipeline_context \<Rightarrow> int \<Rightarrow> string \<Rightarrow> string \<Rightarrow> string
     \<Rightarrow> (error + agent_output) \<times> db" where
  "duplicateBranch E d ctx now dupOf reason fp =
     (let extracted = ctx_extracted ctx;
          d1 =
            recordDuplicate d
              \<lparr>dr_invoiceId = ex_invoiceId extracted, dr_vendor = ex_vendor extracted,
               dr_fingerprint = fp, dr_duplicateOfInvoiceId = Some dupOf, dr_reason = reason,
               dr_createdAt = toISOString E now\<rparr>;
          d2 =
            d1\<lparr>invoice_runs :=
                 map (\<lambda>r. if run_invoiceId r = ex_invoiceId extracted
                           then r\<lparr>run_isDuplicate := 1, run_duplicateOfInvoiceId := Some dupOf\<rparr>
                           else r)
                   (invoice_runs d1)\<rparr>;
          d3 =
            logAuditEvent d2
              (pipelineEvent E now ''DUPLICATE_DETECTED'' (ex_vendor extracted)
                 (ex_invoiceId extracted) (MetaDuplicate dupOf reason))
      in (Inr \<lparr>out_normalizedInvoice = normalizedOf extracted,
               out_proposedCorrections = [],
               out_requiresHumanReview = True,
               out_reasoning =
                 ''Duplicate detected: '' @ reason @ '' (duplicate of '' @ dupOf @ '').'',
               out_confidenceScore = 2 / 10,
               out_memoryUpdates = [],
               out_auditTrail =
                 [\<lparr>at_step = ''duplicateGuard'', at_timestamp = toISOString E now,
                   at_details = ''Duplicate of '' @ dupOf @ '': '' @ reason\<rparr>]\<rparr>,
          d3))"

text \<open>The Recall phase: the state the Apply phase starts from.\<close>

definition recallPhase :: "js_env \<Rightarrow> db \<Rightarrow> pipeline_context \<Rightarrow> int \<Rightarrow> apply_state" where
  "recallPhase E d ctx now =
     (let vendor = ctx_vendor ctx;
          vendorMemsAll = getVendorMemories d vendor;
          corrMems = getCorrectionMemories d vendor
      in pushAudit E now ''recall''
           (''Recalled '' @ intToString E (int (length corrMems)) @
            '' correction memories for '' @ vendor @ ''.'')
           (pushAudit E now ''recall''
              (''Recalled '' @ intToString E (int (length vendorMemsAll)) @
               '' vendor memories for '' @ vendor @ ''.'')
              \<lparr>st_db = d, st_auditTrail = [], st_proposedCorrections = [],
               st_reasoningParts = [], st_confidenceScore = 25 / 100,
               st_usedResolutionKeys = [], st_usedCorrectionMemoryIds = []\<rparr>))"

definition mainBranch ::
  "js_env \<Rightarrow> db \<Rightarrow> pipeline_context \<Rightarrow> int \<Rightarrow> (error + agent_output) \<times> db" where
  "mainBranch E d ctx now =
     (let extracted = ctx_extracted ctx;
          vendorMemsAll = getVendorMemories d (ctx_vendor ctx);
          st = applyPhase E ctx now vendorMemsAll (recallPhase E d ctx now);
          proposed = st_proposedCorrections st;
          normalized = normalizedOf extracted;
          low = anyLowConfidence proposed;
          criticalMissing = hasCriticalMissingFields E normalized proposed;
          requiresHumanReview = (low \<or> criticalMissing);
          st' = pushAudit E now ''decide'' (decideText proposed low criticalMissing) st;
          confidenceScore = decideScore E proposed (st_confidenceScore st')
      in case learnPhase E ctx now vendorMemsAll (st_usedResolutionKeys st')
                (st_usedCorrectionMemoryIds st')
                \<lparr>ls_db = st_db st', ls_auditTrail = st_auditTrail st', ls_memoryUpdates = []\<rparr> of
           Inl (e, d') \<Rightarrow> (Inl e, d')
         | Inr ls \<Rightarrow>
             (Inr \<lparr>out_normalizedInvoice = normalized,
                   out_proposedCorrections = proposed,
                   out_requiresHumanReview = requiresHumanReview,
                   out_reasoning = join '' '' (st_reasoningParts st'),
                   out_confidenceScore = confidenceScore,
                   out_memoryUpdates = ls_memoryUpdates ls,
                   out_auditTrail = ls_auditTrail ls\<rparr>,
              ls_db ls))"

definition runPipeline ::
  "js_env \<Rightarrow> db \<Rightarrow> pipeline_context \<Rightarrow> int \<Rightarrow> (error + agent_output) \<times> db" where
  "runPipeline E d ctx now =
     (case detectDuplicate (numToString E) d (ctx_extracted ctx) of
        IsDuplicate dupOf reason fp \<Rightarrow> duplicateBranch E d ctx now dupOf reason fp
      | NotDuplicate \<Rightarrow> mainBranch E d ctx now)"

section \<open>The administrative interface (admin/commands)\<close>

text \<open>Both commands stamp their audit event with the wall clock.\<close>

definition adminEvent :: "string \<Rightarrow> string \<Rightarrow> string \<Rightarrow> string \<Rightarrow> audit_event" where
  "adminEvent wall eventType ident action =
     \<lparr>ae_ts = wall, ae_eventType = eventType, ae_vendor = None, ae_invoiceId = None,
      ae_entityType = Some ''vendor_memory'', ae_entityId = Some ident,
      ae_meta = MetaAdmin action\<rparr>"

definition disableVendorMemory :: "string \<Rightarrow> db \<Rightarrow> string \<Rightarrow> db" where
  "disableVendorMemory wall d ident =
     logAuditEvent
       (d\<lparr>vendor_memory :=
            map (\<lambda>r. if vm_id r = ident
                      then r\<lparr>vm_status := Disabled, vm_disabledAt := Some wall\<rparr> else r)
              (vendor_memory d)\<rparr>)
       (adminEvent wall ''ADMIN_ACTION'' ident ''disable'')"

definition resetVendorMemoryConfidence :: "string \<Rightarrow> db \<Rightarrow> string \<Rightarrow> real \<Rightarrow> db" where
  "resetVendorMemoryConfidence wall d ident to =
     logAuditEvent
       (d\<lparr>vendor_memory :=
            map (\<lambda>r. if vm_id r = ident
                      then r\<lparr>vm_confidence := to, vm_rejectCount := 0\<rparr> else r)
              (vendor_memory d)\<rparr>)
       (adminEvent wall ''MEMORY_CONFIDENCE_RESET'' ident ''reset-confidence'')"

section \<open>Relations between stores\<close>

text \<open>
  A correction-memory row after the Apply phase: as before, or stamped as used
  (\<^verbatim>\<open>markUsed\<close> writes the wall clock into \<^verbatim>\<open>lastUsedAt\<close>).
\<close>

definition cm_touched :: "string \<Rightarrow> correction_memory_row \<Rightarrow> correction_memory_row \<Rightarrow> bool" where
  "cm_touched wall r r' = (r' = r \<or> r' = r\<lparr>cm_lastUsedAt := Some wall\<rparr>)"

text \<open>
  Two stores that differ at most in the \<^verbatim>\<open>lastUsedAt\<close> stamps of correction-memory rows.
\<close>

definition apply_frame :: "string \<Rightarrow> db \<Rightarrow> db \<Rightarrow> bool" where
  "apply_frame wall d d' =
     (d' = d\<lparr>correction_memory := correction_memory d'\<rparr> \<and>
      list_all2 (cm_touched wall) (correction_memory d) (correction_memory d'))"

text \<open>
  A step of the Apply phase is quiet when, unless it leaves a proposed correction behind,
  it started without one and left the confidence score alone.
\<close>

definition quiet :: "apply_state \<Rightarrow> apply_state \<Rightarrow> bool" where
  "quiet st st' =
     (st_proposedCorrections st' = [] \<longrightarrow>
      st_proposedCorrections st = [] \<and> st_confidenceScore st' = st_confidenceScore st)"

text \<open>
  Every vendor-memory row of the second store is a row of the first or has status active,
  and the rows of the first store are still there, in place, each with its \<^verbatim>\<open>disabledAt\<close>.
\<close>

definition vm_key :: "vendor_memory_row \<Rightarrow> string \<times> string option" where
  "vm_key r = (vm_id r, vm_disabledAt r)"

definition vm_kept_or_active :: "db \<Rightarrow> db \<Rightarrow> bool" where
  "vm_kept_or_active d d' =
     ((\<forall>r' \<in> set (vendor_memory d'). r' \<in> set (vendor_memory d) \<or> vm_status r' = Active) \<and>
      prefix (map vm_key (vendor_memory d)) (map vm_key (vendor_memory d')))"

section \<open>Example states\<close>

text \<open>A clock that reads every timestamp as the epoch, and one that reads none.\<close>

definition getTime_epoch :: "string \<Rightarrow> int option" where
  "getTime_epoch s = Some 0"

text \<open>
  A correction-memory row of a table without status column: confidence 0.9, never
  rejected, last used at the instant of the query.
\<close>

definition cm_example :: correction_memory_row where
  "cm_example =
     \<lparr>cm_id = ''Supplier GmbH::lineItems[].qty::sku::SKU-1'', cm_vendor = ''Supplier GmbH'',
      cm_fieldPath = ''lineItems[].qty'', cm_patternType = ''sku'', cm_patternValue = ''SKU-1'',
      cm_recommendedValue = ''42'', cm_confidence = 9 / 10, cm_supportCount = 1,
      cm_rejectCount = 0, cm_lastUsedAt = Some ''1970-01-01T00:00:00.000Z'',
      cm_createdAt = ''1970-01-01T00:00:00.000Z'', cm_status = None\<rparr>"

text \<open>The same row in a table with status column.\<close>

definition cm_example_active :: correction_memory_row where
  "cm_example_active = cm_example\<lparr>cm_status := Some Active, cm_rejectCount := 1\<rparr>"

definition vm_example :: vendor_memory_row where
  "vm_example =
     \<lparr>vm_id = ''Supplier GmbH::serviceDate_from_label::Leistungsdatum'',
      vm_vendor = ''Supplier GmbH'', vm_kind = ''serviceDate_from_label'',
      vm_pattern = ''Leistungsdatum'', vm_confidence = 7 / 10, vm_supportCount = 1,
      vm_rejectCount = 0, vm_lastUsedAt = Some ''1970-01-01T00:00:00.000Z'',
      vm_status = Active, vm_disabledAt = None\<rparr>"

definition db_empty :: db where
  "db_empty =
     \<lparr>invoice_runs = [], vendor_memory = [], correction_memory = [], resolution_memory = [],
      duplicate_records = [], learning_events = [], audit_events = [],
      cm_hasStatusColumn = True, rm_hasDisabledAt = True, rm_hasRejectCount = True\<rparr>"

text \<open>
  Invoice A is an original, invoice B (another invoice number) is recorded as a duplicate
  of A, and invoice C arrives with B's invoice number and the word "duplicate" in its text.
\<close>

definition fields_empty :: invoice_fields where
  "fields_empty =
     \<lparr>f_invoiceNumber = JUndefined, f_invoiceDate = None, f_serviceDate = JUndefined,
      f_currency = JUndefined, f_netTotal = JUndefined, f_grossTotal = JUndefined,
      f_taxTotal = JUndefined, f_taxRate = JUndefined, f_poNumber = JUndefined,
      f_discountTerms = JUndefined, f_lineItems = None\<rparr>"

definition run_A :: invoice_run where
  "run_A =
     \<lparr>run_invoiceId = ''INV-A'', run_vendor = ''Supplier GmbH'', run_dataset = ''full'',
      run_createdAt = ''2024-01-01T00:00:00.000Z'', run_invoiceNumber = Some ''RE-1001'',
      run_fingerprint = None, run_isDuplicate = 0, run_duplicateOfInvoiceId = None\<rparr>"

definition run_B :: invoice_run where
  "run_B =
     \<lparr>run_invoiceId = ''INV-B'', run_vendor = ''Supplier GmbH'', run_dataset = ''full'',
      run_createdAt = ''2024-01-02T00:00:00.000Z'', run_invoiceNumber = Some ''re-1001'',
      run_fingerprint = None, run_isDuplicate = 1, run_duplicateOfInvoiceId = Some ''INV-A''\<rparr>"

definition record_B :: duplicate_record where
  "record_B =
     \<lparr>dr_invoiceId = ''INV-B'', dr_vendor = ''Supplier GmbH'', dr_fingerprint = ''fp'',
      dr_duplicateOfInvoiceId = Some ''INV-A'',
      dr_reason = ''Fingerprint match for vendor (fallback match).'',
      dr_createdAt = ''2024-01-02T00:00:00.000Z''\<rparr>"

definition db_chain :: db where
  "db_chain = db_empty\<lparr>invoice_runs := [run_A, run_B], duplicate_records := [record_B]\<rparr>"

definition invoice_C :: extracted where
  "invoice_C =
     \<lparr>ex_invoiceId = ''INV-C'', ex_vendor = ''Supplier GmbH'',
      ex_rawText = Some ''Duplicate submission of RE-1001'',
      ex_invoiceNumber = JUndefined, ex_currency = JUndefined, ex_grossTotal = JUndefined,
      ex_netTotal = JUndefined,
      ex_fields = Some (fields_empty\<lparr>f_invoiceNumber := JString ''re-1001''\<rparr>),
      ex_normalizedInvoice = None\<rparr>"


text \<open>
  Built-ins for the examples: every timestamp reads as the epoch, no regular expression
  matches, no string is a number. Rounding to two decimals is exact and half up; the
  examples feed it 119, 19 and 0.55, which the engine's \<^verbatim>\<open>round2\<close> returns unchanged too.
\<close>

definition roundCents :: "real \<Rightarrow> real" where
  "roundCents n = mathRound (n * 100) / 100"

definition env0 :: js_env where
  "env0 =
     \<lparr>numToString = (\<lambda>n. ''#''), stringToNumber = (\<lambda>s. NaN), getTime = getTime_epoch,
      toISOString = (\<lambda>t. ''1970-01-01T00:00:00.000Z''),
      wallClock = ''1970-01-01T00:00:01.000Z'', jsonParse = (\<lambda>s. None),
      round2 = roundCents,
      reLeistungsdatum = (\<lambda>s. None), reCurrencyLabel = (\<lambda>s. None),
      reTotalCurrency = (\<lambda>s. None), reTrailingCode = (\<lambda>s. None), reTotal = (\<lambda>s. None),
      reVatInclusive = (\<lambda>s. False), reSkonto = (\<lambda>s. None), reDotDate = (\<lambda>s. None),
      reDashDate = (\<lambda>s. None), reIsoDate = (\<lambda>s. False), reFreightVendor = (\<lambda>s. False),
      reFreightDescription = (\<lambda>s. False), reSkuInField = (\<lambda>s. None)\<rparr>"

text \<open>A complete invoice of Supplier GmbH with consistent totals and no line items.\<close>

definition fields_complete :: invoice_fields where
  "fields_complete =
     \<lparr>f_invoiceNumber = JString ''RE-3003'', f_invoiceDate = Some ''2024-03-01'',
      f_serviceDate = JString ''2024-02-28'', f_currency = JString ''EUR'',
      f_netTotal = JNumber (Fin 100), f_grossTotal = JNumber (Fin 119),
      f_taxTotal = JNumber (Fin 19), f_taxRate = JNumber (Fin (19 / 100)),
      f_poNumber = JString ''PO-77'', f_discountTerms = JNull, f_lineItems = None\<rparr>"

definition invoice_complete :: extracted where
  "invoice_complete =
     \<lparr>ex_invoiceId = ''INV-D'', ex_vendor = ''Supplier GmbH'',
      ex_rawText = Some ''Prices incl. VAT'',
      ex_invoiceNumber = JUndefined, ex_currency = JUndefined, ex_grossTotal = JUndefined,
      ex_netTotal = JUndefined, ex_fields = Some fields_complete,
      ex_normalizedInvoice = None\<rparr>"

definition ctx_of :: "extracted \<Rightarrow> pipeline_context" where
  "ctx_of ex =
     \<lparr>ctx_vendor = ex_vendor ex, ctx_extracted = ex, ctx_reference = None,
      ctx_correctionsForInvoice = None\<rparr>"

text \<open>
  The built-ins on the texts of the examples: "Prices incl. VAT" announces VAT-inclusive
  prices, and "Leistungsdatum: 05.03.2024" carries a service date.
\<close>

definition env_vat :: js_env where
  "env_vat = env0\<lparr>reVatInclusive := (\<lambda>s. s = ''Prices incl. VAT'')\<rparr>"

definition env_label :: js_env where
  "env_label =
     env0\<lparr>reLeistungsdatum :=
            (\<lambda>s. if s = ''Leistungsdatum: 05.03.2024'' then Some (''05'', ''03'', ''2024'')
                 else None)\<rparr>"

text \<open>The complete invoice without service date, its text carrying the label.\<close>

definition invoice_label :: extracted where
  "invoice_label =
     invoice_complete
       \<lparr>ex_invoiceId := ''INV-E'', ex_rawText := Some ''Leistungsdatum: 05.03.2024'',
        ex_fields := Some (fields_complete\<lparr>f_serviceDate := JNull\<rparr>)\<rparr>"

text \<open>
  A store whose one vendor-memory entry, for the service-date label, is active; the store
  the administrative disable command makes of it; and an approved decision that covers a
  service-date correction of the invoice with the label.
\<close>

definition db_active :: db where
  "db_active = db_empty\<lparr>vendor_memory := [vm_example]\<rparr>"

definition db_disabled :: db where
  "db_disabled = disableVendorMemory ''2024-03-06T00:00:00.000Z'' db_active (vm_id vm_example)"

definition row_approved :: decision_row where
  "row_approved =
     \<lparr>dec_finalDecision = ''approved'',
      dec_corrections =
        Some [\<lparr>hc_field = ''serviceDate'', hc_to = JString ''2024-03-05''\<rparr>]\<rparr>"

definition ctx_approved :: pipeline_context where
  "ctx_approved = (ctx_of invoice_label)\<lparr>ctx_correctionsForInvoice := Some [row_approved]\<rparr>"

text \<open>
  An invoice already learned, with one line item whose quantity differs from the delivery
  note, and a usable correction-memory entry for that sku.
\<close>

definition cm_qty :: correction_memory_row where
  "cm_qty = cm_example\<lparr>cm_status := Some Active\<rparr>"

definition db_learned :: db where
  "db_learned =
     db_empty
       \<lparr>correction_memory := [cm_qty],
        learning_events :=
          [\<lparr>le_invoiceId = ''INV-F'', le_learnedAt = ''1970-01-01T00:00:00.000Z''\<rparr>]\<rparr>"

definition invoice_qty :: extracted where
  "invoice_qty =
     invoice_complete
       \<lparr>ex_invoiceId := ''INV-F'', ex_rawText := Some ''Lieferung'',
        ex_fields :=
          Some (fields_complete
                  \<lparr>f_lineItems :=
                     Some [\<lparr>li_sku = Some ''SKU-1'', li_qty = JNumber (Fin 10),
                            li_description = Some ''Widget''\<rparr>]\<rparr>)\<rparr>"

definition ctx_qty :: pipeline_context where
  "ctx_qty =
     (ctx_of invoice_qty)
       \<lparr>ctx_reference :=
          Some \<lparr>ref_purchaseOrders = None,
                ref_deliveryNotes =
                  Some [\<lparr>dn_vendor = ''Supplier GmbH'', dn_poNumber = JString ''PO-77'',
                         dn_lineItems =
                           Some [\<lparr>dl_sku = Some ''SKU-1'',
                                  dl_qtyDelivered = JNumber (Fin 8)\<rparr>]\<rparr>]\<rparr>\<rparr>"

section \<open>Properties of the confidence decay\<close>

lemma clamp01_range: "0 \<le> clamp01 x \<and> clamp01 x \<le> 1"
  by (simp add: clamp01_def)

lemma clamp01_id: "0 \<le> x \<Longrightarrow> x \<le> 1 \<Longrightarrow> clamp01 x = x"
  by (simp add: clamp01_def)

lemma clamp01_mono: "x \<le> y \<Longrightarrow> clamp01 x \<le> clamp01 y"
  by (simp add: clamp01_def max_def min_def)

lemma decayedConfidence_range:
  "0 \<le> decayedConfidence base days hl \<and> decayedConfidence base days hl \<le> 1"
  by (cases base; cases days) (simp_all add: decayedConfidence_def Let_def clamp01_range)

lemma decayedConfidence_nonpos:
  "0 \<le> c \<Longrightarrow> c \<le> 1 \<Longrightarrow> d \<le> 0 \<Longrightarrow> decayedConfidence (Fin c) (Fin d) hl = c"
  by (simp add: decayedConfidence_def clamp01_id)

lemma decayedConfidence_pos:
  "0 \<le> c \<Longrightarrow> c \<le> 1 \<Longrightarrow> 0 < d \<Longrightarrow>
   decayedConfidence (Fin c) (Fin d) hl = c * exp (- (ln 2 / max (1 / 10 ^ 6) hl) * d)"
proof -
  assume c: "0 \<le> c" "c \<le> 1" and d: "0 < d"
  let ?l = "ln 2 / max (1 / 10 ^ 6) hl"
  have l: "0 < ?l" by (simp add: max_def)
  have "exp (- ?l * d) \<le> 1" using l d by (simp add: mult_nonneg_nonneg less_imp_le)
  moreover have "0 < exp (- ?l * d)" by simp
  ultimately have "0 \<le> c * exp (- ?l * d)" "c * exp (- ?l * d) \<le> 1"
    using c by (simp_all add: mult_le_one)
  then show ?thesis using c d by (simp add: decayedConfidence_def Let_def clamp01_id)
qed

lemma decayedConfidence_le_base:
  "0 \<le> c \<Longrightarrow> c \<le> 1 \<Longrightarrow> decayedConfidence (Fin c) (Fin d) hl \<le> c"
proof (cases "d \<le> 0")
  case True
  assume "0 \<le> c" "c \<le> 1"
  then show ?thesis using True by (simp add: decayedConfidence_nonpos)
next
  case False
  assume c: "0 \<le> c" "c \<le> 1"
  let ?l = "ln 2 / max (1 / 10 ^ 6) hl"
  have l: "0 < ?l" by (simp add: max_def)
  have "exp (- ?l * d) \<le> 1" using l False by (simp add: mult_nonneg_nonneg less_imp_le)
  then have "c * exp (- ?l * d) \<le> c" using c by (simp add: mult_left_le)
  then show ?thesis using c False by (simp add: decayedConfidence_pos)
qed

lemma decayedConfidence_mono:
  assumes c: "0 \<le> c" "c \<le> 1" and d: "0 \<le> d1" "d1 \<le> d2"
  shows "decayedConfidence (Fin c) (Fin d2) hl \<le> decayedConfidence (Fin c) (Fin d1) hl"
proof (cases "d1 = 0")
  case True
  then show ?thesis using c by (simp add: decayedConfidence_nonpos decayedConfidence_le_base)
next
  case False
  then have p: "0 < d1" "0 < d2" using d by simp_all
  define l where "l = ln 2 / max (1 / 10 ^ 6) hl"
  have l: "0 \<le> l" by (simp add: l_def max_def)
  have "l * d1 \<le> l * d2" using d(2) l by (rule mult_left_mono)
  then have "exp (- l * d2) \<le> exp (- l * d1)" by simp
  then have "c * exp (- l * d2) \<le> c * exp (- l * d1)" using c(1) by (rule mult_left_mono)
  then show ?thesis using c p by (simp add: decayedConfidence_pos l_def)
qed

lemma daysSince_range:
  "daysSince gt isoStr now = PosInf \<or> (\<exists>d\<ge>0. daysSince gt isoStr now = Fin d)"
proof (cases isoStr)
  case None
  then show ?thesis by (simp add: daysSince_def)
next
  case (Some s)
  show ?thesis
  proof (cases "s = [] \<or> gt s = None")
    case True
    then show ?thesis using Some by (auto simp: daysSince_def)
  next
    case False
    then obtain t where t: "gt s = Some t" and s: "s \<noteq> []" by auto
    show ?thesis
    proof (cases "now - t \<le> 0")
      case True
      then have "daysSince gt isoStr now = Fin 0"
        using Some t s by (simp add: daysSince_def)
      then show ?thesis by auto
    next
      case False
      then have "daysSince gt isoStr now = Fin (real_of_int (now - t) / (1000 * 60 * 60 * 24))"
        using Some t s by (simp add: daysSince_def)
      moreover have "0 \<le> real_of_int (now - t) / (1000 * 60 * 60 * 24)" using False by simp
      ultimately show ?thesis by blast
    qed
  qed
qed

text \<open>
  Claim C2. For a confidence \<open>c\<close> in [0,1], \<^verbatim>\<open>decayedConfidence\<close> is non-increasing
  in the elapsed days \<open>d \<ge> 0\<close>, returns \<open>c\<close> unchanged at \<open>d = 0\<close> and at every
  \<open>d \<le> 0\<close>, and returns 0 at positive infinity, which is what \<^verbatim>\<open>daysSince\<close>
  yields for a null or unparsable timestamp (\<^verbatim>\<open>daysSince\<close> only ever yields positive
  infinity or a finite non-negative number); the result always lies in [0,1]. This holds
  for every half-life, in particular the default 30.
\<close>

theorem decayedConfidence_properties:
  "0 \<le> c \<and> c \<le> 1 \<Longrightarrow>
     (\<forall>d1 d2. 0 \<le> d1 \<and> d1 \<le> d2 \<longrightarrow>
         decayedConfidence (Fin c) (Fin d2) hl \<le> decayedConfidence (Fin c) (Fin d1) hl) \<and>
     (\<forall>d. d \<le> 0 \<longrightarrow> decayedConfidence (Fin c) (Fin d) hl = c) \<and>
     decayedConfidence (Fin c) PosInf hl = 0 \<and>
     (\<forall>now. daysSince gt None now = PosInf) \<and>
     (\<forall>s now. gt s = None \<longrightarrow> daysSince gt (Some s) now = PosInf) \<and>
     (\<forall>isoStr now. daysSince gt isoStr now = PosInf \<or>
         (\<exists>d\<ge>0. daysSince gt isoStr now = Fin d)) \<and>
     (\<forall>base days. 0 \<le> decayedConfidence base days hl \<and> decayedConfidence base days hl \<le> 1)"
proof -
  assume c: "0 \<le> c \<and> c \<le> 1"
  have 1: "\<forall>d1 d2. 0 \<le> d1 \<and> d1 \<le> d2 \<longrightarrow>
         decayedConfidence (Fin c) (Fin d2) hl \<le> decayedConfidence (Fin c) (Fin d1) hl"
    using c decayedConfidence_mono by blast
  have 2: "\<forall>d. d \<le> 0 \<longrightarrow> decayedConfidence (Fin c) (Fin d) hl = c"
    using c decayedConfidence_nonpos by blast
  have 3: "decayedConfidence (Fin c) PosInf hl = 0"
    by (simp add: decayedConfidence_def)
  have 4: "\<forall>now. daysSince gt None now = PosInf"
    by (simp add: daysSince_def)
  have 5: "\<forall>s now. gt s = None \<longrightarrow> daysSince gt (Some s) now = PosInf"
    by (simp add: daysSince_def)
  have 6: "\<forall>isoStr now. daysSince gt isoStr now = PosInf \<or>
         (\<exists>d\<ge>0. daysSince gt isoStr now = Fin d)"
    using daysSince_range by blast
  have 7: "\<forall>base days. 0 \<le> decayedConfidence base days hl \<and> decayedConfidence base days hl \<le> 1"
    using decayedConfidence_range by blast
  from 1 2 3 4 5 6 7 show ?thesis by blast
qed

theorem decayedConfidence_properties_witness:
  "(0::real) \<le> 1 / 2 \<and> (1 / 2 :: real) \<le> 1 \<and>
   decayedConfidence (Fin (1 / 2)) (Fin 30) 30 \<le> decayedConfidence (Fin (1 / 2)) (Fin 0) 30 \<and>
   decayedConfidence (Fin (1 / 2)) (Fin 0) 30 = 1 / 2 \<and>
   decayedConfidence (Fin (1 / 2)) PosInf 30 = 0 \<and>
   daysSince (\<lambda>s. None) (Some ''not a date'') 0 = PosInf"
proof -
  have h: "(0::real) \<le> 1 / 2 \<and> (1 / 2 :: real) \<le> 1" by simp
  note t = decayedConfidence_properties [OF h, of 30 "\<lambda>s. None"]
  have a: "decayedConfidence (Fin (1 / 2)) (Fin 30) 30 \<le> decayedConfidence (Fin (1 / 2)) (Fin 0) 30"
    using t by simp
  have b: "decayedConfidence (Fin (1 / 2)) (Fin 0) 30 = 1 / 2" using t by simp
  have c: "decayedConfidence (Fin (1 / 2)) PosInf 30 = 0" using t by simp
  have d: "daysSince (\<lambda>s. None) (Some ''not a date'') 0 = PosInf" using t by simp
  from h a b c d show ?thesis by blast
qed

section \<open>Properties of the usability gates\<close>

lemma decayedConfidence_le_clamp: "decayedConfidence (Fin c) days hl \<le> clamp01 c"
proof (cases days)
  case (Fin d)
  show ?thesis
  proof (cases "d \<le> 0")
    case True
    then show ?thesis using Fin by (simp add: decayedConfidence_def)
  next
    case False
    define l where "l = ln 2 / max (1 / 10 ^ 6) hl"
    have l: "0 \<le> l" by (simp add: l_def max_def)
    have "0 \<le> l * d" using l False by simp
    then have f: "exp (- l * d) \<le> 1" by simp
    have b: "0 \<le> clamp01 c" "clamp01 c \<le> 1" using clamp01_range by simp_all
    have "clamp01 c * exp (- l * d) \<le> clamp01 c" using f b(1) by (rule mult_left_le)
    then have "clamp01 (clamp01 c * exp (- l * d)) \<le> clamp01 (clamp01 c)" by (rule clamp01_mono)
    also have "\<dots> = clamp01 c" using b by (rule clamp01_id)
    finally show ?thesis using Fin False by (simp add: decayedConfidence_def Let_def l_def)
  qed
qed (simp_all add: decayedConfidence_def clamp01_range)

lemma trusted_decay_needs_trusted_base:
  assumes "65 / 100 \<le> decayedConfidence30 (Fin c) days"
  shows "65 / 100 \<le> c"
proof -
  have "65 / 100 \<le> clamp01 c"
    using assms decayedConfidence_le_clamp [of c days 30] by (simp add: decayedConfidence30_def)
  then show ?thesis by (simp add: clamp01_def max_def min_def split: if_splits)
qed

lemma canApplyVendorMem_iff:
  "canApplyVendorMem gt (Some m) now \<longleftrightarrow>
     vm_status m = Active \<and> vm_rejectCount m < 2 \<and>
     65 / 100 \<le> decayedConfidence30 (Fin (vm_confidence m)) (daysSince gt (vm_lastUsedAt m) now)"
  by (auto simp: canApplyVendorMem_def Let_def)

lemma usable_correction_memory:
  assumes "\<not> isSuspectCorrectionMemory gt (Some cm) res now"
  shows "(cm_status cm = None \<or> cm_status cm = Some Active) \<and> cm_rejectCount cm < 2 \<and>
     65 / 100 \<le> decayedConfidence30 (Fin (cm_confidence cm)) (daysSince gt (cm_lastTouched cm) now)"
  using assms
  by (auto simp: isSuspectCorrectionMemory_def Let_def split: option.splits if_splits)

text \<open>
  Claim C1 (amended). The usability gate is a conjunction: a vendor-memory entry is usable
  exactly when its status is active, its rejectCount is below 2 and its decayed confidence
  (from its lastUsedAt and now) is at least 0.65; a correction-memory entry is usable only
  if its status is active or absent (a table without status column), its rejectCount is
  below 2 and its decayed confidence is at least 0.65. In both stores an entry whose
  stored confidence is below 0.65 is rejected, and an entry with rejectCount 2 is unusable
  whatever its confidence and last use.
\<close>

theorem memory_gate_conditions:
  "(canApplyVendorMem gt (Some m) now \<longleftrightarrow>
      vm_status m = Active \<and> vm_rejectCount m < 2 \<and>
      65 / 100 \<le> decayedConfidence30 (Fin (vm_confidence m))
                    (daysSince gt (vm_lastUsedAt m) now)) \<and>
   (canApplyVendorMem gt (Some m) now \<longrightarrow> 65 / 100 \<le> vm_confidence m) \<and>
   (vm_rejectCount m = 2 \<longrightarrow> \<not> canApplyVendorMem gt (Some m) now) \<and>
   (\<not> isSuspectCorrectionMemory gt (Some cm) res now \<longrightarrow>
      (cm_status cm = None \<or> cm_status cm = Some Active) \<and> cm_rejectCount cm < 2 \<and>
      65 / 100 \<le> decayedConfidence30 (Fin (cm_confidence cm))
                    (daysSince gt (cm_lastTouched cm) now) \<and>
      65 / 100 \<le> cm_confidence cm) \<and>
   (cm_rejectCount cm = 2 \<longrightarrow> isSuspectCorrectionMemory gt (Some cm) res now) \<and>
   \<not> canApplyVendorMem gt None now \<and>
   isSuspectCorrectionMemory gt None res now"
proof -
  have 1: "canApplyVendorMem gt (Some m) now \<longleftrightarrow>
      vm_status m = Active \<and> vm_rejectCount m < 2 \<and>
      65 / 100 \<le> decayedConfidence30 (Fin (vm_confidence m))
                    (daysSince gt (vm_lastUsedAt m) now)"
    by (rule canApplyVendorMem_iff)
  have 2: "canApplyVendorMem gt (Some m) now \<longrightarrow> 65 / 100 \<le> vm_confidence m"
    using 1 trusted_decay_needs_trusted_base by blast
  have 3: "vm_rejectCount m = 2 \<longrightarrow> \<not> canApplyVendorMem gt (Some m) now"
    using 1 by simp
  have 4: "\<not> isSuspectCorrectionMemory gt (Some cm) res now \<longrightarrow>
      (cm_status cm = None \<or> cm_status cm = Some Active) \<and> cm_rejectCount cm < 2 \<and>
      65 / 100 \<le> decayedConfidence30 (Fin (cm_confidence cm))
                    (daysSince gt (cm_lastTouched cm) now) \<and>
      65 / 100 \<le> cm_confidence cm"
    using usable_correction_memory trusted_decay_needs_trusted_base by blast
  have 5: "cm_rejectCount cm = 2 \<longrightarrow> isSuspectCorrectionMemory gt (Some cm) res now"
    using 4 by auto
  have 6: "\<not> canApplyVendorMem gt None now"
    by (simp add: canApplyVendorMem_def)
  have 7: "isSuspectCorrectionMemory gt None res now"
    by (simp add: isSuspectCorrectionMemory_def)
  from 1 2 3 4 5 6 7 show ?thesis by blast
qed

lemma daysSince_epoch: "daysSince getTime_epoch (Some ''1970-01-01T00:00:00.000Z'') 0 = Fin 0"
  by (simp add: daysSince_def getTime_epoch_def)

lemma decay_zero_days: "decayedConfidence30 (Fin c) (Fin 0) = clamp01 c"
  by (simp add: decayedConfidence30_def decayedConfidence_def)

text \<open>
  Claim C1 as stated fails: a correction-memory row that carries no status (the table has
  no status column) passes the gate, although its status is not active.
\<close>

theorem statusless_correction_memory_usable:
  "\<not> isSuspectCorrectionMemory getTime_epoch (Some cm_example) None 0 \<and>
   cm_status cm_example \<noteq> Some Active"
  by (simp add: isSuspectCorrectionMemory_def cm_example_def cm_lastTouched_def
      daysSince_epoch decay_zero_days clamp01_def)

theorem memory_gate_conditions_witness:
  "canApplyVendorMem getTime_epoch (Some vm_example) 0 \<and>
   vm_status vm_example = Active \<and> vm_rejectCount vm_example < 2 \<and>
   65 / 100 \<le> vm_confidence vm_example \<and>
   \<not> isSuspectCorrectionMemory getTime_epoch (Some cm_example_active) None 0 \<and>
   cm_status cm_example_active = Some Active \<and> cm_rejectCount cm_example_active < 2 \<and>
   65 / 100 \<le> cm_confidence cm_example_active \<and>
   vm_rejectCount (vm_example\<lparr>vm_rejectCount := 2\<rparr>) = 2 \<and>
   \<not> canApplyVendorMem getTime_epoch (Some (vm_example\<lparr>vm_rejectCount := 2\<rparr>)) 0 \<and>
   cm_rejectCount (cm_example\<lparr>cm_rejectCount := 2\<rparr>) = 2 \<and>
   isSuspectCorrectionMemory getTime_epoch (Some (cm_example\<lparr>cm_rejectCount := 2\<rparr>)) None 0"
proof -
  have v: "canApplyVendorMem getTime_epoch (Some vm_example) 0"
    by (simp add: canApplyVendorMem_def vm_example_def daysSince_epoch decay_zero_days clamp01_def)
  have c: "\<not> isSuspectCorrectionMemory getTime_epoch (Some cm_example_active) None 0"
    by (simp add: isSuspectCorrectionMemory_def cm_example_active_def cm_example_def
        cm_lastTouched_def daysSince_epoch decay_zero_days clamp01_def)
  have v2: "vm_rejectCount (vm_example\<lparr>vm_rejectCount := 2\<rparr>) = 2" by simp
  have c2: "cm_rejectCount (cm_example\<lparr>cm_rejectCount := 2\<rparr>) = 2" by simp
  note t1 = memory_gate_conditions [of getTime_epoch vm_example 0 cm_example_active None]
  note t2 = memory_gate_conditions
    [of getTime_epoch "vm_example\<lparr>vm_rejectCount := 2\<rparr>" 0 "cm_example\<lparr>cm_rejectCount := 2\<rparr>" None]
  have s1: "cm_status cm_example_active = Some Active"
    by (simp add: cm_example_active_def)
  from v c v2 c2 s1 t1 t2 show ?thesis by blast
qed

section \<open>Properties of the correction-memory rejection\<close>

text \<open>
  Claim C8 (amended). Recording a rejection against a correction-memory entry leaves its
  confidence unchanged, increments its rejectCount by one, stamps lastUsedAt and, when the
  table has a status column and the resulting rejectCount reaches 2, sets the status to
  disabled; every other row is untouched.
\<close>

theorem markRejected_effect:
  "list_all2
     (\<lambda>r r'. cm_confidence r' = cm_confidence r \<and>
        (cm_id r \<noteq> ident \<longrightarrow> r' = r) \<and>
        (cm_id r = ident \<longrightarrow>
           cm_id r' = ident \<and>
           cm_rejectCount r' = cm_rejectCount r + 1 \<and>
           cm_lastUsedAt r' = Some wall \<and>
           cm_status r' =
             (if cm_hasStatusColumn d \<and> cm_rejectCount r + 1 \<ge> 2 then Some Disabled
              else cm_status r)))
     (correction_memory d) (correction_memory (markRejected wall d ident))"
  by (simp add: markRejected_def list_all2_map2 list_all2_same)

theorem markRejected_effect_witness:
  "cm_id cm_example_active = cm_id cm_example_active \<and>
   map cm_rejectCount
     (correction_memory (markRejected ''t'' (db_empty\<lparr>correction_memory := [cm_example_active]\<rparr>)
        (cm_id cm_example_active))) = [2] \<and>
   map cm_status
     (correction_memory (markRejected ''t'' (db_empty\<lparr>correction_memory := [cm_example_active]\<rparr>)
        (cm_id cm_example_active))) = [Some Disabled]"
  using markRejected_effect
    [of "cm_id cm_example_active" "''t''" "db_empty\<lparr>correction_memory := [cm_example_active]\<rparr>"]
  by (simp add: markRejected_def db_empty_def cm_example_active_def cm_example_def)

text \<open>
  Claim C8 as stated fails: the rejection does not decrease the confidence (0.9 before
  and after).
\<close>

theorem markRejected_keeps_confidence:
  "map cm_confidence
     (correction_memory (markRejected ''t'' (db_empty\<lparr>correction_memory := [cm_example_active]\<rparr>)
        (cm_id cm_example_active))) = [9 / 10] \<and>
   map cm_confidence (correction_memory (db_empty\<lparr>correction_memory := [cm_example_active]\<rparr>))
     = [9 / 10]"
  by (simp add: markRejected_def db_empty_def cm_example_active_def cm_example_def)

section \<open>Properties of the duplicate guard\<close>


lemma earliestCreated_mem: "earliestCreated rs = Some r \<Longrightarrow> r \<in> set rs"
  by (induction rs arbitrary: r) (auto split: option.splits if_splits)











section \<open>The Apply phase: what it may change\<close>

text \<open>
  Every heuristic leaves the store alone except for the use stamps of correction-memory
  entries, and every heuristic but the VAT check is quiet.
\<close>

lemma pushAudit_simps [simp]:
  "st_db (pushAudit E now step details st) = st_db st"
  "st_proposedCorrections (pushAudit E now step details st) = st_proposedCorrections st"
  "st_confidenceScore (pushAudit E now step details st) = st_confidenceScore st"
  "st_usedResolutionKeys (pushAudit E now step details st) = st_usedResolutionKeys st"
  "st_usedCorrectionMemoryIds (pushAudit E now step details st) = st_usedCorrectionMemoryIds st"
  "st_reasoningParts (pushAudit E now step details st) = st_reasoningParts st"
  by (simp_all add: pushAudit_def)

lemma pushCorrection_simps [simp]:
  "st_db (pushCorrection c st) = st_db st"
  "st_proposedCorrections (pushCorrection c st) = st_proposedCorrections st @ [c]"
  "st_confidenceScore (pushCorrection c st) = st_confidenceScore st"
  "st_auditTrail (pushCorrection c st) = st_auditTrail st"
  by (simp_all add: pushCorrection_def)

lemma pushReasoning_simps [simp]:
  "st_db (pushReasoning r st) = st_db st"
  "st_proposedCorrections (pushReasoning r st) = st_proposedCorrections st"
  "st_confidenceScore (pushReasoning r st) = st_confidenceScore st"
  "st_auditTrail (pushReasoning r st) = st_auditTrail st"
  by (simp_all add: pushReasoning_def)

lemma raiseConfidence_simps [simp]:
  "st_db (raiseConfidence c st) = st_db st"
  "st_proposedCorrections (raiseConfidence c st) = st_proposedCorrections st"
  "st_confidenceScore (raiseConfidence c st) = max (st_confidenceScore st) c"
  "st_auditTrail (raiseConfidence c st) = st_auditTrail st"
  by (simp_all add: raiseConfidence_def)

lemma useResolutionKey_simps [simp]:
  "st_db (useResolutionKey k st) = st_db st"
  "st_proposedCorrections (useResolutionKey k st) = st_proposedCorrections st"
  "st_confidenceScore (useResolutionKey k st) = st_confidenceScore st"
  "st_auditTrail (useResolutionKey k st) = st_auditTrail st"
  by (simp_all add: useResolutionKey_def)

lemma useCorrectionMemory_simps [simp]:
  "st_db (useCorrectionMemory E i st) = markUsed (wallClock E) (st_db st) i"
  "st_proposedCorrections (useCorrectionMemory E i st) = st_proposedCorrections st"
  "st_confidenceScore (useCorrectionMemory E i st) = st_confidenceScore st"
  "st_auditTrail (useCorrectionMemory E i st) = st_auditTrail st"
  by (simp_all add: useCorrectionMemory_def)

lemma cm_touched_refl: "cm_touched w r r"
  by (simp add: cm_touched_def)

lemma apply_frame_refl: "apply_frame w d d"
  by (simp add: apply_frame_def list_all2_same cm_touched_refl)

lemma cm_touched_trans: "cm_touched w a b \<Longrightarrow> cm_touched w b c \<Longrightarrow> cm_touched w a c"
  by (auto simp: cm_touched_def)

lemma apply_frame_trans:
  assumes "apply_frame w a b" and "apply_frame w b c"
  shows "apply_frame w a c"
proof -
  have 1: "list_all2 (cm_touched w) (correction_memory a) (correction_memory b)"
    using assms(1) by (simp add: apply_frame_def)
  have 2: "list_all2 (cm_touched w) (correction_memory b) (correction_memory c)"
    using assms(2) by (simp add: apply_frame_def)
  have l: "list_all2 (cm_touched w) (correction_memory a) (correction_memory c)"
    by (rule list_all2_trans [OF _ 1 2]) (rule cm_touched_trans)
  have "c = b\<lparr>correction_memory := correction_memory c\<rparr>" using assms(2) by (simp add: apply_frame_def)
  moreover have "b = a\<lparr>correction_memory := correction_memory b\<rparr>" using assms(1) by (simp add: apply_frame_def)
  ultimately have "c = a\<lparr>correction_memory := correction_memory c\<rparr>"
    by (metis db.update_convs(3) db.surjective)
  with l show ?thesis by (simp add: apply_frame_def)
qed

lemma markUsed_frame: "apply_frame w d (markUsed w d i)"
  by (simp add: apply_frame_def markUsed_def list_all2_map2 list_all2_same cm_touched_def)

lemma case_option_const [simp]: "(case x of None \<Rightarrow> c | Some y \<Rightarrow> c) = c"
  by (cases x) simp_all

lemma quiet_refl [simp]: "quiet st st"
  by (simp add: quiet_def)

lemma quiet_nonempty: "st_proposedCorrections st' \<noteq> [] \<Longrightarrow> quiet st st'"
  by (simp add: quiet_def)

lemma quiet_same:
  "st_proposedCorrections st' = st_proposedCorrections st \<Longrightarrow>
   st_confidenceScore st' = st_confidenceScore st \<Longrightarrow> quiet st st'"
  by (simp add: quiet_def)

lemma quiet_trans: "quiet a b \<Longrightarrow> quiet b c \<Longrightarrow> quiet a c"
  by (simp add: quiet_def)

lemma auditSkipped_simps [simp]:
  "st_db (auditSkipped E now what mem canUse st) = st_db st"
  "st_proposedCorrections (auditSkipped E now what mem canUse st) = st_proposedCorrections st"
  "st_confidenceScore (auditSkipped E now what mem canUse st) = st_confidenceScore st"
  by (simp_all add: auditSkipped_def split: option.splits)

lemma proposeFromText_db [simp]:
  "st_db (proposeFromText E ctx now resKey mem bm bt fld toV reason rm rt src st) = st_db st"
  by (simp add: proposeFromText_def Let_def)

lemma proposeFromText_corrections [simp]:
  "st_proposedCorrections (proposeFromText E ctx now resKey mem bm bt fld toV reason rm rt src st) \<noteq> []"
  by (simp add: proposeFromText_def Let_def)

lemma applyFallback_frame:
  "apply_frame (wallClock E) (st_db st) (st_db (applyFallback E ctx now resKey fld reason toValue st))"
  by (simp add: applyFallback_def Let_def apply_frame_refl markUsed_frame split: option.splits)

lemma applyFallback_quiet: "quiet st (applyFallback E ctx now resKey fld reason toValue st)"
  by (simp add: quiet_def applyFallback_def Let_def split: option.splits)

lemma qtyPropose_frame:
  "apply_frame (wallClock E) (st_db st) (st_db (qtyPropose E ctx now st sku qty dnQty))"
  by (simp add: qtyPropose_def Let_def apply_frame_refl markUsed_frame split: option.splits)

lemma qtyPropose_corrections [simp]:
  "st_proposedCorrections (qtyPropose E ctx now st sku qty dnQty) \<noteq> []"
  by (simp add: qtyPropose_def Let_def split: option.splits)

lemma qtyStep_frame: "apply_frame (wallClock E) (st_db st) (st_db (qtyStep E ctx now st li))"
  by (simp add: qtyStep_def apply_frame_refl qtyPropose_frame split: option.splits prod.splits)

lemma qtyStep_quiet: "quiet st (qtyStep E ctx now st li)"
  by (simp add: qtyStep_def quiet_nonempty split: option.splits prod.splits)

lemma applyServiceDate_db: "st_db (applyServiceDate E ctx now vm st) = st_db st"
  by (simp add: applyServiceDate_def Let_def option.case_distrib [of st_db]
      if_distrib [of st_db] cong: if_cong option.case_cong split del: if_split)

lemma applyServiceDate_quiet: "quiet st (applyServiceDate E ctx now vm st)"
  unfolding applyServiceDate_def Let_def
  by (cases "if nullish (fieldOf (fieldsOf ctx) f_serviceDate)
             then case extractLeistungsdatum E (rawTextOf ctx) of
                    None \<Rightarrow> None | Some cand \<Rightarrow> if cand \<noteq> [] then Some cand else None
             else None")
     (simp_all add: quiet_nonempty quiet_same split: option.splits)

lemma applyCurrency_frame:
  "apply_frame (wallClock E) (st_db st) (st_db (applyCurrency E ctx now vm st))"
  by (simp add: applyCurrency_def Let_def apply_frame_refl applyFallback_frame split: option.splits)

lemma applyCurrency_quiet: "quiet st (applyCurrency E ctx now vm st)"
  by (simp add: applyCurrency_def Let_def applyFallback_quiet quiet_nonempty split: option.splits)

lemma applySkonto_frame:
  "apply_frame (wallClock E) (st_db st) (st_db (applySkonto E ctx now vm st))"
  by (simp add: applySkonto_def Let_def apply_frame_refl applyFallback_frame
      split: option.splits prod.splits)

lemma applySkonto_quiet: "quiet st (applySkonto E ctx now vm st)"
  by (simp add: applySkonto_def Let_def applyFallback_quiet quiet_nonempty
      split: option.splits prod.splits)

lemma applyFreightSku_frame:
  "apply_frame (wallClock E) (st_db st) (st_db (applyFreightSku E ctx now vm st))"
  by (simp add: applyFreightSku_def Let_def apply_frame_refl markUsed_frame
      option.case_distrib [of st_db] cong: option.case_cong)
     (simp add: apply_frame_refl markUsed_frame split: option.splits)

lemma applyFreightSku_corrections:
  "freightItemOf E ctx \<noteq> None \<Longrightarrow>
   st_proposedCorrections (applyFreightSku E ctx now vm st) \<noteq> []"
  by (simp add: applyFreightSku_def Let_def
      option.case_distrib [of st_proposedCorrections] cong: option.case_cong)
     (simp split: option.splits)

lemma applyFreightSku_quiet: "quiet st (applyFreightSku E ctx now vm st)"
proof (cases "freightItemOf E ctx = None")
  case True
  then show ?thesis by (simp add: applyFreightSku_def)
next
  case False
  then show ?thesis by (simp add: quiet_nonempty applyFreightSku_corrections)
qed

lemma poPropose_db [simp]: "st_db (poPropose E ctx now poMem poNumber reason st) = st_db st"
  by (simp add: poPropose_def Let_def)

lemma poPropose_corrections [simp]:
  "st_proposedCorrections (poPropose E ctx now poMem poNumber reason st) \<noteq> []"
  by (simp add: poPropose_def Let_def)

lemma applyPoInference_db: "st_db (applyPoInference E ctx now vm st) = st_db st"
  by (simp add: applyPoInference_def Let_def split: option.splits)

lemma applyPoInference_quiet: "quiet st (applyPoInference E ctx now vm st)"
  by (simp add: applyPoInference_def Let_def quiet_nonempty quiet_same split: option.splits)

lemma vatPushGross_simps [simp]:
  "st_db (vatPushGross E ctx canUse c st) = st_db st"
  "st_confidenceScore (vatPushGross E ctx canUse c st) = st_confidenceScore st"
  "(st_proposedCorrections (vatPushGross E ctx canUse c st) = []) =
     (st_proposedCorrections st = [] \<and> \<not> vatGrossOff E ctx)"
  by (simp_all add: vatPushGross_def)

lemma vatPushTax_simps [simp]:
  "st_db (vatPushTax E ctx canUse c st) = st_db st"
  "st_confidenceScore (vatPushTax E ctx canUse c st) = st_confidenceScore st"
  "(st_proposedCorrections (vatPushTax E ctx canUse c st) = []) =
     (st_proposedCorrections st = [] \<and> \<not> vatTaxOff E ctx)"
  by (simp_all add: vatPushTax_def)

lemma vatFinish_simps [simp]:
  "st_db (vatFinish E ctx now canUse c st) = st_db st"
  "st_proposedCorrections (vatFinish E ctx now canUse c st) = st_proposedCorrections st"
  "st_confidenceScore (vatFinish E ctx now canUse c st) =
     (if vatGrossOff E ctx \<or> vatTaxOff E ctx then max (st_confidenceScore st) c
      else max (st_confidenceScore st) (min (85 / 100) c))"
  by (simp_all add: vatFinish_def)

lemma applyVatTotals_db: "st_db (applyVatTotals E ctx now vm st) = st_db st"
  by (simp add: applyVatTotals_def Let_def)

lemma applyVatTotals_corrections:
  "st_proposedCorrections (applyVatTotals E ctx now vm st) = [] \<Longrightarrow>
   st_proposedCorrections st = []"
  by (simp add: applyVatTotals_def Let_def split: if_splits)

lemma applyVatTotals_score:
  "st_proposedCorrections (applyVatTotals E ctx now vm st) = [] \<Longrightarrow>
   st_confidenceScore (applyVatTotals E ctx now vm st) =
     (if vatTotalsChecked E ctx
      then max (st_confidenceScore st) (min (85 / 100) (fst (vatShaped E (st_db st) ctx now vm)))
      else st_confidenceScore st)"
proof (cases "isVatInclusiveText E (rawTextOf ctx)")
  case False
  then have "\<not> vatTotalsChecked E ctx" by (simp add: vatTotalsChecked_def)
  with False show ?thesis by (simp add: applyVatTotals_def Let_def)
next
  case True
  assume e: "st_proposedCorrections (applyVatTotals E ctx now vm st) = []"
  show ?thesis
  proof (cases "vatTotalsChecked E ctx")
    case False
    with True show ?thesis by (simp add: applyVatTotals_def Let_def)
  next
    case c: True
    with True e have "\<not> vatGrossOff E ctx \<and> \<not> vatTaxOff E ctx"
      by (simp add: applyVatTotals_def Let_def)
    with True c show ?thesis by (simp add: applyVatTotals_def Let_def)
  qed
qed

lemma foldl_qtyStep_frame:
  "apply_frame (wallClock E) (st_db st) (st_db (foldl (qtyStep E ctx now) st items))"
proof (induction items arbitrary: st)
  case Nil
  show ?case by (simp add: apply_frame_refl)
next
  case (Cons li items)
  have "apply_frame (wallClock E) (st_db st) (st_db (qtyStep E ctx now st li))"
    by (rule qtyStep_frame)
  moreover have "apply_frame (wallClock E) (st_db (qtyStep E ctx now st li))
      (st_db (foldl (qtyStep E ctx now) (qtyStep E ctx now st li) items))"
    by (rule Cons.IH)
  ultimately have "apply_frame (wallClock E) (st_db st)
      (st_db (foldl (qtyStep E ctx now) (qtyStep E ctx now st li) items))"
    by (rule apply_frame_trans)
  then show ?case by simp
qed

lemma foldl_qtyStep_quiet: "quiet st (foldl (qtyStep E ctx now) st items)"
proof (induction items arbitrary: st)
  case Nil
  show ?case by simp
next
  case (Cons li items)
  have "quiet st (qtyStep E ctx now st li)" by (rule qtyStep_quiet)
  moreover have "quiet (qtyStep E ctx now st li)
      (foldl (qtyStep E ctx now) (qtyStep E ctx now st li) items)"
    by (rule Cons.IH)
  ultimately have "quiet st (foldl (qtyStep E ctx now) (qtyStep E ctx now st li) items)"
    by (rule quiet_trans)
  then show ?case by simp
qed

lemma applyQuantities_frame:
  "apply_frame (wallClock E) (st_db st) (st_db (applyQuantities E ctx now st))"
  by (simp add: applyQuantities_def foldl_qtyStep_frame)

lemma applyQuantities_quiet: "quiet st (applyQuantities E ctx now st)"
  by (simp add: applyQuantities_def foldl_qtyStep_quiet)

lemma applyFreight_frame:
  "apply_frame (wallClock E) (st_db st) (st_db (applyFreight E ctx now vm st))"
  using apply_frame_trans [OF applySkonto_frame applyFreightSku_frame]
  by (simp add: applyFreight_def apply_frame_refl)

lemma applyFreight_quiet: "quiet st (applyFreight E ctx now vm st)"
  using quiet_trans [OF applySkonto_quiet applyFreightSku_quiet]
  by (simp add: applyFreight_def)

lemma applyPhase_frame:
  "apply_frame (wallClock E) (st_db st) (st_db (applyPhase E ctx now vm st))"
proof -
  let ?s3 = "applyVatTotals E ctx now vm
      (applyPoInference E ctx now vm (applyServiceDate E ctx now vm st))"
  have a: "st_db ?s3 = st_db st"
    by (simp add: applyVatTotals_db applyPoInference_db applyServiceDate_db)
  have "apply_frame (wallClock E) (st_db ?s3) (st_db (applyQuantities E ctx now ?s3))"
    by (rule applyQuantities_frame)
  then have b: "apply_frame (wallClock E) (st_db st) (st_db (applyQuantities E ctx now ?s3))"
    using a by simp
  have c: "apply_frame (wallClock E) (st_db st)
      (st_db (applyCurrency E ctx now vm (applyQuantities E ctx now ?s3)))"
    by (rule apply_frame_trans [OF b applyCurrency_frame])
  have "apply_frame (wallClock E) (st_db st)
      (st_db (applyFreight E ctx now vm (applyCurrency E ctx now vm (applyQuantities E ctx now ?s3))))"
    by (rule apply_frame_trans [OF c applyFreight_frame])
  then show ?thesis by (simp add: applyPhase_def Let_def)
qed

lemma applyPhase_corrections:
  "st_proposedCorrections (applyPhase E ctx now vm st) =
   st_proposedCorrections
     (applyFreight E ctx now vm (applyCurrency E ctx now vm (applyQuantities E ctx now
        (applyVatTotals E ctx now vm
           (applyPoInference E ctx now vm (applyServiceDate E ctx now vm st))))))"
  by (simp add: applyPhase_def Let_def)

lemma applyPhase_score:
  assumes "st_proposedCorrections (applyPhase E ctx now vm st) = []"
  shows "st_proposedCorrections st = [] \<and>
    st_confidenceScore (applyPhase E ctx now vm st) =
     (if vatTotalsChecked E ctx
      then max (st_confidenceScore st) (min (85 / 100) (fst (vatShaped E (st_db st) ctx now vm)))
      else st_confidenceScore st)"
proof -
  let ?s1 = "applyServiceDate E ctx now vm st"
  let ?s2 = "applyPoInference E ctx now vm ?s1"
  let ?s3 = "applyVatTotals E ctx now vm ?s2"
  let ?s4 = "applyQuantities E ctx now ?s3"
  let ?s5 = "applyCurrency E ctx now vm ?s4"
  let ?s6 = "applyFreight E ctx now vm ?s5"
  have e6: "st_proposedCorrections ?s6 = []" using assms by (simp add: applyPhase_corrections)
  have q6: "quiet ?s5 ?s6" by (rule applyFreight_quiet)
  have q5: "quiet ?s4 ?s5" by (rule applyCurrency_quiet)
  have q4: "quiet ?s3 ?s4" by (rule applyQuantities_quiet)
  have q2: "quiet ?s1 ?s2" by (rule applyPoInference_quiet)
  have q1: "quiet st ?s1" by (rule applyServiceDate_quiet)
  from e6 q6 have e5: "st_proposedCorrections ?s5 = []"
    and c6: "st_confidenceScore ?s6 = st_confidenceScore ?s5" by (simp_all add: quiet_def)
  from e5 q5 have e4: "st_proposedCorrections ?s4 = []"
    and c5: "st_confidenceScore ?s5 = st_confidenceScore ?s4" by (simp_all add: quiet_def)
  from e4 q4 have e3: "st_proposedCorrections ?s3 = []"
    and c4: "st_confidenceScore ?s4 = st_confidenceScore ?s3" by (simp_all add: quiet_def)
  from e3 have e2: "st_proposedCorrections ?s2 = []" by (rule applyVatTotals_corrections)
  from e2 q2 have e1: "st_proposedCorrections ?s1 = []"
    and c2: "st_confidenceScore ?s2 = st_confidenceScore ?s1" by (simp_all add: quiet_def)
  from e1 q1 have e0: "st_proposedCorrections st = []"
    and c1: "st_confidenceScore ?s1 = st_confidenceScore st" by (simp_all add: quiet_def)
  have d2: "st_db ?s2 = st_db st" by (simp add: applyPoInference_db applyServiceDate_db)
  have c3: "st_confidenceScore ?s3 =
     (if vatTotalsChecked E ctx
      then max (st_confidenceScore ?s2) (min (85 / 100) (fst (vatShaped E (st_db ?s2) ctx now vm)))
      else st_confidenceScore ?s2)"
    using e3 by (rule applyVatTotals_score)
  have "st_confidenceScore (applyPhase E ctx now vm st) = st_confidenceScore ?s6"
    by (simp add: applyPhase_def Let_def)
  with e0 c6 c5 c4 c3 c2 c1 d2 show ?thesis by simp
qed

section \<open>Writes that leave the memory tables alone\<close>

lemma logAuditEvent_frame [simp]:
  "vendor_memory (logAuditEvent d ev) = vendor_memory d"
  "correction_memory (logAuditEvent d ev) = correction_memory d"
  "resolution_memory (logAuditEvent d ev) = resolution_memory d"
  "learning_events (logAuditEvent d ev) = learning_events d"
  "invoice_runs (logAuditEvent d ev) = invoice_runs d"
  "duplicate_records (logAuditEvent d ev) = duplicate_records d"
  "audit_events (logAuditEvent d ev) = audit_events d @ [ev]"
  by (simp_all add: logAuditEvent_def)

lemma recordDuplicate_frame [simp]:
  "vendor_memory (recordDuplicate d row) = vendor_memory d"
  "correction_memory (recordDuplicate d row) = correction_memory d"
  "resolution_memory (recordDuplicate d row) = resolution_memory d"
  "learning_events (recordDuplicate d row) = learning_events d"
  "invoice_runs (recordDuplicate d row) = invoice_runs d"
  "audit_events (recordDuplicate d row) = audit_events d"
  by (simp_all add: recordDuplicate_def)

section \<open>The duplicate short-circuit\<close>

text \<open>
  Claim C6. When the duplicate guard reports a duplicate, the run short-circuits: it
  returns, and the output requires human review, has confidence 0.2, no proposed
  corrections, no memory updates and an audit trail of the single duplicate-guard entry
  (no heuristic ran); vendor memory, correction memory, resolution memory and the
  learning events are unchanged; the store gains exactly the duplicate record, the
  duplicate flag on the invoice's runs and one audit event.
\<close>

theorem duplicate_short_circuit:
  assumes "detectDuplicate (numToString E) d (ctx_extracted ctx) = IsDuplicate dupOf reason fp"
  shows "(\<exists>out. fst (runPipeline E d ctx now) = Inr out \<and>
       out_requiresHumanReview out \<and>
       out_confidenceScore out = 2 / 10 \<and>
       out_proposedCorrections out = [] \<and>
       out_memoryUpdates out = [] \<and>
       out_normalizedInvoice out = normalizedOf (ctx_extracted ctx) \<and>
       map at_step (out_auditTrail out) = [''duplicateGuard'']) \<and>
     vendor_memory (snd (runPipeline E d ctx now)) = vendor_memory d \<and>
     correction_memory (snd (runPipeline E d ctx now)) = correction_memory d \<and>
     resolution_memory (snd (runPipeline E d ctx now)) = resolution_memory d \<and>
     learning_events (snd (runPipeline E d ctx now)) = learning_events d \<and>
     duplicate_records (snd (runPipeline E d ctx now)) =
       filter (\<lambda>r. dr_invoiceId r \<noteq> ex_invoiceId (ctx_extracted ctx)) (duplicate_records d) @
         [\<lparr>dr_invoiceId = ex_invoiceId (ctx_extracted ctx),
           dr_vendor = ex_vendor (ctx_extracted ctx), dr_fingerprint = fp,
           dr_duplicateOfInvoiceId = Some dupOf, dr_reason = reason,
           dr_createdAt = toISOString E now\<rparr>] \<and>
     invoice_runs (snd (runPipeline E d ctx now)) =
       map (\<lambda>r. if run_invoiceId r = ex_invoiceId (ctx_extracted ctx)
                 then r\<lparr>run_isDuplicate := 1, run_duplicateOfInvoiceId := Some dupOf\<rparr> else r)
         (invoice_runs d) \<and>
     audit_events (snd (runPipeline E d ctx now)) =
       audit_events d @
         [pipelineEvent E now ''DUPLICATE_DETECTED'' (ex_vendor (ctx_extracted ctx))
            (ex_invoiceId (ctx_extracted ctx)) (MetaDuplicate dupOf reason)]"
  using assms
  by (simp add: runPipeline_def duplicateBranch_def Let_def recordDuplicate_def)

lemma detect_invoice_C:
  "\<exists>reason fp. detectDuplicate (numToString env0) db_chain invoice_C = IsDuplicate ''INV-A'' reason fp"
  by (simp add: detectDuplicate_def Let_def invoiceNumberOf_def invoice_C_def fields_empty_def
      fieldOf_def coalesce_def selectOriginalRun_def selectAnyRun_def selectDuplicateRecord_def
      db_chain_def db_empty_def run_A_def run_B_def record_B_def)

theorem duplicate_short_circuit_witness:
  "(\<exists>reason fp. detectDuplicate (numToString env0) db_chain (ctx_extracted (ctx_of invoice_C))
       = IsDuplicate ''INV-A'' reason fp) \<and>
   (\<exists>out. fst (runPipeline env0 db_chain (ctx_of invoice_C) 0) = Inr out \<and>
      out_requiresHumanReview out \<and>
      out_confidenceScore out = 2 / 10 \<and>
      out_proposedCorrections out = [] \<and>
      out_memoryUpdates out = []) \<and>
   vendor_memory (snd (runPipeline env0 db_chain (ctx_of invoice_C) 0)) = vendor_memory db_chain \<and>
   learning_events (snd (runPipeline env0 db_chain (ctx_of invoice_C) 0)) = learning_events db_chain"
proof -
  have c: "ctx_extracted (ctx_of invoice_C) = invoice_C" by (simp add: ctx_of_def)
  obtain reason fp where
    h: "detectDuplicate (numToString env0) db_chain (ctx_extracted (ctx_of invoice_C))
          = IsDuplicate ''INV-A'' reason fp"
    using detect_invoice_C c by auto
  from duplicate_short_circuit [OF h, of 0] h show ?thesis by blast
qed

lemma duplicate_store:
  assumes "detectDuplicate (numToString E) d (ctx_extracted ctx) = IsDuplicate dupOf reason fp"
  shows "vendor_memory (snd (runPipeline E d ctx now)) = vendor_memory d"
    and "correction_memory (snd (runPipeline E d ctx now)) = correction_memory d"
    and "resolution_memory (snd (runPipeline E d ctx now)) = resolution_memory d"
    and "learning_events (snd (runPipeline E d ctx now)) = learning_events d"
    and "\<exists>out. fst (runPipeline E d ctx now) = Inr out \<and> out_memoryUpdates out = []"
  using assms by (simp_all add: runPipeline_def duplicateBranch_def Let_def)

section \<open>The Learn phase: when it returns and what it leaves\<close>

lemma learnAudit_simps [simp]:
  "ls_db (learnAudit E now details ls) = ls_db ls"
  "ls_memoryUpdates (learnAudit E now details ls) = ls_memoryUpdates ls"
  "ls_auditTrail (learnAudit E now details ls) =
     ls_auditTrail ls @
       [\<lparr>at_step = ''learn'', at_timestamp = toISOString E now, at_details = details\<rparr>]"
  by (simp_all add: learnAudit_def)

lemma forEach_rejectUsedMemory:
  "forEach (rejectUsedMemory E now v i) ls ids =
     (case ids of
        [] \<Rightarrow> Inr ls
      | m # ms \<Rightarrow> Inl (TypeError, markRejected (wallClock E) (ls_db ls) m))"
  by (cases ids) (simp_all add: rejectUsedMemory_def)

lemma learnPhase_learned:
  "hasLearned (ls_db ls) (ex_invoiceId (ctx_extracted ctx)) \<Longrightarrow>
   learnPhase E ctx now vm keys ids ls =
     Inr (learnAudit E now
            (''Skipped learning: invoiceId '' @ ex_invoiceId (ctx_extracted ctx) @
             '' already learned.'')
            ls)"
  by (simp add: learnPhase_def Let_def)

lemma learnPhase_undecided:
  "\<not> hasLearned (ls_db ls) (ex_invoiceId (ctx_extracted ctx)) \<Longrightarrow> findDecision ctx = None \<Longrightarrow>
   learnPhase E ctx now vm keys ids ls =
     Inr (learnAudit E now ''No human decision available for learning.'' ls)"
  by (simp add: learnPhase_def Let_def)

lemma learnPhase_approved:
  "\<not> hasLearned (ls_db ls) (ex_invoiceId (ctx_extracted ctx)) \<Longrightarrow>
   findDecision ctx = Some (row, Approved) \<Longrightarrow>
   learnPhase E ctx now vm keys ids ls = Inr (learnDecision E ctx now vm keys row Approved ls)"
  by (simp add: learnPhase_def Let_def)

lemma learnPhase_rejected:
  "\<not> hasLearned (ls_db ls) (ex_invoiceId (ctx_extracted ctx)) \<Longrightarrow>
   findDecision ctx = Some (row, Rejected) \<Longrightarrow>
   learnPhase E ctx now vm keys ids ls =
     (case ids of
        [] \<Rightarrow> Inr (learnDecision E ctx now vm keys row Rejected ls)
      | m # ms \<Rightarrow> Inl (TypeError, markRejected (wallClock E) (ls_db ls) m))"
  by (simp add: learnPhase_def Let_def forEach_rejectUsedMemory split: list.splits)

text \<open>The four ways the Learn phase ends.\<close>

lemma learnPhase_cases:
  obtains
    (learned) "hasLearned (ls_db ls) (ex_invoiceId (ctx_extracted ctx))"
      "learnPhase E ctx now vm keys ids ls =
         Inr (learnAudit E now
                (''Skipped learning: invoiceId '' @ ex_invoiceId (ctx_extracted ctx) @
                 '' already learned.'')
                ls)"
  | (undecided) "\<not> hasLearned (ls_db ls) (ex_invoiceId (ctx_extracted ctx))"
      "findDecision ctx = None"
      "learnPhase E ctx now vm keys ids ls =
         Inr (learnAudit E now ''No human decision available for learning.'' ls)"
  | (decided) row verdict where "\<not> hasLearned (ls_db ls) (ex_invoiceId (ctx_extracted ctx))"
      "findDecision ctx = Some (row, verdict)" "verdict = Rejected \<longrightarrow> ids = []"
      "learnPhase E ctx now vm keys ids ls = Inr (learnDecision E ctx now vm keys row verdict ls)"
  | (thrown) row m where "\<not> hasLearned (ls_db ls) (ex_invoiceId (ctx_extracted ctx))"
      "findDecision ctx = Some (row, Rejected)" "m \<in> set ids"
      "learnPhase E ctx now vm keys ids ls =
         Inl (TypeError, markRejected (wallClock E) (ls_db ls) m)"
proof (cases "hasLearned (ls_db ls) (ex_invoiceId (ctx_extracted ctx))")
  case True
  then show ?thesis using learned learnPhase_learned by blast
next
  case False
  show ?thesis
  proof (cases "findDecision ctx")
    case None
    with False show ?thesis using undecided learnPhase_undecided by blast
  next
    case (Some a)
    obtain row verdict where a: "a = (row, verdict)" by (cases a)
    show ?thesis
    proof (cases verdict)
      case Approved
      with False Some a show ?thesis using decided [of row Approved] learnPhase_approved by simp
    next
      case Rejected
      show ?thesis
      proof (cases ids)
        case Nil
        with False Some a Rejected show ?thesis
          using decided [of row Rejected] learnPhase_rejected [of ls ctx row E now vm keys ids]
          by simp
      next
        case (Cons m ms)
        with False Some a Rejected show ?thesis
          using thrown [of row m] learnPhase_rejected [of ls ctx row E now vm keys ids]
          by simp
      qed
    qed
  qed
qed

lemma learnPhase_returns:
  assumes "hasLearned (ls_db ls) (ex_invoiceId (ctx_extracted ctx)) \<or>
           (\<forall>row. findDecision ctx \<noteq> Some (row, Rejected))"
  shows "\<exists>ls'. learnPhase E ctx now vm keys ids ls = Inr ls'"
  using assms by (cases rule: learnPhase_cases [of ls ctx E now vm keys ids]) auto

section \<open>A run that is not a duplicate\<close>

lemma recallPhase_simps [simp]:
  "st_db (recallPhase E d ctx now) = d"
  "st_proposedCorrections (recallPhase E d ctx now) = []"
  "st_confidenceScore (recallPhase E d ctx now) = 25 / 100"
  "st_usedResolutionKeys (recallPhase E d ctx now) = []"
  "st_usedCorrectionMemoryIds (recallPhase E d ctx now) = []"
  by (simp_all add: recallPhase_def Let_def)

lemma apply_frame_fields:
  assumes "apply_frame w d d'"
  shows "vendor_memory d' = vendor_memory d" "resolution_memory d' = resolution_memory d"
    "learning_events d' = learning_events d" "invoice_runs d' = invoice_runs d"
    "duplicate_records d' = duplicate_records d" "audit_events d' = audit_events d"
    "list_all2 (cm_touched w) (correction_memory d) (correction_memory d')"
proof -
  from assms have e: "d' = d\<lparr>correction_memory := correction_memory d'\<rparr>"
    and l: "list_all2 (cm_touched w) (correction_memory d) (correction_memory d')"
    by (simp_all add: apply_frame_def)
  have "vendor_memory (d\<lparr>correction_memory := correction_memory d'\<rparr>) = vendor_memory d" by simp
  with e show "vendor_memory d' = vendor_memory d" by simp
  have "resolution_memory (d\<lparr>correction_memory := correction_memory d'\<rparr>) = resolution_memory d"
    by simp
  with e show "resolution_memory d' = resolution_memory d" by simp
  have "learning_events (d\<lparr>correction_memory := correction_memory d'\<rparr>) = learning_events d"
    by simp
  with e show "learning_events d' = learning_events d" by simp
  have "invoice_runs (d\<lparr>correction_memory := correction_memory d'\<rparr>) = invoice_runs d" by simp
  with e show "invoice_runs d' = invoice_runs d" by simp
  have "duplicate_records (d\<lparr>correction_memory := correction_memory d'\<rparr>) = duplicate_records d"
    by simp
  with e show "duplicate_records d' = duplicate_records d" by simp
  have "audit_events (d\<lparr>correction_memory := correction_memory d'\<rparr>) = audit_events d" by simp
  with e show "audit_events d' = audit_events d" by simp
  from l show "list_all2 (cm_touched w) (correction_memory d) (correction_memory d')" .
qed

lemma apply_frame_hasLearned: "apply_frame w d d' \<Longrightarrow> hasLearned d' i = hasLearned d i"
  by (simp add: hasLearned_def apply_frame_fields)

lemma main_frame:
  "apply_frame (wallClock E) d (st_db (applyPhase E ctx now vm (recallPhase E d ctx now)))"
  using applyPhase_frame [of E "recallPhase E d ctx now" ctx now vm] by simp

text \<open>
  The output of a run that returns: everything but the memory updates and the audit
  trail is settled before the Learn phase.
\<close>

lemma main_output:
  assumes "detectDuplicate (numToString E) d (ctx_extracted ctx) = NotDuplicate"
    and "fst (runPipeline E d ctx now) = Inr out"
  shows "out_normalizedInvoice out = normalizedOf (ctx_extracted ctx)"
    and "out_proposedCorrections out =
      st_proposedCorrections
        (applyPhase E ctx now (getVendorMemories d (ctx_vendor ctx)) (recallPhase E d ctx now))"
    and "out_requiresHumanReview out \<longleftrightarrow>
      anyLowConfidence
        (st_proposedCorrections
           (applyPhase E ctx now (getVendorMemories d (ctx_vendor ctx)) (recallPhase E d ctx now))) \<or>
      hasCriticalMissingFields E (normalizedOf (ctx_extracted ctx))
        (st_proposedCorrections
           (applyPhase E ctx now (getVendorMemories d (ctx_vendor ctx)) (recallPhase E d ctx now)))"
    and "out_confidenceScore out =
      decideScore E
        (st_proposedCorrections
           (applyPhase E ctx now (getVendorMemories d (ctx_vendor ctx)) (recallPhase E d ctx now)))
        (st_confidenceScore
           (applyPhase E ctx now (getVendorMemories d (ctx_vendor ctx)) (recallPhase E d ctx now)))"
  using assms
  by (auto simp add: runPipeline_def mainBranch_def Let_def split: sum.splits prod.splits)

text \<open>The store and the result of a run, read off the Learn phase.\<close>

lemma main_learn:
  assumes "detectDuplicate (numToString E) d (ctx_extracted ctx) = NotDuplicate"
  obtains ls0 where
    "ls_db ls0 =
       st_db (applyPhase E ctx now (getVendorMemories d (ctx_vendor ctx)) (recallPhase E d ctx now))"
    "ls_memoryUpdates ls0 = []"
    "snd (runPipeline E d ctx now) =
       case_sum snd ls_db
         (learnPhase E ctx now (getVendorMemories d (ctx_vendor ctx))
            (st_usedResolutionKeys
               (applyPhase E ctx now (getVendorMemories d (ctx_vendor ctx))
                  (recallPhase E d ctx now)))
            (st_usedCorrectionMemoryIds
               (applyPhase E ctx now (getVendorMemories d (ctx_vendor ctx))
                  (recallPhase E d ctx now)))
            ls0)"
    "map_sum id (\<lambda>out. (out_memoryUpdates out, out_auditTrail out)) (fst (runPipeline E d ctx now)) =
       map_sum fst (\<lambda>ls. (ls_memoryUpdates ls, ls_auditTrail ls))
         (learnPhase E ctx now (getVendorMemories d (ctx_vendor ctx))
            (st_usedResolutionKeys
               (applyPhase E ctx now (getVendorMemories d (ctx_vendor ctx))
                  (recallPhase E d ctx now)))
            (st_usedCorrectionMemoryIds
               (applyPhase E ctx now (getVendorMemories d (ctx_vendor ctx))
                  (recallPhase E d ctx now)))
            ls0)"
proof -
  let ?st = "applyPhase E ctx now (getVendorMemories d (ctx_vendor ctx)) (recallPhase E d ctx now)"
  let ?st' = "pushAudit E now ''decide''
      (decideText (st_proposedCorrections ?st) (anyLowConfidence (st_proposedCorrections ?st))
         (hasCriticalMissingFields E (normalizedOf (ctx_extracted ctx))
            (st_proposedCorrections ?st))) ?st"
  let ?ls0 = "\<lparr>ls_db = st_db ?st', ls_auditTrail = st_auditTrail ?st', ls_memoryUpdates = []\<rparr>"
  show ?thesis
  proof (rule that [of ?ls0])
    show "ls_db ?ls0 = st_db ?st" by simp
    show "ls_memoryUpdates ?ls0 = []" by simp
    show "snd (runPipeline E d ctx now) =
       case_sum snd ls_db
         (learnPhase E ctx now (getVendorMemories d (ctx_vendor ctx))
            (st_usedResolutionKeys ?st) (st_usedCorrectionMemoryIds ?st) ?ls0)"
      using assms
      by (simp add: runPipeline_def mainBranch_def Let_def split: sum.splits prod.splits)
    show "map_sum id (\<lambda>out. (out_memoryUpdates out, out_auditTrail out))
         (fst (runPipeline E d ctx now)) =
       map_sum fst (\<lambda>ls. (ls_memoryUpdates ls, ls_auditTrail ls))
         (learnPhase E ctx now (getVendorMemories d (ctx_vendor ctx))
            (st_usedResolutionKeys ?st) (st_usedCorrectionMemoryIds ?st) ?ls0)"
      using assms
      by (simp add: runPipeline_def mainBranch_def Let_def split: sum.splits prod.splits)
  qed
qed

lemma main_returns:
  assumes "detectDuplicate (numToString E) d (ctx_extracted ctx) = NotDuplicate"
    and "hasLearned d (ex_invoiceId (ctx_extracted ctx)) \<or>
         (\<forall>row. findDecision ctx \<noteq> Some (row, Rejected))"
  shows "\<exists>out. fst (runPipeline E d ctx now) = Inr out"
proof -
  from assms(1) obtain ls0 where
    d: "ls_db ls0 =
       st_db (applyPhase E ctx now (getVendorMemories d (ctx_vendor ctx)) (recallPhase E d ctx now))"
    and f: "map_sum id (\<lambda>out. (out_memoryUpdates out, out_auditTrail out))
         (fst (runPipeline E d ctx now)) =
       map_sum fst (\<lambda>ls. (ls_memoryUpdates ls, ls_auditTrail ls))
         (learnPhase E ctx now (getVendorMemories d (ctx_vendor ctx))
            (st_usedResolutionKeys
               (applyPhase E ctx now (getVendorMemories d (ctx_vendor ctx))
                  (recallPhase E d ctx now)))
            (st_usedCorrectionMemoryIds
               (applyPhase E ctx now (getVendorMemories d (ctx_vendor ctx))
                  (recallPhase E d ctx now)))
            ls0)"
    by (rule main_learn)
  have "hasLearned (ls_db ls0) (ex_invoiceId (ctx_extracted ctx)) \<or>
        (\<forall>row. findDecision ctx \<noteq> Some (row, Rejected))"
    using assms(2) d apply_frame_hasLearned [OF main_frame] by simp
  from learnPhase_returns [OF this] obtain ls' where
    "learnPhase E ctx now (getVendorMemories d (ctx_vendor ctx))
       (st_usedResolutionKeys
          (applyPhase E ctx now (getVendorMemories d (ctx_vendor ctx))
             (recallPhase E d ctx now)))
       (st_usedCorrectionMemoryIds
          (applyPhase E ctx now (getVendorMemories d (ctx_vendor ctx))
             (recallPhase E d ctx now)))
       ls0 = Inr ls'"
    by blast
  with f have "map_sum id (\<lambda>out. (out_memoryUpdates out, out_auditTrail out))
         (fst (runPipeline E d ctx now)) = Inr (ls_memoryUpdates ls', ls_auditTrail ls')"
    by simp
  then show ?thesis by (cases "fst (runPipeline E d ctx now)") simp_all
qed

section \<open>The decision\<close>


lemma detect_empty: "detectDuplicate nts db_empty ex = NotDuplicate"
  by (simp add: detectDuplicate_def Let_def selectOriginalRun_def selectAnyRun_def
      selectPriorFingerprint_def db_empty_def)

lemma ctx_of_simps [simp]:
  "ctx_vendor (ctx_of ex) = ex_vendor ex"
  "ctx_extracted (ctx_of ex) = ex"
  "ctx_reference (ctx_of ex) = None"
  "ctx_correctionsForInvoice (ctx_of ex) = None"
  by (simp_all add: ctx_of_def)

lemma findDecision_ctx_of [simp]: "findDecision (ctx_of ex) = None"
  by (simp add: findDecision_def)


section \<open>The confidence score reported\<close>

lemma mathMin_Min: "xs \<noteq> [] \<Longrightarrow> mathMin xs = Fin (Min (set xs))"
proof (cases xs)
  case Nil
  assume "xs \<noteq> []"
  with Nil show ?thesis by simp
next
  case (Cons x ys)
  have "foldl min x ys = fold min ys x" by (simp add: foldl_conv_fold min.commute)
  also have "\<dots> = Min (set (x # ys))" by (rule Min.set_eq_fold [symmetric])
  finally have "foldl min x ys = Min (set xs)" using Cons by simp
  then show ?thesis using Cons by simp
qed

lemma decideScore_min:
  "cs \<noteq> [] \<Longrightarrow> decideScore E cs s = round2 E (Min (set (map pc_confidence cs)))"
  by (simp add: decideScore_def mathMin_Min)

lemma decideScore_none: "decideScore E [] s = s"
  by (simp add: decideScore_def)

lemma score_without_corrections:
  assumes "detectDuplicate (numToString E) d (ctx_extracted ctx) = NotDuplicate"
    and "fst (runPipeline E d ctx now) = Inr out"
    and "out_proposedCorrections out = []"
  shows "out_confidenceScore out =
     (if vatTotalsChecked E ctx
      then max (25 / 100)
             (min (85 / 100)
                (fst (vatShaped E d ctx now (getVendorMemories d (ctx_vendor ctx)))))
      else 25 / 100)"
proof -
  let ?st = "applyPhase E ctx now (getVendorMemories d (ctx_vendor ctx)) (recallPhase E d ctx now)"
  have e: "st_proposedCorrections ?st = []"
    using assms(3) main_output(2) [OF assms(1,2)] by simp
  from applyPhase_score [OF e] have
    "st_confidenceScore ?st =
       (if vatTotalsChecked E ctx
        then max (25 / 100)
               (min (85 / 100)
                  (fst (vatShaped E d ctx now (getVendorMemories d (ctx_vendor ctx)))))
        else 25 / 100)"
    by simp
  with e show ?thesis by (simp add: main_output(4) [OF assms(1,2)] decideScore_none)
qed

text \<open>
  Claim C4 (amended). A run that is not a duplicate returns its output unless a rejected
  verdict awaits an invoice not learned yet. In the output it returns, when at least one
  correction is proposed the confidence score is the minimum of the corrections'
  confidences, rounded to two decimals by the engine's \<^verbatim>\<open>round2\<close>. When none is proposed,
  the score is the baseline 0.25, unless the VAT-inclusive check ran on finite totals
  (and verified them): then it is the larger of 0.25 and the shaped confidence of that
  check capped at 0.85.
\<close>

theorem reported_confidence:
  assumes "detectDuplicate (numToString E) d (ctx_extracted ctx) = NotDuplicate"
  shows "(hasLearned d (ex_invoiceId (ctx_extracted ctx)) \<or>
      (\<forall>row. findDecision ctx \<noteq> Some (row, Rejected))
        \<longrightarrow> (\<exists>out. fst (runPipeline E d ctx now) = Inr out)) \<and>
     (\<forall>out. fst (runPipeline E d ctx now) = Inr out \<longrightarrow>
       (out_proposedCorrections out \<noteq> [] \<longrightarrow>
          out_confidenceScore out =
            round2 E (Min (set (map pc_confidence (out_proposedCorrections out))))) \<and>
       (out_proposedCorrections out = [] \<longrightarrow>
          out_confidenceScore out =
            (if vatTotalsChecked E ctx
             then max (25 / 100)
                    (min (85 / 100)
                       (fst (vatShaped E d ctx now (getVendorMemories d (ctx_vendor ctx)))))
             else 25 / 100)))"
proof -
  have a: "out_proposedCorrections out \<noteq> [] \<longrightarrow>
       out_confidenceScore out =
         round2 E (Min (set (map pc_confidence (out_proposedCorrections out))))"
    if r: "fst (runPipeline E d ctx now) = Inr out" for out
    unfolding main_output(4) [OF assms r] main_output(2) [OF assms r]
    by (simp add: decideScore_min)
  have b: "out_proposedCorrections out = [] \<longrightarrow>
       out_confidenceScore out =
         (if vatTotalsChecked E ctx
          then max (25 / 100)
                 (min (85 / 100)
                    (fst (vatShaped E d ctx now (getVendorMemories d (ctx_vendor ctx)))))
          else 25 / 100)"
    if r: "fst (runPipeline E d ctx now) = Inr out" for out
    using score_without_corrections [OF assms r] by blast
  from a b main_returns [OF assms] show ?thesis by blast
qed

lemma complete_fields [simp]:
  "fieldsOf (ctx_of invoice_complete) = Some fields_complete"
  "rawTextOf (ctx_of invoice_complete) = ''Prices incl. VAT''"
  "lineItemsOf (ctx_of invoice_complete) = []"
  by (simp_all add: fieldsOf_def rawTextOf_def lineItemsOf_def invoice_complete_def
      fields_complete_def)

lemma complete_ids [simp]:
  "ex_vendor invoice_complete = ''Supplier GmbH''"
  "ex_invoiceId invoice_complete = ''INV-D''"
  by (simp_all add: invoice_complete_def)

lemma getVendorMemories_empty [simp]: "getVendorMemories db_empty v = []"
  by (simp add: getVendorMemories_def db_empty_def)

lemma getResolution_empty [simp]: "getResolution db_empty v k = None"
  by (simp add: getResolution_def db_empty_def)

lemma round2_119: "round2 env_vat 119 = 119" and round2_19: "round2 env_vat 19 = 19"
  by (simp_all add: env_vat_def env0_def roundCents_def mathRound_def)

lemma vat_example_checked: "vatTotalsChecked env_vat (ctx_of invoice_complete)"
  by (simp add: vatTotalsChecked_def isVatInclusiveText_def env_vat_def vatNet_def vatRate_def
      vatCurrentGross_def vatCurrentTax_def fieldOf_def fields_complete_def coalesce_def)

lemma vat_example_total: "reTotal env_vat s = None"
  by (simp add: env_vat_def env0_def)

lemma vat_example_verified:
  "\<not> vatGrossOff env_vat (ctx_of invoice_complete)"
  "\<not> vatTaxOff env_vat (ctx_of invoice_complete)"
  by (simp_all add: vatGrossOff_def vatTaxOff_def vatExpectedGross_def vatExpectedTax_def
      extractTotalFromRawText_def vatNet_def vatRate_def
      vatCurrentGross_def vatCurrentTax_def fieldOf_def fields_complete_def coalesce_def
      round2_119 round2_19 vat_example_total)

lemma vat_example_shaped:
  "fst (vatShaped env_vat d (ctx_of invoice_complete) 0 []) =
     fst (applyResolutionMemoryToConfidence env_vat d ''Supplier GmbH''
            ''vat_inclusive_recompute_totals'' (6 / 10))"
  by (simp add: vatShaped_def Let_def vatMemOf_def canApplyVendorMem_def decayIfUsed_def)

lemma vat_example_shaped_empty:
  "fst (vatShaped env_vat db_empty (ctx_of invoice_complete) 0 []) = 6 / 10"
  by (simp add: vat_example_shaped applyResolutionMemoryToConfidence_def)

lemma vat_example_steps:
  "applyServiceDate env_vat (ctx_of invoice_complete) 0 [] st = st"
  "applyPoInference env_vat (ctx_of invoice_complete) 0 [] st = st"
  "applyQuantities env_vat (ctx_of invoice_complete) 0 st = st"
  "applyCurrency env_vat (ctx_of invoice_complete) 0 [] st = st"
  "applyFreight env_vat (ctx_of invoice_complete) 0 [] st = st"
  by (simp_all add: applyServiceDate_def applyPoInference_def applyQuantities_def
      applyCurrency_def applyFreight_def Let_def extractLeistungsdatum_def env_vat_def env0_def
      fieldOf_def fields_complete_def)

lemma vat_example_corrections:
  "st_proposedCorrections
     (applyPhase env_vat (ctx_of invoice_complete) 0 [] (recallPhase env_vat db_empty (ctx_of invoice_complete) 0)) = []"
  by (simp add: applyPhase_def Let_def vat_example_steps applyVatTotals_def
      vat_example_checked vat_example_verified)

lemma vat_example_output:
  obtains out where "fst (runPipeline env_vat db_empty (ctx_of invoice_complete) 0) = Inr out"
    "out_proposedCorrections out = []"
proof -
  have n: "detectDuplicate (numToString env_vat) db_empty (ctx_extracted (ctx_of invoice_complete))
      = NotDuplicate"
    by (rule detect_empty)
  have "\<forall>row. findDecision (ctx_of invoice_complete) \<noteq> Some (row, Rejected)" by simp
  with main_returns [OF n] obtain out where
    r: "fst (runPipeline env_vat db_empty (ctx_of invoice_complete) 0) = Inr out"
    by blast
  from main_output(2) [OF n r] have "out_proposedCorrections out = []"
    by (simp add: vat_example_corrections)
  with r show ?thesis by (rule that)
qed

text \<open>
  Claim C4 as stated fails: an invoice whose text announces VAT-inclusive prices and whose
  totals are consistent gets no correction, and its score is 0.6, not the baseline 0.25.
\<close>

theorem verified_totals_raise_the_score:
  "\<not> isl (fst (runPipeline env_vat db_empty (ctx_of invoice_complete) 0)) \<and>
   out_proposedCorrections (projr (fst (runPipeline env_vat db_empty (ctx_of invoice_complete) 0)))
     = [] \<and>
   out_confidenceScore (projr (fst (runPipeline env_vat db_empty (ctx_of invoice_complete) 0)))
     = 6 / 10"
proof -
  have n: "detectDuplicate (numToString env_vat) db_empty (ctx_extracted (ctx_of invoice_complete))
      = NotDuplicate"
    by (rule detect_empty)
  obtain out where r: "fst (runPipeline env_vat db_empty (ctx_of invoice_complete) 0) = Inr out"
    and c: "out_proposedCorrections out = []"
    by (rule vat_example_output)
  from score_without_corrections [OF n r c] have "out_confidenceScore out = 6 / 10"
    by (simp add: vat_example_checked vat_example_shaped_empty)
  with r c show ?thesis by simp
qed

lemma label_fields [simp]:
  "fieldsOf (ctx_of invoice_label) = Some (fields_complete\<lparr>f_serviceDate := JNull\<rparr>)"
  "rawTextOf (ctx_of invoice_label) = ''Leistungsdatum: 05.03.2024''"
  "lineItemsOf (ctx_of invoice_label) = []"
  "ex_vendor invoice_label = ''Supplier GmbH''"
  "ex_invoiceId invoice_label = ''INV-E''"
  by (simp_all add: fieldsOf_def rawTextOf_def lineItemsOf_def invoice_label_def
      invoice_complete_def fields_complete_def)

lemma label_example_steps:
  "applyPoInference env_label (ctx_of invoice_label) 0 [] st = st"
  "applyVatTotals env_label (ctx_of invoice_label) 0 [] st = st"
  "applyQuantities env_label (ctx_of invoice_label) 0 st = st"
  "applyCurrency env_label (ctx_of invoice_label) 0 [] st = st"
  "applyFreight env_label (ctx_of invoice_label) 0 [] st = st"
  by (simp_all add: applyPoInference_def applyVatTotals_def applyQuantities_def
      applyCurrency_def applyFreight_def Let_def isVatInclusiveText_def env_label_def env0_def
      fieldOf_def fields_complete_def)

lemma label_example_service:
  "map pc_confidence
     (st_proposedCorrections
        (applyServiceDate env_label (ctx_of invoice_label) 0 []
           (recallPhase env_label db_empty (ctx_of invoice_label) 0))) = [55 / 100]"
  by (simp add: applyServiceDate_def Let_def extractLeistungsdatum_def env_label_def env0_def
      fieldOf_def fields_complete_def proposeFromText_def canApplyVendorMem_def decayIfUsed_def
      applyResolutionMemoryToConfidence_def)

lemma label_example_corrections:
  "map pc_confidence
     (st_proposedCorrections
        (applyPhase env_label (ctx_of invoice_label) 0 []
           (recallPhase env_label db_empty (ctx_of invoice_label) 0))) = [55 / 100]"
  by (simp add: applyPhase_def Let_def label_example_steps label_example_service)

theorem reported_confidence_witness:
  "detectDuplicate (numToString env_label) db_empty (ctx_extracted (ctx_of invoice_label))
     = NotDuplicate \<and>
   (\<forall>row. findDecision (ctx_of invoice_label) \<noteq> Some (row, Rejected)) \<and>
   (\<exists>out. fst (runPipeline env_label db_empty (ctx_of invoice_label) 0) = Inr out \<and>
      map pc_confidence (out_proposedCorrections out) = [55 / 100] \<and>
      out_confidenceScore out = 55 / 100) \<and>
   detectDuplicate (numToString env_vat) db_empty (ctx_extracted (ctx_of invoice_complete))
     = NotDuplicate \<and>
   vatTotalsChecked env_vat (ctx_of invoice_complete) \<and>
   (\<exists>out. fst (runPipeline env_vat db_empty (ctx_of invoice_complete) 0) = Inr out \<and>
      out_proposedCorrections out = [] \<and>
      out_confidenceScore out =
        max (25 / 100)
          (min (85 / 100)
             (fst (vatShaped env_vat db_empty (ctx_of invoice_complete) 0
                     (getVendorMemories db_empty (ctx_vendor (ctx_of invoice_complete)))))))"
proof -
  have n: "detectDuplicate (numToString env_label) db_empty (ctx_extracted (ctx_of invoice_label))
      = NotDuplicate"
    by (rule detect_empty)
  have f: "\<forall>row. findDecision (ctx_of invoice_label) \<noteq> Some (row, Rejected)" by simp
  note t = reported_confidence [OF n, of 0]
  from t f obtain out where
    r: "fst (runPipeline env_label db_empty (ctx_of invoice_label) 0) = Inr out"
    by blast
  have c: "map pc_confidence (out_proposedCorrections out) = [55 / 100]"
    using main_output(2) [OF n r] by (simp add: label_example_corrections)
  then have ne: "out_proposedCorrections out \<noteq> []" by auto
  have rd: "round2 env_label (55 / 100) = 55 / 100"
    by (simp add: env_label_def env0_def roundCents_def mathRound_def)
  from t r ne have
    "out_confidenceScore out =
       round2 env_label (Min (set (map pc_confidence (out_proposedCorrections out))))"
    by blast
  with c rd have s: "out_confidenceScore out = 55 / 100" by simp
  have n2: "detectDuplicate (numToString env_vat) db_empty (ctx_extracted (ctx_of invoice_complete))
      = NotDuplicate"
    by (rule detect_empty)
  note t2 = reported_confidence [OF n2, of 0]
  obtain out2 where
    r2: "fst (runPipeline env_vat db_empty (ctx_of invoice_complete) 0) = Inr out2"
    and c2: "out_proposedCorrections out2 = []"
    by (rule vat_example_output)
  from t2 r2 c2 vat_example_checked have
    "out_confidenceScore out2 =
        max (25 / 100)
          (min (85 / 100)
             (fst (vatShaped env_vat db_empty (ctx_of invoice_complete) 0
                     (getVendorMemories db_empty (ctx_vendor (ctx_of invoice_complete))))))"
    by simp
  with r2 c2 have e2: "\<exists>out. fst (runPipeline env_vat db_empty (ctx_of invoice_complete) 0) = Inr out \<and>
      out_proposedCorrections out = [] \<and>
      out_confidenceScore out =
        max (25 / 100)
          (min (85 / 100)
             (fst (vatShaped env_vat db_empty (ctx_of invoice_complete) 0
                     (getVendorMemories db_empty (ctx_vendor (ctx_of invoice_complete))))))"
    by (intro exI [of _ out2] conjI)
  from r c s have e1: "\<exists>out. fst (runPipeline env_label db_empty (ctx_of invoice_label) 0) = Inr out \<and>
      map pc_confidence (out_proposedCorrections out) = [55 / 100] \<and>
      out_confidenceScore out = 55 / 100"
    by (intro exI [of _ out] conjI)
  show ?thesis by (intro conjI) (rule n f e1 n2 vat_example_checked e2)+
qed

section \<open>The Learn phase: what it may change\<close>

lemma markRejected_simps [simp]:
  "vendor_memory (markRejected w d i) = vendor_memory d"
  "resolution_memory (markRejected w d i) = resolution_memory d"
  "learning_events (markRejected w d i) = learning_events d"
  by (simp_all add: markRejected_def)

lemma markLearned_simps [simp]:
  "vendor_memory (markLearned w d i) = vendor_memory d"
  "correction_memory (markLearned w d i) = correction_memory d"
  "resolution_memory (markLearned w d i) = resolution_memory d"
  "hasLearned (markLearned w d i) i"
  by (simp_all add: markLearned_def hasLearned_def)

lemma hasLearned_logAuditEvent [simp]: "hasLearned (logAuditEvent d ev) i = hasLearned d i"
  by (simp add: hasLearned_def)

lemma upsertResolution_vendor [simp]:
  "vendor_memory (fst (upsertResolution w d v k p)) = vendor_memory d"
  by (simp add: upsertResolution_def Let_def)

lemma recordResolutionDecision_vendor [simp]:
  "vendor_memory (fst (recordResolutionDecision w d v k dec i)) = vendor_memory d"
  by (simp add: recordResolutionDecision_def Let_def case_prod_beta)

lemma upsertCorrectionMemory_vendor [simp]:
  "vendor_memory (fst (upsertCorrectionMemory d row)) = vendor_memory d"
  by (simp add: upsertCorrectionMemory_def Let_def split: option.splits)

lemma learnResolution_vendor [simp]:
  "vendor_memory (ls_db (learnResolution E now v i dec ls k)) = vendor_memory (ls_db ls)"
  by (simp add: learnResolution_def Let_def case_prod_beta)

lemma learnQtyFix_vendor [simp]:
  "vendor_memory (ls_db (learnQtyFix E now v ls fix)) = vendor_memory (ls_db ls)"
  by (simp add: learnQtyFix_def Let_def case_prod_beta split: option.splits)

lemma foldl_vendor:
  assumes "\<And>ls x. vendor_memory (ls_db (f ls x)) = vendor_memory (ls_db ls)"
  shows "vendor_memory (ls_db (foldl f ls xs)) = vendor_memory (ls_db ls)"
  by (induction xs arbitrary: ls) (simp_all add: assms)

lemma vm_kept_refl [simp]: "vm_kept_or_active d d"
  by (simp add: vm_kept_or_active_def)

lemma vm_kept_same: "vendor_memory d' = vendor_memory d \<Longrightarrow> vm_kept_or_active d d'"
  by (simp add: vm_kept_or_active_def)

lemma vm_kept_trans:
  assumes "vm_kept_or_active a b" and "vm_kept_or_active b c"
  shows "vm_kept_or_active a c"
proof -
  from assms have "prefix (map vm_key (vendor_memory a)) (map vm_key (vendor_memory c))"
    unfolding vm_kept_or_active_def by (meson prefix_order.trans)
  moreover from assms
  have "\<forall>r' \<in> set (vendor_memory c). r' \<in> set (vendor_memory a) \<or> vm_status r' = Active"
    unfolding vm_kept_or_active_def by blast
  ultimately show ?thesis by (simp add: vm_kept_or_active_def)
qed

lemma upsertVendorMemory_keys:
  "prefix (map vm_key (vendor_memory d)) (map vm_key (vendor_memory (upsertVendorMemory d mem)))"
proof (cases "\<exists>r \<in> set (vendor_memory d). vm_id r = vm_id mem")
  case True
  let ?f = "\<lambda>r. if vm_id r = vm_id mem then mem\<lparr>vm_disabledAt := vm_disabledAt r\<rparr> else r"
  have e: "map vm_key (map ?f xs) = map vm_key xs" for xs
    by (induction xs) (simp_all add: vm_key_def)
  from True have u: "vendor_memory (upsertVendorMemory d mem) = map ?f (vendor_memory d)"
    by (simp add: upsertVendorMemory_def)
  show ?thesis unfolding u e by (rule prefix_order.refl)
next
  case False
  then show ?thesis by (simp add: upsertVendorMemory_def)
qed

lemma upsertVendorMemory_kept:
  assumes "vm_status mem = Active"
  shows "vm_kept_or_active d (upsertVendorMemory d mem)"
proof -
  from assms
  have "\<forall>r' \<in> set (vendor_memory (upsertVendorMemory d mem)).
          r' \<in> set (vendor_memory d) \<or> vm_status r' = Active"
    by (auto simp: upsertVendorMemory_def)
  with upsertVendorMemory_keys show ?thesis by (simp add: vm_kept_or_active_def)
qed

lemma learnVendorMemory_kept:
  "vm_kept_or_active (ls_db ls) (ls_db (learnVendorMemory E now v vm k p n ls))"
  by (simp add: learnVendorMemory_def Let_def upsertVendorMemory_kept)

lemma vm_kept_if:
  "vm_kept_or_active d (ls_db (a::learn_state)) \<Longrightarrow> vm_kept_or_active d (ls_db b) \<Longrightarrow>
   vm_kept_or_active d (ls_db (if c then a else b))"
  by simp

lemma learnApproved_kept:
  "vm_kept_or_active (ls_db ls) (ls_db (learnApproved E ctx now vm row ls))"
proof -
  have step: "\<And>c k p n (a::learn_state). vm_kept_or_active (ls_db ls) (ls_db a) \<Longrightarrow>
      vm_kept_or_active (ls_db ls)
        (ls_db (if c then learnVendorMemory E now (ctx_vendor ctx) vm k p n a else a))"
    using learnVendorMemory_kept vm_kept_trans by (intro vm_kept_if) blast+
  have qty: "\<And>(a::learn_state) xs. vm_kept_or_active (ls_db ls) (ls_db a) \<Longrightarrow>
      vm_kept_or_active (ls_db ls) (ls_db (foldl (learnQtyFix E now (ctx_vendor ctx)) a xs))"
  proof -
    fix a :: learn_state and xs
    assume k: "vm_kept_or_active (ls_db ls) (ls_db a)"
    have "vendor_memory (ls_db (foldl (learnQtyFix E now (ctx_vendor ctx)) a xs))
        = vendor_memory (ls_db a)"
      by (rule foldl_vendor) simp
    then have "vm_kept_or_active (ls_db a)
        (ls_db (foldl (learnQtyFix E now (ctx_vendor ctx)) a xs))"
      by (rule vm_kept_same)
    with k show "vm_kept_or_active (ls_db ls)
        (ls_db (foldl (learnQtyFix E now (ctx_vendor ctx)) a xs))"
      by (rule vm_kept_trans)
  qed
  show ?thesis
    unfolding learnApproved_def Let_def
    by (intro step qty vm_kept_refl)
qed

lemma learnDecision_vendor:
  "vendor_memory (ls_db (learnDecision E ctx now vm keys row verdict ls)) =
     vendor_memory
       (ls_db (if verdict = Approved then learnApproved E ctx now vm row ls else ls))"
proof -
  let ?l2 = "if verdict = Approved then learnApproved E ctx now vm row ls else ls"
  have "vendor_memory
      (ls_db (foldl (learnResolution E now (ctx_vendor ctx) (ex_invoiceId (ctx_extracted ctx))
                       verdict) ?l2 keys)) = vendor_memory (ls_db ?l2)"
    by (rule foldl_vendor) simp
  then show ?thesis by (simp add: learnDecision_def Let_def)
qed

lemma learnDecision_kept:
  "vm_kept_or_active (ls_db ls) (ls_db (learnDecision E ctx now vm keys row verdict ls))"
proof -
  have "vm_kept_or_active (ls_db ls)
      (ls_db (if verdict = Approved then learnApproved E ctx now vm row ls else ls))"
    by (simp add: learnApproved_kept)
  then show ?thesis
    by (simp add: vm_kept_or_active_def learnDecision_vendor)
qed

lemma learnDecision_marks:
  "hasLearned (ls_db (learnDecision E ctx now vm keys row verdict ls))
     (ex_invoiceId (ctx_extracted ctx))"
  by (simp add: learnDecision_def Let_def)

text \<open>The store a Learn phase leaves, returned or thrown.\<close>

lemma learnPhase_kept:
  "vm_kept_or_active (ls_db ls) (case_sum snd ls_db (learnPhase E ctx now vm keys ids ls))"
  by (cases rule: learnPhase_cases [of ls ctx E now vm keys ids])
    (simp_all add: learnDecision_kept vm_kept_same)

lemma learnPhase_vendor_unchanged:
  assumes "hasLearned (ls_db ls) (ex_invoiceId (ctx_extracted ctx)) \<or>
           (\<forall>row. findDecision ctx \<noteq> Some (row, Approved))"
  shows "vendor_memory (case_sum snd ls_db (learnPhase E ctx now vm keys ids ls)) =
     vendor_memory (ls_db ls)"
proof (cases rule: learnPhase_cases [of ls ctx E now vm keys ids])
  case (decided row verdict)
  with assms have "verdict = Rejected" by (cases verdict) auto
  with decided show ?thesis by (simp add: learnDecision_vendor)
qed simp_all

lemma learnPhase_marks:
  assumes "findDecision ctx \<noteq> None"
    and "learnPhase E ctx now vm keys ids ls = Inr ls'"
  shows "hasLearned (ls_db ls') (ex_invoiceId (ctx_extracted ctx))"
  using assms
  by (cases rule: learnPhase_cases [of ls ctx E now vm keys ids])
    (auto simp add: learnDecision_marks)

section \<open>What a run leaves in the store\<close>

lemma detect_no_history:
  "invoice_runs d = [] \<Longrightarrow> duplicate_records d = [] \<Longrightarrow> detectDuplicate nts d ex = NotDuplicate"
  by (simp add: detectDuplicate_def Let_def selectOriginalRun_def selectAnyRun_def
      selectPriorFingerprint_def)

lemma main_learned:
  assumes "detectDuplicate (numToString E) d (ctx_extracted ctx) = NotDuplicate"
    and "hasLearned d (ex_invoiceId (ctx_extracted ctx))"
  shows "snd (runPipeline E d ctx now) =
       st_db (applyPhase E ctx now (getVendorMemories d (ctx_vendor ctx)) (recallPhase E d ctx now))"
    and "\<exists>out. fst (runPipeline E d ctx now) = Inr out \<and>
       out_memoryUpdates out = [] \<and>
       out_auditTrail out \<noteq> [] \<and>
       last (out_auditTrail out) =
         \<lparr>at_step = ''learn'', at_timestamp = toISOString E now,
          at_details = ''Skipped learning: invoiceId '' @ ex_invoiceId (ctx_extracted ctx) @
                       '' already learned.''\<rparr>"
proof -
  let ?st = "applyPhase E ctx now (getVendorMemories d (ctx_vendor ctx)) (recallPhase E d ctx now)"
  let ?keys = "st_usedResolutionKeys ?st"
  let ?ids = "st_usedCorrectionMemoryIds ?st"
  from assms(1) obtain ls0 where
    d: "ls_db ls0 = st_db ?st" and m: "ls_memoryUpdates ls0 = []"
    and s: "snd (runPipeline E d ctx now) =
       case_sum snd ls_db
         (learnPhase E ctx now (getVendorMemories d (ctx_vendor ctx)) ?keys ?ids ls0)"
    and f: "map_sum id (\<lambda>out. (out_memoryUpdates out, out_auditTrail out))
         (fst (runPipeline E d ctx now)) =
       map_sum fst (\<lambda>ls. (ls_memoryUpdates ls, ls_auditTrail ls))
         (learnPhase E ctx now (getVendorMemories d (ctx_vendor ctx)) ?keys ?ids ls0)"
    by (rule main_learn)
  have h: "hasLearned (ls_db ls0) (ex_invoiceId (ctx_extracted ctx))"
    using assms(2) d apply_frame_hasLearned [OF main_frame] by simp
  note l = learnPhase_learned [OF h, of E now "getVendorMemories d (ctx_vendor ctx)" ?keys ?ids]
  from s d show "snd (runPipeline E d ctx now) = st_db ?st" by (simp add: l)
  from f m have "map_sum id (\<lambda>out. (out_memoryUpdates out, out_auditTrail out))
         (fst (runPipeline E d ctx now)) =
       Inr ([], ls_auditTrail ls0 @
         [\<lparr>at_step = ''learn'', at_timestamp = toISOString E now,
           at_details = ''Skipped learning: invoiceId '' @ ex_invoiceId (ctx_extracted ctx) @
                        '' already learned.''\<rparr>])"
    by (simp add: l)
  then show "\<exists>out. fst (runPipeline E d ctx now) = Inr out \<and>
       out_memoryUpdates out = [] \<and>
       out_auditTrail out \<noteq> [] \<and>
       last (out_auditTrail out) =
         \<lparr>at_step = ''learn'', at_timestamp = toISOString E now,
          at_details = ''Skipped learning: invoiceId '' @ ex_invoiceId (ctx_extracted ctx) @
                       '' already learned.''\<rparr>"
    by (cases "fst (runPipeline E d ctx now)") auto
qed

lemma main_marks_learned:
  assumes "detectDuplicate (numToString E) d (ctx_extracted ctx) = NotDuplicate"
    and "findDecision ctx = Some (row, Approved)"
  shows "hasLearned (snd (runPipeline E d ctx now)) (ex_invoiceId (ctx_extracted ctx))"
proof -
  let ?st = "applyPhase E ctx now (getVendorMemories d (ctx_vendor ctx)) (recallPhase E d ctx now)"
  let ?keys = "st_usedResolutionKeys ?st"
  let ?ids = "st_usedCorrectionMemoryIds ?st"
  from assms(1) obtain ls0 where
    s: "snd (runPipeline E d ctx now) =
       case_sum snd ls_db
         (learnPhase E ctx now (getVendorMemories d (ctx_vendor ctx)) ?keys ?ids ls0)"
    by (rule main_learn)
  have "\<forall>r. findDecision ctx \<noteq> Some (r, Rejected)" using assms(2) by simp
  then obtain ls' where
    l: "learnPhase E ctx now (getVendorMemories d (ctx_vendor ctx)) ?keys ?ids ls0 = Inr ls'"
    using learnPhase_returns by blast
  from assms(2) have "findDecision ctx \<noteq> None" by simp
  from learnPhase_marks [OF this l] s l show ?thesis by simp
qed

lemma run_vendor_unchanged:
  assumes "detectDuplicate (numToString E) d (ctx_extracted ctx) \<noteq> NotDuplicate \<or>
           hasLearned d (ex_invoiceId (ctx_extracted ctx)) \<or>
           (\<forall>row. findDecision ctx \<noteq> Some (row, Approved))"
  shows "vendor_memory (snd (runPipeline E d ctx now)) = vendor_memory d"
proof (cases "detectDuplicate (numToString E) d (ctx_extracted ctx)")
  case NotDuplicate
  let ?st = "applyPhase E ctx now (getVendorMemories d (ctx_vendor ctx)) (recallPhase E d ctx now)"
  let ?keys = "st_usedResolutionKeys ?st"
  let ?ids = "st_usedCorrectionMemoryIds ?st"
  from NotDuplicate obtain ls0 where
    d: "ls_db ls0 = st_db ?st"
    and s: "snd (runPipeline E d ctx now) =
       case_sum snd ls_db
         (learnPhase E ctx now (getVendorMemories d (ctx_vendor ctx)) ?keys ?ids ls0)"
    by (rule main_learn)
  have v: "vendor_memory (st_db ?st) = vendor_memory d"
    by (rule apply_frame_fields(1) [OF main_frame])
  have "hasLearned (ls_db ls0) (ex_invoiceId (ctx_extracted ctx)) \<or>
        (\<forall>row. findDecision ctx \<noteq> Some (row, Approved))"
    using assms NotDuplicate d apply_frame_hasLearned [OF main_frame] by simp
  from learnPhase_vendor_unchanged [OF this] s d v show ?thesis by simp
next
  case (IsDuplicate dupOf reason fp)
  then show ?thesis by (rule duplicate_store(1))
qed

lemma run_vendor_kept: "vm_kept_or_active d (snd (runPipeline E d ctx now))"
proof (cases "detectDuplicate (numToString E) d (ctx_extracted ctx)")
  case NotDuplicate
  let ?st = "applyPhase E ctx now (getVendorMemories d (ctx_vendor ctx)) (recallPhase E d ctx now)"
  let ?keys = "st_usedResolutionKeys ?st"
  let ?ids = "st_usedCorrectionMemoryIds ?st"
  from NotDuplicate obtain ls0 where
    d: "ls_db ls0 = st_db ?st"
    and s: "snd (runPipeline E d ctx now) =
       case_sum snd ls_db
         (learnPhase E ctx now (getVendorMemories d (ctx_vendor ctx)) ?keys ?ids ls0)"
    by (rule main_learn)
  have "vm_kept_or_active d (st_db ?st)"
    by (rule vm_kept_same) (rule apply_frame_fields(1) [OF main_frame])
  moreover have "vm_kept_or_active (st_db ?st) (snd (runPipeline E d ctx now))"
    using learnPhase_kept [of ls0 E ctx now "getVendorMemories d (ctx_vendor ctx)" ?keys ?ids]
    by (simp add: s d)
  ultimately show ?thesis by (rule vm_kept_trans)
next
  case (IsDuplicate dupOf reason fp)
  then show ?thesis by (intro vm_kept_same duplicate_store(1))
qed

lemma reset_keeps_status:
  "map vm_status (vendor_memory (resetVendorMemoryConfidence w d i c)) =
     map vm_status (vendor_memory d)"
proof -
  have "map vm_status
      (map (\<lambda>r. if vm_id r = i then r\<lparr>vm_confidence := c, vm_rejectCount := 0\<rparr> else r) xs) =
      map vm_status xs" for xs
    by (induction xs) simp_all
  then show ?thesis unfolding resetVendorMemoryConfidence_def logAuditEvent_frame
    by (simp del: map_map)
qed

lemma disable_sets_status:
  assumes "r \<in> set (vendor_memory (disableVendorMemory w d i))" and "vm_id r = i"
  shows "vm_status r = Disabled \<and> vm_disabledAt r = Some w"
proof -
  from assms(1) have "r \<in> set (map (\<lambda>r. if vm_id r = i
                      then r\<lparr>vm_status := Disabled, vm_disabledAt := Some w\<rparr> else r)
             (vendor_memory d))"
    unfolding disableVendorMemory_def logAuditEvent_frame by simp
  then obtain r0 where "r = (if vm_id r0 = i
      then r0\<lparr>vm_status := Disabled, vm_disabledAt := Some w\<rparr> else r0)"
    unfolding set_map by (rule imageE)
  with assms(2) show ?thesis by (cases "vm_id r0 = i") simp_all
qed

section \<open>Learning an invoice once\<close>

lemma learned_frame:
  assumes "hasLearned d (ex_invoiceId (ctx_extracted ctx))"
  shows "vendor_memory (snd (runPipeline E d ctx now)) = vendor_memory d \<and>
     resolution_memory (snd (runPipeline E d ctx now)) = resolution_memory d \<and>
     learning_events (snd (runPipeline E d ctx now)) = learning_events d \<and>
     list_all2 (cm_touched (wallClock E)) (correction_memory d)
       (correction_memory (snd (runPipeline E d ctx now))) \<and>
     (\<exists>out. fst (runPipeline E d ctx now) = Inr out \<and> out_memoryUpdates out = [])"
proof (cases "detectDuplicate (numToString E) d (ctx_extracted ctx)")
  case NotDuplicate
  from main_learned(2) [OF NotDuplicate assms, of now]
  have "\<exists>out. fst (runPipeline E d ctx now) = Inr out \<and> out_memoryUpdates out = []"
    by blast
  with main_learned(1) [OF NotDuplicate assms]
    apply_frame_fields [OF main_frame [of E d ctx now "getVendorMemories d (ctx_vendor ctx)"]]
  show ?thesis by simp
next
  case (IsDuplicate dupOf reason fp)
  from duplicate_store [OF IsDuplicate] show ?thesis
    by (simp add: list_all2_same cm_touched_refl)
qed

text \<open>
  Claim C5 (amended). A run for an invoice id that has already been learned returns,
  leaves vendor memory, resolution memory and the learning events unchanged and reports
  no memory update; when it is not a duplicate, its audit trail ends with the entry that
  records the skip. In the correction memory it changes nothing but the
  \<^verbatim>\<open>lastUsedAt\<close> stamp of entries, which the Apply phase sets on the entries it uses. A run
  that is not a duplicate and carries an approved verdict leaves the invoice learned, so a
  second run on the store it leaves changes no more than that.
\<close>

theorem learned_invoice_is_not_relearned:
  "(hasLearned d (ex_invoiceId (ctx_extracted ctx)) \<longrightarrow>
      vendor_memory (snd (runPipeline E d ctx now)) = vendor_memory d \<and>
      resolution_memory (snd (runPipeline E d ctx now)) = resolution_memory d \<and>
      learning_events (snd (runPipeline E d ctx now)) = learning_events d \<and>
      list_all2 (cm_touched (wallClock E)) (correction_memory d)
        (correction_memory (snd (runPipeline E d ctx now))) \<and>
      (\<exists>out. fst (runPipeline E d ctx now) = Inr out \<and> out_memoryUpdates out = [] \<and>
         (detectDuplicate (numToString E) d (ctx_extracted ctx) = NotDuplicate \<longrightarrow>
            out_auditTrail out \<noteq> [] \<and>
            last (out_auditTrail out) =
              \<lparr>at_step = ''learn'', at_timestamp = toISOString E now,
               at_details = ''Skipped learning: invoiceId '' @ ex_invoiceId (ctx_extracted ctx) @
                            '' already learned.''\<rparr>))) \<and>
   (detectDuplicate (numToString E) d (ctx_extracted ctx) = NotDuplicate \<and>
    findDecision ctx = Some (row, Approved) \<longrightarrow>
      hasLearned (snd (runPipeline E d ctx now)) (ex_invoiceId (ctx_extracted ctx)) \<and>
      vendor_memory (snd (runPipeline E2 (snd (runPipeline E d ctx now)) ctx now2)) =
        vendor_memory (snd (runPipeline E d ctx now)) \<and>
      resolution_memory (snd (runPipeline E2 (snd (runPipeline E d ctx now)) ctx now2)) =
        resolution_memory (snd (runPipeline E d ctx now)) \<and>
      learning_events (snd (runPipeline E2 (snd (runPipeline E d ctx now)) ctx now2)) =
        learning_events (snd (runPipeline E d ctx now)) \<and>
      list_all2 (cm_touched (wallClock E2)) (correction_memory (snd (runPipeline E d ctx now)))
        (correction_memory (snd (runPipeline E2 (snd (runPipeline E d ctx now)) ctx now2))) \<and>
      (\<exists>out. fst (runPipeline E2 (snd (runPipeline E d ctx now)) ctx now2) = Inr out \<and>
         out_memoryUpdates out = []))"
proof -
  have a: "hasLearned d (ex_invoiceId (ctx_extracted ctx)) \<longrightarrow>
      vendor_memory (snd (runPipeline E d ctx now)) = vendor_memory d \<and>
      resolution_memory (snd (runPipeline E d ctx now)) = resolution_memory d \<and>
      learning_events (snd (runPipeline E d ctx now)) = learning_events d \<and>
      list_all2 (cm_touched (wallClock E)) (correction_memory d)
        (correction_memory (snd (runPipeline E d ctx now)))"
    using learned_frame by blast
  have b: "\<exists>out. fst (runPipeline E d ctx now) = Inr out \<and> out_memoryUpdates out = [] \<and>
         (detectDuplicate (numToString E) d (ctx_extracted ctx) = NotDuplicate \<longrightarrow>
            out_auditTrail out \<noteq> [] \<and>
            last (out_auditTrail out) =
              \<lparr>at_step = ''learn'', at_timestamp = toISOString E now,
               at_details = ''Skipped learning: invoiceId '' @ ex_invoiceId (ctx_extracted ctx) @
                            '' already learned.''\<rparr>)"
    if h: "hasLearned d (ex_invoiceId (ctx_extracted ctx))"
  proof (cases "detectDuplicate (numToString E) d (ctx_extracted ctx) = NotDuplicate")
    case True
    from main_learned(2) [OF True h, of now] show ?thesis by blast
  next
    case False
    with learned_frame [OF h, of E now] show ?thesis by blast
  qed
  have c: "detectDuplicate (numToString E) d (ctx_extracted ctx) = NotDuplicate \<and>
    findDecision ctx = Some (row, Approved) \<longrightarrow>
      hasLearned (snd (runPipeline E d ctx now)) (ex_invoiceId (ctx_extracted ctx))"
    using main_marks_learned by blast
  have e: "hasLearned (snd (runPipeline E d ctx now)) (ex_invoiceId (ctx_extracted ctx)) \<longrightarrow>
      vendor_memory (snd (runPipeline E2 (snd (runPipeline E d ctx now)) ctx now2)) =
        vendor_memory (snd (runPipeline E d ctx now)) \<and>
      resolution_memory (snd (runPipeline E2 (snd (runPipeline E d ctx now)) ctx now2)) =
        resolution_memory (snd (runPipeline E d ctx now)) \<and>
      learning_events (snd (runPipeline E2 (snd (runPipeline E d ctx now)) ctx now2)) =
        learning_events (snd (runPipeline E d ctx now)) \<and>
      list_all2 (cm_touched (wallClock E2)) (correction_memory (snd (runPipeline E d ctx now)))
        (correction_memory (snd (runPipeline E2 (snd (runPipeline E d ctx now)) ctx now2))) \<and>
      (\<exists>out. fst (runPipeline E2 (snd (runPipeline E d ctx now)) ctx now2) = Inr out \<and>
         out_memoryUpdates out = [])"
    using learned_frame by blast
  from a b c e show ?thesis by blast
qed

lemma qty_fields [simp]:
  "fieldsOf ctx_qty =
     Some (fields_complete
             \<lparr>f_lineItems :=
                Some [\<lparr>li_sku = Some ''SKU-1'', li_qty = JNumber (Fin 10),
                       li_description = Some ''Widget''\<rparr>]\<rparr>)"
  "rawTextOf ctx_qty = ''Lieferung''"
  "lineItemsOf ctx_qty =
     [\<lparr>li_sku = Some ''SKU-1'', li_qty = JNumber (Fin 10), li_description = Some ''Widget''\<rparr>]"
  "ctx_vendor ctx_qty = ''Supplier GmbH''"
  "ex_invoiceId (ctx_extracted ctx_qty) = ''INV-F''"
  "ctx_reference ctx_qty =
     Some \<lparr>ref_purchaseOrders = None,
           ref_deliveryNotes =
             Some [\<lparr>dn_vendor = ''Supplier GmbH'', dn_poNumber = JString ''PO-77'',
                    dn_lineItems =
                      Some [\<lparr>dl_sku = Some ''SKU-1'',
                             dl_qtyDelivered = JNumber (Fin 8)\<rparr>]\<rparr>]\<rparr>"
  by (simp_all add: fieldsOf_def rawTextOf_def lineItemsOf_def ctx_qty_def invoice_qty_def
      invoice_complete_def fields_complete_def)

lemma qty_example_steps:
  "applyServiceDate env0 ctx_qty 0 [] st = st"
  "applyPoInference env0 ctx_qty 0 [] st = st"
  "applyVatTotals env0 ctx_qty 0 [] st = st"
  "applyCurrency env0 ctx_qty 0 [] st = st"
  "applyFreight env0 ctx_qty 0 [] st = st"
  by (simp_all add: applyServiceDate_def applyPoInference_def applyVatTotals_def
      applyCurrency_def applyFreight_def Let_def extractLeistungsdatum_def
      isVatInclusiveText_def env0_def fieldOf_def fields_complete_def)

lemma qty_example_candidate:
  "qtyCandidate ctx_qty
     \<lparr>li_sku = Some ''SKU-1'', li_qty = JNumber (Fin 10), li_description = Some ''Widget''\<rparr>
   = Some (''SKU-1'', 10, 8)"
  by (simp add: qtyCandidate_def findMatchingDeliveryQty_def Let_def fieldOf_def
      fields_complete_def)

lemma qty_example_usable:
  "usableCorrectionMemory env0 db_learned ''Supplier GmbH'' ''qty_to_delivery_note''
     (findCorrectionMemory db_learned ''Supplier GmbH'' ''lineItems[].qty'' ''sku'' ''SKU-1'') 0
   = Some cm_qty"
  by (simp add: usableCorrectionMemory_def findCorrectionMemory_def db_learned_def db_empty_def
      cm_qty_def cm_example_def getResolution_def isSuspectCorrectionMemory_def
      cm_lastTouched_def env0_def daysSince_epoch decay_zero_days clamp01_def)

lemma qty_example_store:
  "st_db st = db_learned \<Longrightarrow>
   st_db (applyQuantities env0 ctx_qty 0 st) = markUsed (wallClock env0) db_learned (cm_id cm_qty)"
  by (simp add: applyQuantities_def qtyStep_def qty_example_candidate qtyPropose_def Let_def
      qty_example_usable)

text \<open>
  Claim C5 as stated fails: the second run for a learned invoice whose quantity is
  corrected from a correction-memory entry stamps that entry as used, so the correction
  memory is not unchanged.
\<close>

theorem second_run_stamps_correction_memory:
  "hasLearned db_learned (ex_invoiceId (ctx_extracted ctx_qty)) \<and>
   map cm_lastUsedAt (correction_memory db_learned) = [Some ''1970-01-01T00:00:00.000Z''] \<and>
   map cm_lastUsedAt (correction_memory (snd (runPipeline env0 db_learned ctx_qty 0)))
     = [Some ''1970-01-01T00:00:01.000Z'']"
proof -
  have h: "hasLearned db_learned (ex_invoiceId (ctx_extracted ctx_qty))"
    by (simp add: hasLearned_def db_learned_def)
  have n: "detectDuplicate (numToString env0) db_learned (ctx_extracted ctx_qty) = NotDuplicate"
    by (rule detect_no_history) (simp_all add: db_learned_def db_empty_def)
  have v: "getVendorMemories db_learned ''Supplier GmbH'' = []"
    by (simp add: getVendorMemories_def db_learned_def db_empty_def)
  have "snd (runPipeline env0 db_learned ctx_qty 0) =
      markUsed (wallClock env0) db_learned (cm_id cm_qty)"
    using main_learned(1) [OF n h, of 0]
    by (simp add: v applyPhase_def Let_def qty_example_steps qty_example_store)
  then have "map cm_lastUsedAt (correction_memory (snd (runPipeline env0 db_learned ctx_qty 0)))
     = [Some ''1970-01-01T00:00:01.000Z'']"
    by (simp add: markUsed_def db_learned_def env0_def)
  moreover have "map cm_lastUsedAt (correction_memory db_learned) = [Some ''1970-01-01T00:00:00.000Z'']"
    by (simp add: db_learned_def cm_qty_def cm_example_def)
  ultimately show ?thesis using h by simp
qed

lemma approved_example:
  "findDecision ctx_approved = Some (row_approved, Approved)"
  "ctx_vendor ctx_approved = ''Supplier GmbH''"
  "ctx_extracted ctx_approved = invoice_label"
  "fieldsOf ctx_approved = fieldsOf (ctx_of invoice_label)"
  "rawTextOf ctx_approved = rawTextOf (ctx_of invoice_label)"
  "lineItemsOf ctx_approved = lineItemsOf (ctx_of invoice_label)"
  by (simp_all add: findDecision_def ctx_approved_def row_approved_def fieldsOf_def
      rawTextOf_def lineItemsOf_def)

theorem learned_invoice_is_not_relearned_witness:
  "hasLearned db_learned (ex_invoiceId (ctx_extracted ctx_qty)) \<and>
   detectDuplicate (numToString env0) db_learned (ctx_extracted ctx_qty) = NotDuplicate \<and>
   learning_events (snd (runPipeline env0 db_learned ctx_qty 0)) = learning_events db_learned \<and>
   vendor_memory (snd (runPipeline env0 db_learned ctx_qty 0)) = vendor_memory db_learned \<and>
   (\<exists>out. fst (runPipeline env0 db_learned ctx_qty 0) = Inr out \<and> out_memoryUpdates out = [] \<and>
      last (out_auditTrail out) =
        \<lparr>at_step = ''learn'', at_timestamp = toISOString env0 0,
         at_details = ''Skipped learning: invoiceId '' @ ''INV-F'' @ '' already learned.''\<rparr>) \<and>
   detectDuplicate (numToString env_label) db_empty (ctx_extracted ctx_approved) = NotDuplicate \<and>
   findDecision ctx_approved = Some (row_approved, Approved) \<and>
   hasLearned (snd (runPipeline env_label db_empty ctx_approved 0))
     (ex_invoiceId (ctx_extracted ctx_approved)) \<and>
   learning_events
     (snd (runPipeline env_label (snd (runPipeline env_label db_empty ctx_approved 0))
             ctx_approved 1)) =
     learning_events (snd (runPipeline env_label db_empty ctx_approved 0)) \<and>
   vendor_memory
     (snd (runPipeline env_label (snd (runPipeline env_label db_empty ctx_approved 0))
             ctx_approved 1)) =
     vendor_memory (snd (runPipeline env_label db_empty ctx_approved 0))"
proof -
  have h: "hasLearned db_learned (ex_invoiceId (ctx_extracted ctx_qty))"
    by (simp add: hasLearned_def db_learned_def)
  have n: "detectDuplicate (numToString env0) db_learned (ctx_extracted ctx_qty) = NotDuplicate"
    by (rule detect_no_history) (simp_all add: db_learned_def db_empty_def)
  have i: "ex_invoiceId (ctx_extracted ctx_qty) = ''INV-F''" by simp
  have n2: "detectDuplicate (numToString env_label) db_empty (ctx_extracted ctx_approved)
      = NotDuplicate"
    by (rule detect_empty)
  note f = approved_example(1)
  note t1 = learned_invoice_is_not_relearned
    [where d = db_learned and ctx = ctx_qty and E = env0 and now = 0
       and row = row_approved and ?E2.0 = env0 and ?now2.0 = 0, unfolded i]
  note t2 = learned_invoice_is_not_relearned
    [where d = db_empty and ctx = ctx_approved and E = env_label and now = 0
       and row = row_approved and ?E2.0 = env_label and ?now2.0 = 1]
  note q1 = t1 [THEN conjunct1, THEN mp, OF h [unfolded i]]
  note 1 = q1 [THEN conjunct2, THEN conjunct2, THEN conjunct1] q1 [THEN conjunct1]
  from q1 [THEN conjunct2, THEN conjunct2, THEN conjunct2, THEN conjunct2]
  obtain out where o: "fst (runPipeline env0 db_learned ctx_qty 0) = Inr out \<and>
    out_memoryUpdates out = [] \<and>
    (detectDuplicate (numToString env0) db_learned (ctx_extracted ctx_qty) = NotDuplicate \<longrightarrow>
       out_auditTrail out \<noteq> [] \<and>
       last (out_auditTrail out) =
         \<lparr>at_step = ''learn'', at_timestamp = toISOString env0 0,
          at_details = ''Skipped learning: invoiceId '' @ ''INV-F'' @ '' already learned.''\<rparr>)" ..
  note l = o [THEN conjunct2, THEN conjunct2, THEN mp, OF n, THEN conjunct2]
  have 3:
    "\<exists>out. fst (runPipeline env0 db_learned ctx_qty 0) = Inr out \<and> out_memoryUpdates out = [] \<and>
      last (out_auditTrail out) =
        \<lparr>at_step = ''learn'', at_timestamp = toISOString env0 0,
         at_details = ''Skipped learning: invoiceId '' @ ''INV-F'' @ '' already learned.''\<rparr>"
    by (intro exI [of _ out] conjI)
      (rule o [THEN conjunct1] o [THEN conjunct2, THEN conjunct1] l)+
  note q2 = t2 [THEN conjunct2, THEN mp, OF conjI [OF n2 f]]
  note 2 = q2 [THEN conjunct1] q2 [THEN conjunct2, THEN conjunct2, THEN conjunct2, THEN conjunct1]
    q2 [THEN conjunct2, THEN conjunct1]
  show ?thesis by (intro conjI) (rule h n 1 3 n2 f 2)+
qed

section \<open>Disabled vendor memory\<close>

text \<open>
  Claim C9 (amended). A run that is a duplicate, or finds its invoice learned, or carries
  no approved verdict leaves the vendor memory as it is, so a disabled entry stays
  disabled. Every run keeps the entries in place with their \<^verbatim>\<open>disabledAt\<close> stamp, and an
  entry it leaves with a status other than active is an entry it has not touched: the
  only status a run writes is active, which the Learn phase of an approved verdict does
  write, also on an entry that was disabled. Recall returns active entries without
  \<^verbatim>\<open>disabledAt\<close> stamp only. Of the administrative commands, the confidence reset
  leaves every status as it is and the disable command sets the status disabled and the
  stamp.
\<close>

theorem disabled_vendor_memory:
  "(detectDuplicate (numToString E) d (ctx_extracted ctx) \<noteq> NotDuplicate \<or>
    hasLearned d (ex_invoiceId (ctx_extracted ctx)) \<or>
    (\<forall>row. findDecision ctx \<noteq> Some (row, Approved))
      \<longrightarrow> vendor_memory (snd (runPipeline E d ctx now)) = vendor_memory d) \<and>
   vm_kept_or_active d (snd (runPipeline E d ctx now)) \<and>
   (\<forall>r \<in> set (getVendorMemories d v).
      vm_status r = Active \<and> (vm_disabledAt r = None \<or> vm_disabledAt r = Some [])) \<and>
   map vm_status (vendor_memory (resetVendorMemoryConfidence w d i c)) =
     map vm_status (vendor_memory d) \<and>
   (\<forall>r \<in> set (vendor_memory (disableVendorMemory w d i)).
      vm_id r = i \<longrightarrow> vm_status r = Disabled \<and> vm_disabledAt r = Some w)"
proof -
  have "\<forall>r \<in> set (getVendorMemories d v).
      vm_status r = Active \<and> (vm_disabledAt r = None \<or> vm_disabledAt r = Some [])"
    by (simp add: getVendorMemories_def)
  with run_vendor_unchanged run_vendor_kept reset_keeps_status disable_sets_status
  show ?thesis by blast
qed

lemma db_disabled_simps:
  "vendor_memory db_disabled =
     [vm_example\<lparr>vm_status := Disabled, vm_disabledAt := Some ''2024-03-06T00:00:00.000Z''\<rparr>]"
  "invoice_runs db_disabled = []"
  "duplicate_records db_disabled = []"
  "learning_events db_disabled = []"
  by (simp_all add: db_disabled_def disableVendorMemory_def db_active_def db_empty_def)

lemma upsertVendorMemory_cong:
  "vendor_memory d = vendor_memory d' \<Longrightarrow>
   vendor_memory (upsertVendorMemory d mem) = vendor_memory (upsertVendorMemory d' mem)"
  by (simp add: upsertVendorMemory_def)

lemma approved_example_learns:
  assumes "vendor_memory (ls_db ls) = vendor_memory d"
  shows "vendor_memory (ls_db (learnApproved env_label ctx_approved 0 [] row_approved ls)) =
     vendor_memory
       (upsertVendorMemory d
          \<lparr>vm_id = ''Supplier GmbH::serviceDate_from_label::Leistungsdatum'',
           vm_vendor = ''Supplier GmbH'', vm_kind = ''serviceDate_from_label'',
           vm_pattern = ''Leistungsdatum'', vm_confidence = 7 / 10, vm_supportCount = 1,
           vm_rejectCount = 0, vm_lastUsedAt = Some (toISOString env_label 0),
           vm_status = Active, vm_disabledAt = None\<rparr>)"
proof -
  have "learnApproved env_label ctx_approved 0 [] row_approved ls =
      learnVendorMemory env_label 0 ''Supplier GmbH'' [] ''serviceDate_from_label''
        ''Leistungsdatum'' None ls"
    by (simp add: learnApproved_def Let_def row_approved_def approved_example)
  then show ?thesis
    using upsertVendorMemory_cong [OF assms]
    by (simp add: learnVendorMemory_def Let_def)
qed

text \<open>
  Claim C9 as stated fails: the run that learns from an approved service-date correction
  upserts the vendor-memory entry of the label with status active, and the entry of that
  id was disabled.
\<close>

theorem approved_learning_reactivates:
  "map vm_id (vendor_memory db_disabled) =
     [''Supplier GmbH::serviceDate_from_label::Leistungsdatum''] \<and>
   map vm_status (vendor_memory db_disabled) = [Disabled] \<and>
   map vm_id (vendor_memory (snd (runPipeline env_label db_disabled ctx_approved 0))) =
     [''Supplier GmbH::serviceDate_from_label::Leistungsdatum''] \<and>
   map vm_status (vendor_memory (snd (runPipeline env_label db_disabled ctx_approved 0))) =
     [Active]"
proof -
  let ?vm = "getVendorMemories db_disabled (ctx_vendor ctx_approved)"
  let ?st = "applyPhase env_label ctx_approved 0 ?vm (recallPhase env_label db_disabled ctx_approved 0)"
  have n: "detectDuplicate (numToString env_label) db_disabled (ctx_extracted ctx_approved)
      = NotDuplicate"
    by (rule detect_no_history) (simp_all add: db_disabled_simps)
  have vm: "?vm = []"
    by (simp add: getVendorMemories_def db_disabled_simps)
  from n obtain ls0 where
    d: "ls_db ls0 = st_db ?st"
    and s: "snd (runPipeline env_label db_disabled ctx_approved 0) =
       case_sum snd ls_db
         (learnPhase env_label ctx_approved 0 ?vm (st_usedResolutionKeys ?st)
            (st_usedCorrectionMemoryIds ?st) ls0)"
    by (rule main_learn)
  have v: "vendor_memory (ls_db ls0) = vendor_memory db_disabled"
    unfolding d by (rule apply_frame_fields(1) [OF main_frame])
  have "\<not> hasLearned db_disabled (ex_invoiceId (ctx_extracted ctx_approved))"
    by (simp add: hasLearned_def db_disabled_simps)
  then have h: "\<not> hasLearned (ls_db ls0) (ex_invoiceId (ctx_extracted ctx_approved))"
    unfolding d by (simp add: apply_frame_hasLearned [OF main_frame])
  from s learnPhase_approved [OF h approved_example(1)]
  have "vendor_memory (snd (runPipeline env_label db_disabled ctx_approved 0)) =
      vendor_memory (ls_db (learnApproved env_label ctx_approved 0 ?vm row_approved ls0))"
    by (simp add: learnDecision_vendor)
  also have "\<dots> =
      [vm_example\<lparr>vm_lastUsedAt := Some (toISOString env_label 0),
                  vm_disabledAt := Some ''2024-03-06T00:00:00.000Z''\<rparr>]"
    unfolding vm approved_example_learns [OF v]
    by (simp add: upsertVendorMemory_def db_disabled_simps vm_example_def)
  finally show ?thesis by (simp add: db_disabled_simps vm_example_def)
qed

theorem disabled_vendor_memory_witness:
  "(\<forall>row. findDecision (ctx_of invoice_label) \<noteq> Some (row, Approved)) \<and>
   map vm_status (vendor_memory db_disabled) = [Disabled] \<and>
   map vm_status (vendor_memory (snd (runPipeline env_label db_disabled (ctx_of invoice_label) 0)))
     = [Disabled] \<and>
   vm_example \<in> set (getVendorMemories db_active ''Supplier GmbH'') \<and>
   vm_status vm_example = Active \<and>
   map vm_status (vendor_memory (resetVendorMemoryConfidence ''2024-03-06T00:00:00.000Z'' db_disabled
                                   (vm_id vm_example) 1)) = [Disabled] \<and>
   vm_example\<lparr>vm_status := Disabled, vm_disabledAt := Some ''2024-03-06T00:00:00.000Z''\<rparr>
     \<in> set (vendor_memory (disableVendorMemory ''2024-03-06T00:00:00.000Z'' db_active (vm_id vm_example))) \<and>
   vm_kept_or_active db_active
     (snd (runPipeline env_label db_active (ctx_of invoice_label) 0))"
proof -
  note t1 = disabled_vendor_memory
    [where d = db_disabled and ctx = "ctx_of invoice_label" and E = env_label and now = 0
       and v = "''Supplier GmbH''" and w = "''2024-03-06T00:00:00.000Z''" and i = "vm_id vm_example"
       and c = 1]
  note t2 = disabled_vendor_memory
    [where d = db_active and ctx = "ctx_of invoice_label" and E = env_label and now = 0
       and v = "''Supplier GmbH''" and w = "''2024-03-06T00:00:00.000Z''" and i = "vm_id vm_example"
       and c = 1]
  have f: "\<forall>row. findDecision (ctx_of invoice_label) \<noteq> Some (row, Approved)" by simp
  have s: "map vm_status (vendor_memory db_disabled) = [Disabled]"
    by (simp add: db_disabled_simps)
  have "vendor_memory (snd (runPipeline env_label db_disabled (ctx_of invoice_label) 0)) =
      vendor_memory db_disabled"
    using t1 [THEN conjunct1] f by blast
  with s have 1: "map vm_status
      (vendor_memory (snd (runPipeline env_label db_disabled (ctx_of invoice_label) 0)))
     = [Disabled]"
    by simp
  have m: "vm_example \<in> set (getVendorMemories db_active ''Supplier GmbH'')"
    by (simp add: getVendorMemories_def db_active_def vm_example_def)
  with t2 [THEN conjunct2, THEN conjunct2, THEN conjunct1]
  have 2: "vm_status vm_example = Active" by blast
  from t1 [THEN conjunct2, THEN conjunct2, THEN conjunct2, THEN conjunct1] s
  have 3: "map vm_status (vendor_memory (resetVendorMemoryConfidence ''2024-03-06T00:00:00.000Z'' db_disabled
                                   (vm_id vm_example) 1)) = [Disabled]"
    by simp
  have 4: "vm_example\<lparr>vm_status := Disabled, vm_disabledAt := Some ''2024-03-06T00:00:00.000Z''\<rparr>
     \<in> set (vendor_memory (disableVendorMemory ''2024-03-06T00:00:00.000Z'' db_active (vm_id vm_example)))"
    by (simp add: disableVendorMemory_def db_active_def)
  note 5 = t2 [THEN conjunct2, THEN conjunct1]
  show ?thesis by (intro conjI) (rule f s 1 m 2 3 4 5)+
qed

end
